theory Spec2Isabelle
  imports Main "HOL-Library.Sublist"
begin

section \<open>The user data disk reconciler (pkg/disk/disk.go)\<close>

text \<open>
  \<^verbatim>\<open>EnsureUserDataDisk\<close> talks to three collaborators: a filesystem (\<^verbatim>\<open>diskFS\<close>), the Lima
  command creator (\<^verbatim>\<open>lcc\<close>) and the general command creator (\<^verbatim>\<open>ecc\<close>, used for
  \<^verbatim>\<open>qemu-img\<close>). None of them is part of the package, so the embedding takes them as
  parameters: an environment record of functions over an arbitrary world type \<open>'w\<close>.
  Every call of a collaborator is recorded, with its arguments and its reply, in a trace
  of events, so that "is invoked", "exactly once" and "performs no operation" are
  statements about that trace.
\<close>

subsection \<open>Values exchanged with the collaborators\<close>

text \<open>A Go \<^verbatim>\<open>error\<close> of a collaborator. \<^verbatim>\<open>errors.Is(err, fs.ErrNotExist)\<close> is \<open>err = ErrNotExist\<close>.\<close>

datatype goerror = ErrNotExist | ErrOther string

text \<open>\<^verbatim>\<open>type qemuDiskInfo struct\<close>.\<close>

record qemuDiskInfo =
  VirtualSize :: int
  Filename :: string
  Format :: string
  ActualSize :: int
  DirtyFlag :: bool

text \<open>\<^verbatim>\<open>limaStore.Disk\<close>: the package reads only its \<^verbatim>\<open>Name\<close>.\<close>

record Disk =
  Name :: string

text \<open>The errors \<^verbatim>\<open>EnsureUserDataDisk\<close> returns, one constructor per \<^verbatim>\<open>return\<close> site.\<close>

datatype error =
    ErrGetDiskInfo string goerror
      \<comment> \<open>"failed to get disk info for disk at %q: %w"\<close>
  | ErrUnmarshalDiskInfo string goerror
      \<comment> \<open>"failed to unmarshal disk info JSON for disk at %q: %w"\<close>
  | ErrRenameDisk goerror
      \<comment> \<open>"faied to rename disk: %w"\<close>
  | ErrConvertDisk string goerror
      \<comment> \<open>"failed to convert disk %q from qcow2 to raw: %w"\<close>
  | ErrCreateDisk string
      \<comment> \<open>"failed to create disk, debug logs:\n%s"\<close>
  | ErrMkdirPersistent goerror
      \<comment> \<open>"could not create persistent disk directory: %w"\<close>
  | ErrMovePersistent goerror
      \<comment> \<open>"could not move data disk to persistent path: %w"\<close>
  | ErrFs goerror
      \<comment> \<open>a filesystem error returned as it is\<close>
  | ErrUnlockDisk string
      \<comment> \<open>"failed to unlock disk, debug logs:\n%s"\<close>

text \<open>One event per call of a collaborator: the arguments, then the reply.\<close>

datatype event =
    EvStat string "goerror option"
  | EvRename string string "goerror option"
  | EvMkdirAll string nat "goerror option"
  | EvRemove string "goerror option"
  | EvReadlink string "string \<times> goerror option"
  | EvSymlink string string "goerror option"
  | EvLimaOutput "string list" "string \<times> goerror option"
  | EvLimaCombinedOutput "string list" "string \<times> goerror option"
  | EvExecCombinedOutput string "string list" "string \<times> goerror option"

subsection \<open>The collaborators\<close>

text \<open>
  The fields of \<^verbatim>\<open>userDataDiskManager\<close> and the library functions it calls.
  \<open>fsStat\<close> drops the \<^verbatim>\<open>FileInfo\<close>, which the package never reads. A command is its
  argument list; \<open>lccOutput\<close> is \<^verbatim>\<open>lcc.CreateWithoutStdio(args...).Output()\<close>,
  \<open>lccCombinedOutput\<close> the same with \<^verbatim>\<open>CombinedOutput()\<close>, and \<open>eccCombinedOutput\<close> is
  \<^verbatim>\<open>ecc.Create(name, args...).CombinedOutput()\<close>. \<open>VMType\<close> is the string
  \<^verbatim>\<open>*m.config.VMType\<close>: the embedding covers the managers whose \<^verbatim>\<open>VMType\<close> is set (with a
  nil pointer line 81 panics once the registry lists the disk). \<open>unmarshalDisk\<close> and
  \<open>unmarshalQemuDiskInfo\<close> are \<^verbatim>\<open>json.Unmarshal\<close> into the two structs, \<open>pathJoin\<close> and
  \<open>pathDir\<close> are \<^verbatim>\<open>path.Join\<close> and \<^verbatim>\<open>path.Dir\<close>.
\<close>

record 'w env =
  VMType :: string
  homeDir :: string
  finchLayout :: string
  LimaHomePath :: string
  QEMUBinDir :: string
  fsStat :: "string \<Rightarrow> 'w \<Rightarrow> goerror option \<times> 'w"
  fsRename :: "string \<Rightarrow> string \<Rightarrow> 'w \<Rightarrow> goerror option \<times> 'w"
  fsMkdirAll :: "string \<Rightarrow> nat \<Rightarrow> 'w \<Rightarrow> goerror option \<times> 'w"
  fsRemove :: "string \<Rightarrow> 'w \<Rightarrow> goerror option \<times> 'w"
  fsReadlinkIfPossible :: "string \<Rightarrow> 'w \<Rightarrow> (string \<times> goerror option) \<times> 'w"
  fsSymlinkIfPossible :: "string \<Rightarrow> string \<Rightarrow> 'w \<Rightarrow> goerror option \<times> 'w"
  lccOutput :: "string list \<Rightarrow> 'w \<Rightarrow> (string \<times> goerror option) \<times> 'w"
  lccCombinedOutput :: "string list \<Rightarrow> 'w \<Rightarrow> (string \<times> goerror option) \<times> 'w"
  eccCombinedOutput :: "string \<Rightarrow> string list \<Rightarrow> 'w \<Rightarrow> (string \<times> goerror option) \<times> 'w"
  unmarshalDisk :: "string \<Rightarrow> goerror + Disk"
  unmarshalQemuDiskInfo :: "string \<Rightarrow> goerror + qemuDiskInfo"
  pathJoin :: "string list \<Rightarrow> string"
  pathDir :: "string \<Rightarrow> string"

subsection \<open>Programs with a trace\<close>

text \<open>A program maps a world to its result, the events it caused and the new world.\<close>

type_synonym ('a, 'w) prog = "'w \<Rightarrow> 'a \<times> event list \<times> 'w"

definition ret :: "'a \<Rightarrow> ('a, 'w) prog" where
  "ret a = (\<lambda>w. (a, [], w))"

definition thenDo :: "('a, 'w) prog \<Rightarrow> ('a \<Rightarrow> ('b, 'w) prog) \<Rightarrow> ('b, 'w) prog" where
  "thenDo m k = (\<lambda>w. case m w of (a, es, w1) \<Rightarrow>
     (case k a w1 of (b, es', w2) \<Rightarrow> (b, es @ es', w2)))"

text \<open>\<^verbatim>\<open>if err := m; err != nil { return err }\<close> followed by \<open>k\<close>.\<close>

definition orReturn :: "(error option, 'w) prog \<Rightarrow> (error option, 'w) prog \<Rightarrow> (error option, 'w) prog" where
  "orReturn m k = thenDo m (\<lambda>r. case r of Some e \<Rightarrow> ret (Some e) | None \<Rightarrow> k)"

text \<open>A call of a collaborator, recorded.\<close>

definition call :: "('w \<Rightarrow> 'r \<times> 'w) \<Rightarrow> ('r \<Rightarrow> event) \<Rightarrow> ('r, 'w) prog" where
  "call f ev = (\<lambda>w. case f w of (r, w1) \<Rightarrow> (r, [ev r], w1))"

definition Stat :: "'w env \<Rightarrow> string \<Rightarrow> (goerror option, 'w) prog" where
  "Stat m p = call (fsStat m p) (EvStat p)"

definition Rename :: "'w env \<Rightarrow> string \<Rightarrow> string \<Rightarrow> (goerror option, 'w) prog" where
  "Rename m p q = call (fsRename m p q) (EvRename p q)"

definition MkdirAll :: "'w env \<Rightarrow> string \<Rightarrow> nat \<Rightarrow> (goerror option, 'w) prog" where
  "MkdirAll m p perm = call (fsMkdirAll m p perm) (EvMkdirAll p perm)"

definition Remove :: "'w env \<Rightarrow> string \<Rightarrow> (goerror option, 'w) prog" where
  "Remove m p = call (fsRemove m p) (EvRemove p)"

definition ReadlinkIfPossible :: "'w env \<Rightarrow> string \<Rightarrow> (string \<times> goerror option, 'w) prog" where
  "ReadlinkIfPossible m p = call (fsReadlinkIfPossible m p) (EvReadlink p)"

definition SymlinkIfPossible :: "'w env \<Rightarrow> string \<Rightarrow> string \<Rightarrow> (goerror option, 'w) prog" where
  "SymlinkIfPossible m p q = call (fsSymlinkIfPossible m p q) (EvSymlink p q)"

definition limaOutput :: "'w env \<Rightarrow> string list \<Rightarrow> (string \<times> goerror option, 'w) prog" where
  "limaOutput m args = call (lccOutput m args) (EvLimaOutput args)"

definition limaCombinedOutput :: "'w env \<Rightarrow> string list \<Rightarrow> (string \<times> goerror option, 'w) prog" where
  "limaCombinedOutput m args = call (lccCombinedOutput m args) (EvLimaCombinedOutput args)"

definition execCombinedOutput :: "'w env \<Rightarrow> string \<Rightarrow> string list \<Rightarrow> (string \<times> goerror option, 'w) prog" where
  "execCombinedOutput m name args = call (eccCombinedOutput m name args) (EvExecCombinedOutput name args)"

subsection \<open>Constants and paths\<close>

definition diskName :: string where
  "diskName = ''finch''"

definition diskSize :: string where
  "diskSize = ''50G''"

text \<open>
  Modelled from the spec: \<^verbatim>\<open>m.finch.UserDataDiskPath(m.homeDir)\<close> of package \<^verbatim>\<open>path\<close>, which
  is not among the sources. The spec gives the persistent disk file as
  \<^verbatim>\<open><home>/<finch-relative-layout>/datadisk\<close>; the layout is a parameter.
\<close>

definition UserDataDiskPath :: "'w env \<Rightarrow> string" where
  "UserDataDiskPath m = homeDir m @ ''/'' @ finchLayout m @ ''/datadisk''"

text \<open>\<^verbatim>\<open>fmt.Sprintf("%s/_disks/%s/datadisk", m.finch.LimaHomePath(), diskName)\<close>.\<close>

definition limaPath :: "'w env \<Rightarrow> string" where
  "limaPath m = LimaHomePath m @ ''/_disks/'' @ diskName @ ''/datadisk''"

text \<open>\<^verbatim>\<open>path.Join(m.finch.LimaHomePath(), "_disks", diskName, "in_use_by")\<close>.\<close>

definition lockPath :: "'w env \<Rightarrow> string" where
  "lockPath m = pathJoin m [LimaHomePath m, ''_disks'', diskName, ''in_use_by'']"

text \<open>\<^verbatim>\<open>path.Join(m.finch.QEMUBinDir(), "qemu-img")\<close>.\<close>

definition qemuImg :: "'w env \<Rightarrow> string" where
  "qemuImg m = pathJoin m [QEMUBinDir m, ''qemu-img'']"

subsection \<open>The functions of the package\<close>

definition persistentDiskExists :: "'w env \<Rightarrow> (bool, 'w) prog" where
  "persistentDiskExists m =
     thenDo (Stat m (UserDataDiskPath m)) (\<lambda>err. ret (err = None))"

definition limaDiskExists :: "'w env \<Rightarrow> (bool, 'w) prog" where
  "limaDiskExists m =
     thenDo (limaOutput m [''disk'', ''ls'', diskName, ''--json'']) (\<lambda>(out, err).
       if err \<noteq> None then ret False
       else (case unmarshalDisk m out of
               Inl e \<Rightarrow> ret False
             | Inr diskListOutput \<Rightarrow> ret (Name diskListOutput = diskName)))"

definition getDiskInfo :: "'w env \<Rightarrow> string \<Rightarrow> (error + qemuDiskInfo, 'w) prog" where
  "getDiskInfo m diskPath =
     thenDo (execCombinedOutput m (qemuImg m) [''info'', ''--output=json'', diskPath]) (\<lambda>(out, err).
       case err of
         Some e \<Rightarrow> ret (Inl (ErrGetDiskInfo diskPath e))
       | None \<Rightarrow>
           (case unmarshalQemuDiskInfo m out of
              Inl e \<Rightarrow> ret (Inl (ErrUnmarshalDiskInfo diskPath e))
            | Inr diskInfoJSON \<Rightarrow> ret (Inr diskInfoJSON)))"

definition convertToRaw :: "'w env \<Rightarrow> string \<Rightarrow> (error option, 'w) prog" where
  "convertToRaw m diskPath =
     (let qcowPath = diskPath @ ''.qcow2'' in
      thenDo (Rename m diskPath qcowPath) (\<lambda>err.
        case err of
          Some e \<Rightarrow> ret (Some (ErrRenameDisk e))
        | None \<Rightarrow>
            thenDo (execCombinedOutput m (qemuImg m)
                      [''convert'', ''-f'', ''qcow2'', ''-O'', ''raw'', qcowPath, diskPath]) (\<lambda>(out, err).
              case err of
                Some e \<Rightarrow> ret (Some (ErrConvertDisk diskPath e))
              | None \<Rightarrow> ret None)))"

definition createLimaDisk :: "'w env \<Rightarrow> (error option, 'w) prog" where
  "createLimaDisk m =
     thenDo (limaCombinedOutput m
               [''disk'', ''create'', diskName, ''--size'', diskSize, ''--format'', ''raw'']) (\<lambda>(logs, err).
       if err \<noteq> None then ret (Some (ErrCreateDisk logs)) else ret None)"

definition attachPersistentDiskToLimaDisk :: "'w env \<Rightarrow> (error option, 'w) prog" where
  "attachPersistentDiskToLimaDisk m =
     orReturn
       (thenDo (persistentDiskExists m) (\<lambda>present.
          if \<not> present then
            (let disksDir = pathDir m (UserDataDiskPath m) in
             thenDo (Stat m disksDir) (\<lambda>err.
               orReturn
                 (if err = Some ErrNotExist then
                    thenDo (MkdirAll m disksDir 493) (\<lambda>err.
                      case err of
                        Some e \<Rightarrow> ret (Some (ErrMkdirPersistent e))
                      | None \<Rightarrow> ret None)
                  else ret None)
                 (thenDo (Rename m (limaPath m) (UserDataDiskPath m)) (\<lambda>err.
                    case err of
                      Some e \<Rightarrow> ret (Some (ErrMovePersistent e))
                    | None \<Rightarrow> ret None))))
          else ret None))
       (orReturn
          (thenDo (Stat m (limaPath m)) (\<lambda>err.
             case err of
               Some e \<Rightarrow> if e \<noteq> ErrNotExist then ret (Some (ErrFs e)) else ret None
             | None \<Rightarrow>
                 thenDo (Remove m (limaPath m)) (\<lambda>err.
                   case err of
                     Some e \<Rightarrow> ret (Some (ErrFs e))
                   | None \<Rightarrow> ret None)))
          (thenDo (SymlinkIfPossible m (UserDataDiskPath m) (limaPath m)) (\<lambda>err.
             case err of
               Some e \<Rightarrow> ret (Some (ErrFs e))
             | None \<Rightarrow> ret None)))"

definition limaDiskIsLocked :: "'w env \<Rightarrow> (bool, 'w) prog" where
  "limaDiskIsLocked m =
     thenDo (Stat m (lockPath m)) (\<lambda>err. ret (err = None))"

definition unlockLimaDisk :: "'w env \<Rightarrow> (error option, 'w) prog" where
  "unlockLimaDisk m =
     thenDo (limaCombinedOutput m [''disk'', ''unlock'', diskName]) (\<lambda>(logs, err).
       if err \<noteq> None then ret (Some (ErrUnlockDisk logs)) else ret None)"

definition EnsureUserDataDisk :: "'w env \<Rightarrow> (error option, 'w) prog" where
  "EnsureUserDataDisk m =
     orReturn
       (thenDo (limaDiskExists m) (\<lambda>listed.
          if listed then
            (let diskPath = UserDataDiskPath m in
             orReturn
               (if VMType m = ''vz'' then
                  thenDo (getDiskInfo m diskPath) (\<lambda>r.
                    case r of
                      Inl e \<Rightarrow> ret (Some e)
                    | Inr info \<Rightarrow>
                        if Format info \<noteq> ''raw'' then
                          orReturn (convertToRaw m diskPath) (attachPersistentDiskToLimaDisk m)
                        else ret None)
                else ret None)
               (thenDo (ReadlinkIfPossible m (limaPath m)) (\<lambda>(loc, err).
                  case err of
                    Some e \<Rightarrow> ret (Some (ErrFs e))
                  | None \<Rightarrow>
                      if loc \<noteq> diskPath then attachPersistentDiskToLimaDisk m else ret None)))
          else
            orReturn (createLimaDisk m) (attachPersistentDiskToLimaDisk m)))
       (thenDo (limaDiskIsLocked m) (\<lambda>locked.
          if locked then unlockLimaDisk m else ret None))"

text \<open>
  The three blocks of \<^verbatim>\<open>EnsureUserDataDisk\<close>, named so that a theorem can speak of the
  world in which a block starts: lines 81-100 (the format check under \<^verbatim>\<open>vz\<close>), lines
  104-114 (the link check) and lines 124-129 (the lock check). Lemma
  \<open>EnsureUserDataDisk_blocks\<close> below shows that the function is their composition.
\<close>

definition formatNormalization :: "'w env \<Rightarrow> (error option, 'w) prog" where
  "formatNormalization m =
     (if VMType m = ''vz'' then
        thenDo (getDiskInfo m (UserDataDiskPath m)) (\<lambda>r.
          case r of
            Inl e \<Rightarrow> ret (Some e)
          | Inr info \<Rightarrow>
              if Format info \<noteq> ''raw'' then
                orReturn (convertToRaw m (UserDataDiskPath m)) (attachPersistentDiskToLimaDisk m)
              else ret None)
      else ret None)"

definition linkVerification :: "'w env \<Rightarrow> (error option, 'w) prog" where
  "linkVerification m =
     thenDo (ReadlinkIfPossible m (limaPath m)) (\<lambda>(loc, err).
       case err of
         Some e \<Rightarrow> ret (Some (ErrFs e))
       | None \<Rightarrow>
           if loc \<noteq> UserDataDiskPath m then attachPersistentDiskToLimaDisk m else ret None)"

definition lockClearance :: "'w env \<Rightarrow> (error option, 'w) prog" where
  "lockClearance m =
     thenDo (limaDiskIsLocked m) (\<lambda>locked.
       if locked then unlockLimaDisk m else ret None)"

text \<open>
  The three blocks of \<^verbatim>\<open>attachPersistentDiskToLimaDisk\<close>: lines 203-214 (move the slot's
  file when there is no persistent file), lines 218-228 (remove what holds the slot) and
  lines 230-233 (create the link). Lemma \<open>attach_blocks\<close> below shows that the function
  is their composition.
\<close>

definition capturePersistent :: "'w env \<Rightarrow> (error option, 'w) prog" where
  "capturePersistent m =
     thenDo (persistentDiskExists m) (\<lambda>present.
       if \<not> present then
         (let disksDir = pathDir m (UserDataDiskPath m) in
          thenDo (Stat m disksDir) (\<lambda>err.
            orReturn
              (if err = Some ErrNotExist then
                 thenDo (MkdirAll m disksDir 493) (\<lambda>err.
                   case err of
                     Some e \<Rightarrow> ret (Some (ErrMkdirPersistent e))
                   | None \<Rightarrow> ret None)
               else ret None)
              (thenDo (Rename m (limaPath m) (UserDataDiskPath m)) (\<lambda>err.
                 case err of
                   Some e \<Rightarrow> ret (Some (ErrMovePersistent e))
                 | None \<Rightarrow> ret None))))
       else ret None)"

definition clearSlot :: "'w env \<Rightarrow> (error option, 'w) prog" where
  "clearSlot m =
     thenDo (Stat m (limaPath m)) (\<lambda>err.
       case err of
         Some e \<Rightarrow> if e \<noteq> ErrNotExist then ret (Some (ErrFs e)) else ret None
       | None \<Rightarrow>
           thenDo (Remove m (limaPath m)) (\<lambda>err.
             case err of
               Some e \<Rightarrow> ret (Some (ErrFs e))
             | None \<Rightarrow> ret None))"

definition linkSlot :: "'w env \<Rightarrow> (error option, 'w) prog" where
  "linkSlot m =
     thenDo (SymlinkIfPossible m (UserDataDiskPath m) (limaPath m)) (\<lambda>err.
       case err of
         Some e \<Rightarrow> ret (Some (ErrFs e))
       | None \<Rightarrow> ret None)"

subsection \<open>Reading a trace\<close>

definition lsArgs :: "string list" where
  "lsArgs = [''disk'', ''ls'', diskName, ''--json'']"

definition createArgs :: "string list" where
  "createArgs = [''disk'', ''create'', diskName, ''--size'', diskSize, ''--format'', ''raw'']"

definition unlockArgs :: "string list" where
  "unlockArgs = [''disk'', ''unlock'', diskName]"

definition infoArgs :: "string \<Rightarrow> string list" where
  "infoArgs p = [''info'', ''--output=json'', p]"

definition convertArgs :: "string \<Rightarrow> string list" where
  "convertArgs p = [''convert'', ''-f'', ''qcow2'', ''-O'', ''raw'', p @ ''.qcow2'', p]"

text \<open>The event is a run of the registry's unlock command.\<close>

fun is_unlock :: "event \<Rightarrow> bool" where
  "is_unlock (EvLimaCombinedOutput args r) = (args = unlockArgs)"
| "is_unlock _ = False"

text \<open>No event of the trace is a run of the unlock command.\<close>

definition noUnlock :: "event list \<Rightarrow> bool" where
  "noUnlock es = list_all (\<lambda>ev. \<not> is_unlock ev) es"

text \<open>The event is a run of the conversion tool in its \<^verbatim>\<open>convert\<close> mode.\<close>

fun is_convert :: "event \<Rightarrow> bool" where
  "is_convert (EvExecCombinedOutput name args r) = (take 1 args = [''convert''])"
| "is_convert _ = False"

text \<open>The event changes the registry or the filesystem: every call but the queries.\<close>

fun is_mutation :: "event \<Rightarrow> bool" where
  "is_mutation (EvStat p r) = False"
| "is_mutation (EvReadlink p r) = False"
| "is_mutation (EvLimaOutput args r) = (args \<noteq> lsArgs)"
| "is_mutation (EvExecCombinedOutput name args r) = (take 1 args \<noteq> [''info''])"
| "is_mutation _ = True"

text \<open>The events \<^verbatim>\<open>attachPersistentDiskToLimaDisk\<close> can cause.\<close>

fun attachEvent :: "'w env \<Rightarrow> event \<Rightarrow> bool" where
  "attachEvent m (EvStat p r) =
     (p = UserDataDiskPath m \<or> p = pathDir m (UserDataDiskPath m) \<or> p = limaPath m)"
| "attachEvent m (EvMkdirAll p perm r) = (p = pathDir m (UserDataDiskPath m) \<and> perm = 493)"
| "attachEvent m (EvRename p q r) = (p = limaPath m \<and> q = UserDataDiskPath m)"
| "attachEvent m (EvRemove p r) = (p = limaPath m)"
| "attachEvent m (EvSymlink p q r) = (p = UserDataDiskPath m \<and> q = limaPath m)"
| "attachEvent m ev = False"

text \<open>The events \<^verbatim>\<open>EnsureUserDataDisk\<close> can cause before its lock check.\<close>

fun reconcileEvent :: "'w env \<Rightarrow> event \<Rightarrow> bool" where
  "reconcileEvent m (EvLimaOutput args r) = (args = lsArgs)"
| "reconcileEvent m (EvLimaCombinedOutput args r) = (args = createArgs)"
| "reconcileEvent m (EvExecCombinedOutput name args r) =
     (name = qemuImg m \<and>
      (args = infoArgs (UserDataDiskPath m) \<or> args = convertArgs (UserDataDiskPath m)))"
| "reconcileEvent m (EvRename p q r) =
     (p = UserDataDiskPath m \<and> q = UserDataDiskPath m @ ''.qcow2'' \<or>
      p = limaPath m \<and> q = UserDataDiskPath m)"
| "reconcileEvent m (EvReadlink p r) = (p = limaPath m)"
| "reconcileEvent m ev = attachEvent m ev"

text \<open>
  The trace of a link repair that returns no error, from the replies to its three
  \<^verbatim>\<open>Stat\<close> calls: of the persistent path, of its directory (read only when the first
  failed) and of the slot.
\<close>

definition linkRepairTrace ::
  "'w env \<Rightarrow> goerror option \<Rightarrow> goerror option \<Rightarrow> goerror option \<Rightarrow> event list" where
  "linkRepairTrace m st sd sl =
     EvStat (UserDataDiskPath m) st #
     (if st = None then []
      else EvStat (pathDir m (UserDataDiskPath m)) sd #
           (if sd = Some ErrNotExist then [EvMkdirAll (pathDir m (UserDataDiskPath m)) 493 None]
            else []) @
           [EvRename (limaPath m) (UserDataDiskPath m) None]) @
     EvStat (limaPath m) sl #
     (if sl = None then [EvRemove (limaPath m) None] else []) @
     [EvSymlink (UserDataDiskPath m) (limaPath m) None]"

text \<open>
  The outcome of a link repair, from the replies of the seven calls it can make and the
  worlds they leave: the stat of the persistent path (\<open>st\<close>); when that fails, the stat
  of its directory (\<open>sd\<close>), \<^verbatim>\<open>MkdirAll\<close> when the directory is reported missing (\<open>mk\<close>,
  leaving \<open>w3\<close>) and the move of the slot to the persistent path (\<open>mv\<close>, leaving \<open>w4\<close>);
  then the stat of the slot (\<open>sl\<close>, leaving \<open>w5\<close>), its removal when the stat succeeded
  (\<open>rm\<close>, leaving \<open>w6\<close>) and the creation of the link (\<open>ln\<close>, leaving \<open>w7\<close>). The first
  failed call ends the repair with its error; a slot reported missing is not a failure.
\<close>

definition linkRepairOutcome ::
  "'w env \<Rightarrow> goerror option \<Rightarrow> goerror option \<Rightarrow> goerror option \<Rightarrow> 'w \<Rightarrow>
   goerror option \<Rightarrow> 'w \<Rightarrow> goerror option \<Rightarrow> 'w \<Rightarrow> goerror option \<Rightarrow> 'w \<Rightarrow>
   goerror option \<Rightarrow> 'w \<Rightarrow> error option \<times> event list \<times> 'w" where
  "linkRepairOutcome m st sd mk w3 mv w4 sl w5 rm w6 ln w7 =
     (let looked =
            EvStat (UserDataDiskPath m) st #
            (if st = None then []
             else EvStat (pathDir m (UserDataDiskPath m)) sd #
                  (if sd = Some ErrNotExist
                   then [EvMkdirAll (pathDir m (UserDataDiskPath m)) 493 mk] else []));
          moved =
            looked @ (if st = None then [] else [EvRename (limaPath m) (UserDataDiskPath m) mv])
      in
      if st \<noteq> None \<and> sd = Some ErrNotExist \<and> mk \<noteq> None then
        (map_option ErrMkdirPersistent mk, looked, w3)
      else if st \<noteq> None \<and> mv \<noteq> None then
        (map_option ErrMovePersistent mv, moved, w4)
      else if sl \<noteq> None \<and> sl \<noteq> Some ErrNotExist then
        (map_option ErrFs sl, moved @ [EvStat (limaPath m) sl], w5)
      else if sl = None \<and> rm \<noteq> None then
        (map_option ErrFs rm, moved @ [EvStat (limaPath m) sl, EvRemove (limaPath m) rm], w6)
      else
        (map_option ErrFs ln,
         moved @ EvStat (limaPath m) sl #
           (if sl = None then [EvRemove (limaPath m) rm] else []) @
           [EvSymlink (UserDataDiskPath m) (limaPath m) ln],
         w7))"

text \<open>
  The returned error is the one of this event: the event is a failed call (or, for the
  inspection, a reply that does not decode), and the error wraps its cause.
\<close>

definition reported :: "'w env \<Rightarrow> error \<Rightarrow> event \<Rightarrow> bool" where
  "reported m err ev =
     (case err of
        ErrGetDiskInfo p e \<Rightarrow>
          (case ev of
             EvExecCombinedOutput name args r \<Rightarrow> args = infoArgs p \<and> snd r = Some e
           | _ \<Rightarrow> False)
      | ErrUnmarshalDiskInfo p e \<Rightarrow>
          (case ev of
             EvExecCombinedOutput name args r \<Rightarrow>
               args = infoArgs p \<and> snd r = None \<and> unmarshalQemuDiskInfo m (fst r) = Inl e
           | _ \<Rightarrow> False)
      | ErrRenameDisk e \<Rightarrow>
          (case ev of
             EvRename p q r \<Rightarrow>
               p = UserDataDiskPath m \<and> q = UserDataDiskPath m @ ''.qcow2'' \<and> r = Some e
           | _ \<Rightarrow> False)
      | ErrConvertDisk p e \<Rightarrow>
          (case ev of
             EvExecCombinedOutput name args r \<Rightarrow> args = convertArgs p \<and> snd r = Some e
           | _ \<Rightarrow> False)
      | ErrCreateDisk logs \<Rightarrow>
          (case ev of
             EvLimaCombinedOutput args r \<Rightarrow> args = createArgs \<and> fst r = logs \<and> snd r \<noteq> None
           | _ \<Rightarrow> False)
      | ErrMkdirPersistent e \<Rightarrow>
          (case ev of EvMkdirAll p perm r \<Rightarrow> r = Some e | _ \<Rightarrow> False)
      | ErrMovePersistent e \<Rightarrow>
          (case ev of
             EvRename p q r \<Rightarrow> p = limaPath m \<and> q = UserDataDiskPath m \<and> r = Some e
           | _ \<Rightarrow> False)
      | ErrFs e \<Rightarrow>
          (case ev of
             EvStat p r \<Rightarrow> p = limaPath m \<and> r = Some e \<and> e \<noteq> ErrNotExist
           | EvRemove p r \<Rightarrow> r = Some e
           | EvReadlink p r \<Rightarrow> snd r = Some e
           | EvSymlink p q r \<Rightarrow> r = Some e
           | _ \<Rightarrow> False)
      | ErrUnlockDisk logs \<Rightarrow>
          (case ev of
             EvLimaCombinedOutput args r \<Rightarrow> args = unlockArgs \<and> fst r = logs \<and> snd r \<noteq> None
           | _ \<Rightarrow> False))"

text \<open>
  The conversion is due: the registry lists the disk, the backend is \<^verbatim>\<open>vz\<close>, the
  inspection succeeds with a format other than raw, and the persistent file can be
  renamed.
\<close>

definition conversionDue :: "'w env \<Rightarrow> 'w \<Rightarrow> bool" where
  "conversionDue m w =
     (case limaDiskExists m w of (listed, es0, w1) \<Rightarrow>
        listed \<and> VMType m = ''vz'' \<and>
        (case getDiskInfo m (UserDataDiskPath m) w1 of
           (Inl e, es1, w2) \<Rightarrow> False
         | (Inr info, es1, w2) \<Rightarrow>
             Format info \<noteq> ''raw'' \<and>
             fst (fsRename m (UserDataDiskPath m) (UserDataDiskPath m @ ''.qcow2'') w2) = None))"


subsection \<open>A simulated host\<close>

text \<open>
  Modelled from the spec: the filesystem, the registry command and the image tool are
  external to the package. The host below gives them the behaviour the spec describes:
  a path holds a regular file (with the format of the image in it), a symlink or a
  directory; \<^verbatim>\<open>stat\<close> succeeds when the path holds anything; reading a link gives the
  empty string for anything that is not a symlink; creating a link does nothing when
  its path is taken; the registry lists the disk when it is registered, creates it as a
  raw file in its slot, and unlocks it by removing the lock marker; the image tool
  reports the format of a regular file and converts a file of the named source format.
\<close>

datatype node = File string | Link string | Dir

record host =
  files :: "string \<Rightarrow> node option"
  registered :: bool

text \<open>Modelled from the spec: \<^verbatim>\<open>Stat\<close> of the filesystem, which succeeds when the path holds anything.\<close>

definition hostStat :: "string \<Rightarrow> host \<Rightarrow> goerror option \<times> host" where
  "hostStat p w = (if files w p = None then Some ErrNotExist else None, w)"

text \<open>Modelled from the spec: \<^verbatim>\<open>Rename\<close> of the filesystem, a move that replaces what the
  destination holds and fails when the source is missing.\<close>

definition hostRename :: "string \<Rightarrow> string \<Rightarrow> host \<Rightarrow> goerror option \<times> host" where
  "hostRename p q w =
     (case files w p of
        None \<Rightarrow> (Some ErrNotExist, w)
      | Some n \<Rightarrow> (None, w\<lparr>files := ((files w)(p := None))(q \<mapsto> n)\<rparr>))"

text \<open>Modelled from the spec: \<^verbatim>\<open>MkdirAll\<close> of the filesystem (the mode is not kept).\<close>

definition hostMkdirAll :: "string \<Rightarrow> nat \<Rightarrow> host \<Rightarrow> goerror option \<times> host" where
  "hostMkdirAll p perm w =
     (case files w p of
        None \<Rightarrow> (None, w\<lparr>files := (files w)(p \<mapsto> Dir)\<rparr>)
      | Some Dir \<Rightarrow> (None, w)
      | Some _ \<Rightarrow> (Some (ErrOther ''not a directory''), w))"

text \<open>Modelled from the spec: \<^verbatim>\<open>Remove\<close> of the filesystem.\<close>

definition hostRemove :: "string \<Rightarrow> host \<Rightarrow> goerror option \<times> host" where
  "hostRemove p w =
     (case files w p of
        None \<Rightarrow> (Some ErrNotExist, w)
      | Some n \<Rightarrow> (None, w\<lparr>files := (files w)(p := None)\<rparr>))"

text \<open>Modelled from the spec: \<^verbatim>\<open>ReadlinkIfPossible\<close> of the filesystem, with the empty result for a
  path that is not a symlink (a real file or missing).\<close>

definition hostReadlink :: "string \<Rightarrow> host \<Rightarrow> (string \<times> goerror option) \<times> host" where
  "hostReadlink p w =
     (case files w p of
        Some (Link t) \<Rightarrow> ((t, None), w)
      | _ \<Rightarrow> (([], None), w))"

text \<open>Modelled from the spec: \<^verbatim>\<open>SymlinkIfPossible\<close> of the filesystem, which does nothing when the
  path of the new link is taken.\<close>

definition hostSymlink :: "string \<Rightarrow> string \<Rightarrow> host \<Rightarrow> goerror option \<times> host" where
  "hostSymlink old new w =
     (if files w new \<noteq> None then (None, w)
      else (None, w\<lparr>files := (files w)(new \<mapsto> Link old)\<rparr>))"

text \<open>\<^verbatim>\<open>path.Join\<close> on clean, non-empty elements, and \<^verbatim>\<open>path.Dir\<close> of a clean path.\<close>

fun joinPath :: "string list \<Rightarrow> string" where
  "joinPath [] = []"
| "joinPath [x] = x"
| "joinPath (x # y # ys) = x @ ''/'' @ joinPath (y # ys)"

definition dirOf :: "string \<Rightarrow> string" where
  "dirOf p =
     (let d = rev (dropWhile (\<lambda>c. c \<noteq> CHR ''/'') (rev p)) in
      if d = [] then ''.'' else if d = ''/'' then ''/'' else butlast d)"

text \<open>The tools' JSON, reduced to the one field the package reads.\<close>

definition jsonField :: "string \<Rightarrow> string \<Rightarrow> string" where
  "jsonField k v = ''{'' @ [CHR 0x22] @ k @ [CHR 0x22] @ '':'' @ [CHR 0x22] @ v @ [CHR 0x22] @ ''}''"

definition jsonGet :: "string \<Rightarrow> string \<Rightarrow> string option" where
  "jsonGet k s =
     (let pre = ''{'' @ [CHR 0x22] @ k @ [CHR 0x22] @ '':'' @ [CHR 0x22];
          suf = [CHR 0x22] @ ''}'' in
      if prefix pre s \<and> suffix suf (drop (length pre) s)
      then Some (take (length s - length pre - length suf) (drop (length pre) s))
      else None)"

definition decodeDisk :: "string \<Rightarrow> goerror + Disk" where
  "decodeDisk s =
     (case jsonGet ''name'' s of
        None \<Rightarrow> Inl (ErrOther ''invalid JSON'')
      | Some n \<Rightarrow> Inr \<lparr>Name = n\<rparr>)"

definition decodeQemuDiskInfo :: "string \<Rightarrow> goerror + qemuDiskInfo" where
  "decodeQemuDiskInfo s =
     (case jsonGet ''format'' s of
        None \<Rightarrow> Inl (ErrOther ''invalid JSON'')
      | Some f \<Rightarrow>
          Inr \<lparr>VirtualSize = 0, Filename = [], Format = f, ActualSize = 0, DirtyFlag = False\<rparr>)"

text \<open>Where a registry rooted at \<open>lima\<close> keeps the slot and the lock marker of the disk.\<close>

definition hostSlot :: "string \<Rightarrow> string" where
  "hostSlot lima = lima @ ''/_disks/'' @ diskName @ ''/datadisk''"

definition hostLock :: "string \<Rightarrow> string" where
  "hostLock lima = joinPath [lima, ''_disks'', diskName, ''in_use_by'']"

text \<open>
  Modelled from the spec: the registry command with its three subcommands. \<^verbatim>\<open>disk ls\<close>
  prints the record of a registered disk and fails otherwise; \<^verbatim>\<open>disk create\<close> registers the
  disk with a raw file in its slot (and does nothing for a disk that is registered);
  \<^verbatim>\<open>disk unlock\<close> removes the lock marker.
\<close>

definition hostLima :: "string \<Rightarrow> string list \<Rightarrow> host \<Rightarrow> (string \<times> goerror option) \<times> host" where
  "hostLima lima args w =
     (if args = lsArgs then
        (if registered w then ((jsonField ''name'' diskName, None), w)
         else (([], Some (ErrOther ''exit status 1'')), w))
      else if args = createArgs then
        (if registered w then (([], None), w)
         else (([], None),
               w\<lparr>files := (files w)(hostSlot lima \<mapsto> File ''raw''), registered := True\<rparr>))
      else if args = unlockArgs then
        (([], None), w\<lparr>files := (files w)(hostLock lima := None)\<rparr>)
      else ((''unknown command'', Some (ErrOther ''exit status 1'')), w))"

text \<open>
  Modelled from the spec: the image tool. \<^verbatim>\<open>info --output=json\<close> reports the format of a
  regular file; \<^verbatim>\<open>convert -f F -O G src dst\<close> writes a file of format \<open>G\<close> at \<open>dst\<close> when
  \<open>src\<close> is a regular file of format \<open>F\<close>, and fails otherwise.
\<close>

fun qemu_img :: "string list \<Rightarrow> host \<Rightarrow> (string \<times> goerror option) \<times> host" where
  "qemu_img [mode, out, p] w =
     (if mode = ''info'' \<and> out = ''--output=json'' then
        (case files w p of
           Some (File f) \<Rightarrow> ((jsonField ''format'' f, None), w)
         | _ \<Rightarrow> ((''Could not open'', Some (ErrOther ''exit status 1'')), w))
      else ((''usage'', Some (ErrOther ''exit status 1'')), w))"
| "qemu_img [mode, f1, f, o1, out, src, dst] w =
     (if mode = ''convert'' \<and> f1 = ''-f'' \<and> o1 = ''-O'' then
        (case files w src of
           Some (File g) \<Rightarrow>
             if g = f then (([], None), w\<lparr>files := (files w)(dst \<mapsto> File out)\<rparr>)
             else ((''Image is not in '' @ f @ '' format'', Some (ErrOther ''exit status 1'')), w)
         | _ \<Rightarrow> ((''Could not open'', Some (ErrOther ''exit status 1'')), w))
      else ((''usage'', Some (ErrOther ''exit status 1'')), w))"
| "qemu_img args w = ((''usage'', Some (ErrOther ''exit status 1'')), w)"

definition hostQemu :: "string \<Rightarrow> string" where
  "hostQemu bin = joinPath [bin, ''qemu-img'']"

definition hostExec :: "string \<Rightarrow> string \<Rightarrow> string list \<Rightarrow> host \<Rightarrow> (string \<times> goerror option) \<times> host" where
  "hostExec bin name args w =
     (if name = hostQemu bin then qemu_img args w
      else (([], Some ErrNotExist), w))"

text \<open>The reconciler's collaborators on the simulated host, for a configuration of five strings.\<close>

definition hostEnv :: "string \<Rightarrow> string \<Rightarrow> string \<Rightarrow> string \<Rightarrow> string \<Rightarrow> host env" where
  "hostEnv vm home layout lima bin =
     \<lparr>VMType = vm, homeDir = home, finchLayout = layout, LimaHomePath = lima, QEMUBinDir = bin,
      fsStat = hostStat, fsRename = hostRename, fsMkdirAll = hostMkdirAll, fsRemove = hostRemove,
      fsReadlinkIfPossible = hostReadlink, fsSymlinkIfPossible = hostSymlink,
      lccOutput = hostLima lima, lccCombinedOutput = hostLima lima,
      eccCombinedOutput = hostExec bin,
      unmarshalDisk = decodeDisk, unmarshalQemuDiskInfo = decodeQemuDiskInfo,
      pathJoin = joinPath, pathDir = dirOf\<rparr>"

text \<open>
  The persistent file, its renamed copy, the slot, the lock marker and the directory of
  the persistent file are five different paths.
\<close>

definition pathsDistinct :: "'w env \<Rightarrow> bool" where
  "pathsDistinct m =
     distinct [UserDataDiskPath m, UserDataDiskPath m @ ''.qcow2'', limaPath m, lockPath m,
               pathDir m (UserDataDiskPath m)]"

text \<open>
  The state the reconciler aims at: the disk is registered, the slot is a link to the
  persistent file, there is no lock marker, and under \<^verbatim>\<open>vz\<close> the persistent file is raw.
\<close>

definition converged :: "host env \<Rightarrow> host \<Rightarrow> bool" where
  "converged m w =
     (registered w \<and>
      files w (limaPath m) = Some (Link (UserDataDiskPath m)) \<and>
      files w (lockPath m) = None \<and>
      (if VMType m = ''vz'' then files w (UserDataDiskPath m) = Some (File ''raw'') else True))"

text \<open>
  The format is taken care of at the start of a run: the backend is not \<^verbatim>\<open>vz\<close>, or the
  registry lists the disk, or there is no persistent file yet, or it is raw already.
\<close>

definition formatCovered :: "host env \<Rightarrow> host \<Rightarrow> bool" where
  "formatCovered m w =
     (if VMType m = ''vz'' then
        registered w \<or> files w (UserDataDiskPath m) = None \<or>
        files w (UserDataDiskPath m) = Some (File ''raw'')
      else True)"

text \<open>A run from the converged state only asks: first the registry, then (under \<^verbatim>\<open>vz\<close>)
  the image tool, then the slot's link and the lock marker.\<close>

definition idleTrace :: "host env \<Rightarrow> event list" where
  "idleTrace m =
     EvLimaOutput lsArgs (jsonField ''name'' diskName, None) #
     (if VMType m = ''vz''
      then [EvExecCombinedOutput (qemuImg m) (infoArgs (UserDataDiskPath m))
              (jsonField ''format'' ''raw'', None)]
      else []) @
     [EvReadlink (limaPath m) (UserDataDiskPath m, None), EvStat (lockPath m) (Some ErrNotExist)]"

subsection \<open>Sample hosts\<close>

definition sampleEnv :: "string \<Rightarrow> host env" where
  "sampleEnv vm = hostEnv vm ''/home/u'' ''.finch/.disks'' ''/lima/data'' ''/lima/bin''"

definition sampleDisk :: string where
  "sampleDisk = ''/home/u/.finch/.disks/datadisk''"

definition sampleSlot :: string where
  "sampleSlot = ''/lima/data/_disks/finch/datadisk''"

definition sampleLock :: string where
  "sampleLock = ''/lima/data/_disks/finch/in_use_by''"

text \<open>Nothing registered, nothing on disk.\<close>

definition freshHost :: host where
  "freshHost = \<lparr>files = Map.empty, registered = False\<rparr>"

text \<open>A registered qcow2 disk, linked, with a stale lock marker.\<close>

definition qcowHost :: host where
  "qcowHost =
     \<lparr>files = [sampleDisk \<mapsto> File ''qcow2'', sampleSlot \<mapsto> Link sampleDisk,
               sampleLock \<mapsto> File []],
      registered = True\<rparr>"

text \<open>A registered raw disk whose slot holds a regular file.\<close>

definition unlinkedHost :: host where
  "unlinkedHost =
     \<lparr>files = [sampleDisk \<mapsto> File ''raw'', sampleSlot \<mapsto> File ''raw''], registered = True\<rparr>"

text \<open>A qcow2 persistent file left behind, and no registered disk.\<close>

definition staleHost :: host where
  "staleHost = \<lparr>files = [sampleDisk \<mapsto> File ''qcow2''], registered = False\<rparr>"

text \<open>A registered disk whose persistent file is a vmdk image.\<close>

definition vmdkHost :: host where
  "vmdkHost = \<lparr>files = [sampleDisk \<mapsto> File ''vmdk''], registered = True\<rparr>"

text \<open>A registered disk without a persistent file.\<close>

definition lostHost :: host where
  "lostHost = \<lparr>files = [sampleLock \<mapsto> File []], registered = True\<rparr>"

text \<open>A registered disk whose freshly created file still sits in the slot.\<close>

definition createdHost :: host where
  "createdHost = \<lparr>files = [sampleSlot \<mapsto> File ''raw''], registered = True\<rparr>"

text \<open>A registered raw disk, linked, without a lock marker.\<close>

definition linkedHost :: host where
  "linkedHost =
     \<lparr>files = [sampleDisk \<mapsto> File ''raw'', sampleSlot \<mapsto> Link sampleDisk], registered = True\<rparr>"

text \<open>The sample collaborators with a decoder that rejects the registry's output, and with
  one that decodes a record of another name.\<close>

definition garbledEnv :: "host env" where
  "garbledEnv = (sampleEnv ''vz'')\<lparr>unmarshalDisk := (\<lambda>out. Inl (ErrOther ''invalid character''))\<rparr>"

definition renamedEnv :: "host env" where
  "renamedEnv = (sampleEnv ''vz'')\<lparr>unmarshalDisk := (\<lambda>out. Inr \<lparr>Name = ''other''\<rparr>)\<rparr>"


text \<open>The sample collaborators with a registry whose create and unlock commands fail.\<close>

definition failingEnv :: "host env" where
  "failingEnv =
     (sampleEnv ''vz'')\<lparr>lccCombinedOutput :=
        (\<lambda>args w. ((''permission denied'', Some (ErrOther ''exit status 1'')), w))\<rparr>"

text \<open>The sample collaborators with a filesystem that refuses every rename, one that cannot
  read links, one that cannot make links, and with a decoder that rejects the report of the
  image tool.\<close>

definition deniedEnv :: "string \<Rightarrow> host env" where
  "deniedEnv vm =
     (sampleEnv vm)\<lparr>fsRename := (\<lambda>p q w. (Some (ErrOther ''permission denied''), w))\<rparr>"

definition unreadableEnv :: "host env" where
  "unreadableEnv =
     (sampleEnv ''vz'')\<lparr>fsReadlinkIfPossible :=
        (\<lambda>p w. (([], Some (ErrOther ''input/output error'')), w))\<rparr>"

definition unlinkableEnv :: "host env" where
  "unlinkableEnv =
     (sampleEnv ''vz'')\<lparr>fsSymlinkIfPossible :=
        (\<lambda>p q w. (Some (ErrOther ''read-only file system''), w))\<rparr>"

definition garbledInfoEnv :: "host env" where
  "garbledInfoEnv =
     (sampleEnv ''vz'')\<lparr>unmarshalQemuDiskInfo := (\<lambda>out. Inl (ErrOther ''invalid character''))\<rparr>"

text \<open>A registered raw disk, linked, with a lock marker.\<close>

definition lockedHost :: host where
  "lockedHost =
     \<lparr>files = [sampleDisk \<mapsto> File ''raw'', sampleSlot \<mapsto> Link sampleDisk, sampleLock \<mapsto> File []],
      registered = True\<rparr>"

section \<open>Properties for any collaborators\<close>

subsection \<open>Running programs\<close>

lemma ret_apply: "ret a w = (a, [], w)"
  by (simp add: ret_def)

lemma thenDo_apply:
  "thenDo m k w = (case m w of (a, es, w1) \<Rightarrow> (case k a w1 of (b, es', w2) \<Rightarrow> (b, es @ es', w2)))"
  by (simp add: thenDo_def)

lemma orReturn_apply:
  "orReturn m k w =
     (case m w of
        (Some e, es, w1) \<Rightarrow> (Some e, es, w1)
      | (None, es, w1) \<Rightarrow> (case k w1 of (r, es', w2) \<Rightarrow> (r, es @ es', w2)))"
  by (simp add: orReturn_def thenDo_def ret_def split: prod.splits option.splits)

lemma call_apply: "call f ev w = (case f w of (r, w1) \<Rightarrow> (r, [ev r], w1))"
  by (simp add: call_def)

lemmas prog_simps = ret_apply thenDo_apply orReturn_apply call_apply

lemmas op_defs = Stat_def Rename_def MkdirAll_def Remove_def ReadlinkIfPossible_def
  SymlinkIfPossible_def limaOutput_def limaCombinedOutput_def execCombinedOutput_def

lemma orReturn_cases:
  assumes "orReturn m k w = (r, es, w')"
  obtains (abort) e where "m w = (Some e, es, w')" and "r = Some e"
  | (cont) es1 w1 es2 where "m w = (None, es1, w1)" and "k w1 = (r, es2, w')" and "es = es1 @ es2"
  using assms by (auto simp: orReturn_apply split: prod.splits option.splits)

lemma thenDo_cases:
  assumes "thenDo m k w = (r, es, w')"
  obtains a es1 w1 es2 where "m w = (a, es1, w1)" and "k a w1 = (r, es2, w')" and "es = es1 @ es2"
  using assms by (auto simp: thenDo_apply split: prod.splits)

lemma orReturn_abort: "m w = (Some e, es, w1) \<Longrightarrow> orReturn m k w = (Some e, es, w1)"
  by (simp add: orReturn_apply)

lemma orReturn_cont:
  "m w = (None, es, w1) \<Longrightarrow> orReturn m k w = (case k w1 of (r, es', w2) \<Rightarrow> (r, es @ es', w2))"
  by (simp add: orReturn_apply)

lemma orReturn_assoc: "orReturn (orReturn a b) c = orReturn a (orReturn b c)"
  by (rule ext) (simp add: orReturn_apply split: prod.splits option.splits)

lemma orReturn_thenDo: "orReturn (thenDo a f) k = thenDo a (\<lambda>x. orReturn (f x) k)"
  by (rule ext) (simp add: orReturn_apply thenDo_apply split: prod.splits option.splits)

lemma EnsureUserDataDisk_blocks:
  "EnsureUserDataDisk m =
     orReturn
       (thenDo (limaDiskExists m) (\<lambda>listed.
          if listed then orReturn (formatNormalization m) (linkVerification m)
          else orReturn (createLimaDisk m) (attachPersistentDiskToLimaDisk m)))
       (lockClearance m)"
  unfolding EnsureUserDataDisk_def formatNormalization_def linkVerification_def
      lockClearance_def Let_def ..

lemma attach_blocks:
  "attachPersistentDiskToLimaDisk m =
     orReturn (capturePersistent m) (orReturn (clearSlot m) (linkSlot m))"
  unfolding attachPersistentDiskToLimaDisk_def capturePersistent_def clearSlot_def linkSlot_def ..

lemma Ensure_listed:
  assumes "limaDiskExists m w = (True, es0, w1)"
  shows "EnsureUserDataDisk m w =
     (case orReturn (formatNormalization m) (orReturn (linkVerification m) (lockClearance m)) w1 of
        (r, es, w') \<Rightarrow> (r, es0 @ es, w'))"
  using assms
  by (simp add: EnsureUserDataDisk_blocks orReturn_thenDo orReturn_assoc thenDo_apply split: prod.splits)

lemma Ensure_unlisted:
  assumes "limaDiskExists m w = (False, es0, w1)"
  shows "EnsureUserDataDisk m w =
     (case orReturn (createLimaDisk m) (orReturn (attachPersistentDiskToLimaDisk m) (lockClearance m)) w1 of
        (r, es, w') \<Rightarrow> (r, es0 @ es, w'))"
  using assms
  by (simp add: EnsureUserDataDisk_blocks orReturn_thenDo orReturn_assoc thenDo_apply split: prod.splits)

subsection \<open>The events of each block\<close>

lemma capturePersistent_events:
  assumes "capturePersistent m w = (r, es, w')"
  shows "list_all (attachEvent m) es"
  using assms unfolding capturePersistent_def persistentDiskExists_def
  by (auto simp: prog_simps op_defs Let_def split: prod.splits option.splits if_splits)

lemma clearSlot_events:
  assumes "clearSlot m w = (r, es, w')"
  shows "list_all (attachEvent m) es"
  using assms unfolding clearSlot_def
  by (auto simp: prog_simps op_defs split: prod.splits option.splits if_splits)

lemma linkSlot_events:
  assumes "linkSlot m w = (r, es, w')"
  shows "list_all (attachEvent m) es"
  using assms unfolding linkSlot_def
  by (auto simp: prog_simps op_defs split: prod.splits option.splits if_splits)

lemma attach_events:
  assumes "attachPersistentDiskToLimaDisk m w = (r, es, w')"
  shows "list_all (attachEvent m) es"
  using assms unfolding attach_blocks
  by (auto elim!: orReturn_cases dest: capturePersistent_events clearSlot_events linkSlot_events)

subsection \<open>The leaf functions, run\<close>

lemma limaDiskExists_run:
  "limaDiskExists m w =
     (case lccOutput m lsArgs w of ((out, err), w1) \<Rightarrow>
        (err = None \<and> (case unmarshalDisk m out of Inl e \<Rightarrow> False | Inr d \<Rightarrow> Name d = diskName),
         [EvLimaOutput lsArgs (out, err)], w1))"
  unfolding limaDiskExists_def lsArgs_def
  by (simp add: prog_simps op_defs split: prod.splits sum.splits)

lemma getDiskInfo_run:
  "getDiskInfo m p w =
     (case eccCombinedOutput m (qemuImg m) (infoArgs p) w of ((out, err), w1) \<Rightarrow>
        (case err of
           Some e \<Rightarrow> Inl (ErrGetDiskInfo p e)
         | None \<Rightarrow>
             (case unmarshalQemuDiskInfo m out of
                Inl e \<Rightarrow> Inl (ErrUnmarshalDiskInfo p e)
              | Inr i \<Rightarrow> Inr i),
         [EvExecCombinedOutput (qemuImg m) (infoArgs p) (out, err)], w1))"
  unfolding getDiskInfo_def infoArgs_def
  by (simp add: prog_simps op_defs split: prod.splits sum.splits option.splits)

lemma convertToRaw_run:
  "convertToRaw m p w =
     (case fsRename m p (p @ ''.qcow2'') w of
        (Some e, w1) \<Rightarrow> (Some (ErrRenameDisk e), [EvRename p (p @ ''.qcow2'') (Some e)], w1)
      | (None, w1) \<Rightarrow>
          (case eccCombinedOutput m (qemuImg m) (convertArgs p) w1 of ((out, err), w2) \<Rightarrow>
             (case err of Some e \<Rightarrow> Some (ErrConvertDisk p e) | None \<Rightarrow> None,
              [EvRename p (p @ ''.qcow2'') None,
               EvExecCombinedOutput (qemuImg m) (convertArgs p) (out, err)], w2)))"
  unfolding convertToRaw_def convertArgs_def
  by (simp add: prog_simps op_defs Let_def split: prod.splits sum.splits option.splits)

lemma createLimaDisk_run:
  "createLimaDisk m w =
     (case lccCombinedOutput m createArgs w of ((logs, err), w1) \<Rightarrow>
        (if err \<noteq> None then Some (ErrCreateDisk logs) else None,
         [EvLimaCombinedOutput createArgs (logs, err)], w1))"
  unfolding createLimaDisk_def createArgs_def
  by (simp add: prog_simps op_defs split: prod.splits)

lemma lockClearance_run:
  "lockClearance m w =
     (case fsStat m (lockPath m) w of
        (Some e, w1) \<Rightarrow> (None, [EvStat (lockPath m) (Some e)], w1)
      | (None, w1) \<Rightarrow>
          (case lccCombinedOutput m unlockArgs w1 of ((logs, err), w2) \<Rightarrow>
             (if err \<noteq> None then Some (ErrUnlockDisk logs) else None,
              [EvStat (lockPath m) None, EvLimaCombinedOutput unlockArgs (logs, err)], w2)))"
  unfolding lockClearance_def limaDiskIsLocked_def unlockLimaDisk_def unlockArgs_def
  by (auto simp: prog_simps op_defs split: prod.splits option.splits)

lemma linkVerification_run:
  "linkVerification m w =
     (case fsReadlinkIfPossible m (limaPath m) w of ((loc, err), w1) \<Rightarrow>
        (case err of
           Some e \<Rightarrow> (Some (ErrFs e), [EvReadlink (limaPath m) (loc, err)], w1)
         | None \<Rightarrow>
             if loc \<noteq> UserDataDiskPath m then
               (case attachPersistentDiskToLimaDisk m w1 of (r, es, w2) \<Rightarrow>
                  (r, EvReadlink (limaPath m) (loc, err) # es, w2))
             else (None, [EvReadlink (limaPath m) (loc, err)], w1)))"
  unfolding linkVerification_def
  by (simp add: prog_simps op_defs split: prod.splits option.splits)

lemma formatNormalization_run:
  "formatNormalization m w =
     (if VMType m = ''vz'' then
        (case getDiskInfo m (UserDataDiskPath m) w of
           (Inl e, es1, w1) \<Rightarrow> (Some e, es1, w1)
         | (Inr info, es1, w1) \<Rightarrow>
             if Format info \<noteq> ''raw'' then
               (case orReturn (convertToRaw m (UserDataDiskPath m)) (attachPersistentDiskToLimaDisk m) w1 of
                  (r, es2, w2) \<Rightarrow> (r, es1 @ es2, w2))
             else (None, es1, w1))
      else (None, [], w))"
  unfolding formatNormalization_def
  by (simp add: thenDo_apply ret_apply split: prod.splits sum.splits)

subsection \<open>Events before the lock check\<close>

lemma attachEvent_reconcile: "attachEvent m ev \<Longrightarrow> reconcileEvent m ev"
  by (cases ev) auto

lemma list_all_weaken: "list_all P xs \<Longrightarrow> (\<And>x. P x \<Longrightarrow> Q x) \<Longrightarrow> list_all Q xs"
  by (induction xs) auto

lemma attach_reconcile:
  "attachPersistentDiskToLimaDisk m w = (r, es, w') \<Longrightarrow> list_all (reconcileEvent m) es"
  by (rule list_all_weaken[OF attach_events]) (auto intro: attachEvent_reconcile)

lemma limaDiskExists_reconcile:
  "limaDiskExists m w = (b, es, w') \<Longrightarrow> list_all (reconcileEvent m) es"
  by (auto simp: limaDiskExists_run split: prod.splits)

lemma createLimaDisk_reconcile:
  "createLimaDisk m w = (r, es, w') \<Longrightarrow> list_all (reconcileEvent m) es"
  by (auto simp: createLimaDisk_run split: prod.splits)

lemma getDiskInfo_reconcile:
  "getDiskInfo m (UserDataDiskPath m) w = (r, es, w') \<Longrightarrow> list_all (reconcileEvent m) es"
  by (auto simp: getDiskInfo_run split: prod.splits)

lemma convertToRaw_reconcile:
  "convertToRaw m (UserDataDiskPath m) w = (r, es, w') \<Longrightarrow> list_all (reconcileEvent m) es"
  by (auto simp: convertToRaw_run split: prod.splits option.splits)

lemma formatNormalization_reconcile:
  assumes "formatNormalization m w = (r, es, w')"
  shows "list_all (reconcileEvent m) es"
  using assms
  by (auto simp: formatNormalization_run split: if_splits prod.splits sum.splits
      elim!: orReturn_cases dest: getDiskInfo_reconcile convertToRaw_reconcile attach_reconcile)

lemma linkVerification_reconcile:
  assumes "linkVerification m w = (r, es, w')"
  shows "list_all (reconcileEvent m) es"
  using assms
  by (auto simp: linkVerification_run split: if_splits prod.splits option.splits
      dest: attach_reconcile)

lemma reconcile_not_unlock: "reconcileEvent m ev \<Longrightarrow> \<not> is_unlock ev"
  by (cases ev) (auto simp: createArgs_def unlockArgs_def)

subsection \<open>A returned error is the one of the last event\<close>

lemma capturePersistent_fail:
  assumes "capturePersistent m w = (Some err, es, w')"
  shows "es \<noteq> [] \<and> reported m err (last es)"
  using assms unfolding capturePersistent_def persistentDiskExists_def
  by (auto simp: prog_simps op_defs Let_def reported_def split: prod.splits option.splits if_splits)

lemma clearSlot_fail:
  assumes "clearSlot m w = (Some err, es, w')"
  shows "es \<noteq> [] \<and> reported m err (last es)"
  using assms unfolding clearSlot_def
  by (auto simp: prog_simps op_defs reported_def split: prod.splits option.splits if_splits)

lemma linkSlot_fail:
  assumes "linkSlot m w = (Some err, es, w')"
  shows "es \<noteq> [] \<and> reported m err (last es)"
  using assms unfolding linkSlot_def
  by (auto simp: prog_simps op_defs reported_def split: prod.splits option.splits if_splits)

lemma attach_fail:
  assumes "attachPersistentDiskToLimaDisk m w = (Some err, es, w')"
  shows "es \<noteq> [] \<and> reported m err (last es)"
  using assms unfolding attach_blocks
  by (auto elim!: orReturn_cases dest: capturePersistent_fail clearSlot_fail linkSlot_fail)

lemma getDiskInfo_fail:
  assumes "getDiskInfo m p w = (Inl err, es, w')"
  shows "es \<noteq> [] \<and> reported m err (last es)"
  using assms
  by (auto simp: getDiskInfo_run reported_def split: prod.splits option.splits sum.splits)

lemma convertToRaw_fail:
  assumes "convertToRaw m (UserDataDiskPath m) w = (Some err, es, w')"
  shows "es \<noteq> [] \<and> reported m err (last es)"
  using assms
  by (auto simp: convertToRaw_run reported_def split: prod.splits option.splits)

lemma formatNormalization_fail:
  assumes "formatNormalization m w = (Some err, es, w')"
  shows "es \<noteq> [] \<and> reported m err (last es)"
  using assms
  by (auto simp: formatNormalization_run split: if_splits prod.splits sum.splits
      elim!: orReturn_cases dest: getDiskInfo_fail convertToRaw_fail attach_fail)

lemma linkVerification_fail:
  assumes "linkVerification m w = (Some err, es, w')"
  shows "es \<noteq> [] \<and> reported m err (last es)"
proof -
  obtain loc e0 w1 where rl: "fsReadlinkIfPossible m (limaPath m) w = ((loc, e0), w1)"
    by (metis prod.exhaust)
  show ?thesis
  proof (cases e0)
    case (Some e)
    then show ?thesis
      using assms rl by (auto simp: linkVerification_run reported_def)
  next
    case None
    show ?thesis
    proof (cases "loc = UserDataDiskPath m")
      case True
      then show ?thesis
        using assms rl None by (simp add: linkVerification_run)
    next
      case False
      then obtain esa where a: "attachPersistentDiskToLimaDisk m w1 = (Some err, esa, w')"
        and es: "es = EvReadlink (limaPath m) (loc, None) # esa"
        using assms rl None by (auto simp: linkVerification_run split: prod.splits)
      from attach_fail[OF a] es show ?thesis by simp
    qed
  qed
qed

lemma createLimaDisk_fail:
  assumes "createLimaDisk m w = (Some err, es, w')"
  shows "es \<noteq> [] \<and> reported m err (last es)"
  using assms
  by (auto simp: createLimaDisk_run reported_def split: prod.splits if_splits)

lemma lockClearance_fail:
  assumes "lockClearance m w = (Some err, es, w')"
  shows "es \<noteq> [] \<and> reported m err (last es) \<and> (\<exists>logs. err = ErrUnlockDisk logs)"
  using assms
  by (auto simp: lockClearance_run reported_def split: prod.splits option.splits if_splits)


lemma reported_unlock: "reported m (ErrUnlockDisk logs) ev \<Longrightarrow> is_unlock ev"
  by (cases ev) (auto simp: reported_def)

lemma abort_not_unlock:
  assumes "list_all (reconcileEvent m) es" and "es \<noteq> []" and "reported m e (last es)"
  shows "\<forall>logs. e \<noteq> ErrUnlockDisk logs"
proof
  fix logs
  show "e \<noteq> ErrUnlockDisk logs"
  proof
    assume "e = ErrUnlockDisk logs"
    with assms(3) have "is_unlock (last es)" by (simp add: reported_unlock)
    moreover have "reconcileEvent m (last es)"
      using assms(1,2) by (simp add: list_all_iff)
    ultimately show False by (simp add: reconcile_not_unlock)
  qed
qed

text \<open>The part of a run before the lock check.\<close>

lemma Ensure_split:
  assumes run: "EnsureUserDataDisk m w = (r, es, w')"
  obtains (abort) e where "r = Some e" and "es \<noteq> []" and "reported m e (last es)"
      and "list_all (reconcileEvent m) es" and "\<forall>logs. e \<noteq> ErrUnlockDisk logs"
  | (lock) pre w1 esl where "es = pre @ esl" and "list_all (reconcileEvent m) pre"
      and "lockClearance m w1 = (r, esl, w')"
proof -
  obtain b es0 w0 where lde: "limaDiskExists m w = (b, es0, w0)"
    by (metis prod.exhaust)
  have ev0: "list_all (reconcileEvent m) es0"
    by (rule limaDiskExists_reconcile[OF lde])
  have fin: thesis
    if a: "es = es0 @ es1" "r = Some e" "es1 \<noteq> []" "reported m e (last es1)"
      "list_all (reconcileEvent m) es1" for es1 e
  proof (rule abort[of e])
    show "r = Some e" by (rule a(2))
    show "es \<noteq> []" using a by simp
    show "reported m e (last es)" using a by simp
    show "list_all (reconcileEvent m) es" using a ev0 by simp
    then show "\<forall>logs. e \<noteq> ErrUnlockDisk logs"
      using a by (intro abort_not_unlock[of m es]) auto
  qed
  show thesis
  proof (cases b)
    case True
    then obtain es' where rest:
      "orReturn (formatNormalization m) (orReturn (linkVerification m) (lockClearance m)) w0 = (r, es', w')"
      and es: "es = es0 @ es'"
      using run Ensure_listed[of m w es0 w0] lde by (auto split: prod.splits)
    from rest show ?thesis
    proof (cases rule: orReturn_cases)
      case (abort e)
      show ?thesis
        using fin[OF es abort(2)] formatNormalization_fail[OF abort(1)]
          formatNormalization_reconcile[OF abort(1)] by blast
    next
      case (cont es1 w1 es2)
      note f = cont
      have ev1: "list_all (reconcileEvent m) es1"
        by (rule formatNormalization_reconcile[OF f(1)])
      from f(2) show ?thesis
      proof (cases rule: orReturn_cases)
        case (abort e)
        have "es = es0 @ (es1 @ es2)" using es f(3) by simp
        moreover have "es1 @ es2 \<noteq> []" "reported m e (last (es1 @ es2))"
          "list_all (reconcileEvent m) (es1 @ es2)"
          using linkVerification_fail[of m w1 e es2 w'] abort(1)
            linkVerification_reconcile[OF abort(1)] ev1 by auto
        ultimately show ?thesis using fin abort(2) by blast
      next
        case (cont es3 w3 es4)
        show ?thesis
        proof (rule lock[of "es0 @ es1 @ es3" es4 w3])
          show "es = (es0 @ es1 @ es3) @ es4" using es f(3) cont(3) by simp
          show "list_all (reconcileEvent m) (es0 @ es1 @ es3)"
            using ev0 ev1 linkVerification_reconcile[OF cont(1)] by simp
          show "lockClearance m w3 = (r, es4, w')" by (rule cont(2))
        qed
      qed
    qed
  next
    case False
    then obtain es' where rest:
      "orReturn (createLimaDisk m) (orReturn (attachPersistentDiskToLimaDisk m) (lockClearance m)) w0 = (r, es', w')"
      and es: "es = es0 @ es'"
      using run Ensure_unlisted[of m w es0 w0] lde by (auto split: prod.splits)
    from rest show ?thesis
    proof (cases rule: orReturn_cases)
      case (abort e)
      show ?thesis
        using fin[OF es abort(2)] createLimaDisk_fail[OF abort(1)]
          createLimaDisk_reconcile[OF abort(1)] by blast
    next
      case (cont es1 w1 es2)
      note f = cont
      have ev1: "list_all (reconcileEvent m) es1"
        by (rule createLimaDisk_reconcile[OF f(1)])
      from f(2) show ?thesis
      proof (cases rule: orReturn_cases)
        case (abort e)
        have "es = es0 @ (es1 @ es2)" using es f(3) by simp
        moreover have "es1 @ es2 \<noteq> []" "reported m e (last (es1 @ es2))"
          "list_all (reconcileEvent m) (es1 @ es2)"
          using attach_fail[of m w1 e es2 w'] abort(1)
            attach_reconcile[OF abort(1)] ev1 by auto
        ultimately show ?thesis using fin abort(2) by blast
      next
        case (cont es3 w3 es4)
        show ?thesis
        proof (rule lock[of "es0 @ es1 @ es3" es4 w3])
          show "es = (es0 @ es1 @ es3) @ es4" using es f(3) cont(3) by simp
          show "list_all (reconcileEvent m) (es0 @ es1 @ es3)"
            using ev0 ev1 attach_reconcile[OF cont(1)] by simp
          show "lockClearance m w3 = (r, es4, w')" by (rule cont(2))
        qed
      qed
    qed
  qed
qed

lemma reconcile_noUnlock: "list_all (reconcileEvent m) es \<Longrightarrow> noUnlock es"
  unfolding noUnlock_def by (erule list_all_weaken) (rule reconcile_not_unlock)

lemma Ensure_error_last:
  assumes "EnsureUserDataDisk m w = (Some err, es, w')"
  shows "es \<noteq> [] \<and> reported m err (last es) \<and>
         ((\<forall>logs. err \<noteq> ErrUnlockDisk logs) \<longrightarrow> noUnlock es)"
  using assms
proof (cases rule: Ensure_split)
  case (abort e)
  then show ?thesis by (auto dest: reconcile_noUnlock)
next
  case (lock pre w1 esl)
  from lockClearance_fail[OF lock(3)] lock(1)
  show ?thesis by auto
qed

subsection \<open>The trace of a link repair\<close>

lemma capturePersistent_success:
  assumes "capturePersistent m w = (None, es, w')"
  shows "es = EvStat (UserDataDiskPath m) (fst (fsStat m (UserDataDiskPath m) w)) #
           (if fst (fsStat m (UserDataDiskPath m) w) = None then []
            else EvStat (pathDir m (UserDataDiskPath m))
                   (fst (fsStat m (pathDir m (UserDataDiskPath m)) (snd (fsStat m (UserDataDiskPath m) w)))) #
                 (if fst (fsStat m (pathDir m (UserDataDiskPath m)) (snd (fsStat m (UserDataDiskPath m) w)))
                       = Some ErrNotExist
                  then [EvMkdirAll (pathDir m (UserDataDiskPath m)) 493 None] else []) @
                 [EvRename (limaPath m) (UserDataDiskPath m) None])"
  using assms unfolding capturePersistent_def persistentDiskExists_def
  by (auto simp: prog_simps op_defs Let_def split: prod.splits option.splits if_splits)

lemma capturePersistent_first:
  assumes "capturePersistent m w = (r, es, w')"
  shows "\<exists>st rest. es = EvStat (UserDataDiskPath m) st # rest \<and>
           (st = None \<longrightarrow> rest = []) \<and>
           (st \<noteq> None \<longrightarrow>
              (\<exists>rr. EvRename (limaPath m) (UserDataDiskPath m) rr \<in> set rest) \<or>
              (\<exists>e. r = Some (ErrMkdirPersistent e)))"
  using assms unfolding capturePersistent_def persistentDiskExists_def
  by (auto simp: prog_simps op_defs Let_def split: prod.splits option.splits if_splits)

lemma clearSlot_success:
  assumes "clearSlot m w = (None, es, w')"
  shows "es = EvStat (limaPath m) (fst (fsStat m (limaPath m) w)) #
           (if fst (fsStat m (limaPath m) w) = None then [EvRemove (limaPath m) None] else []) \<and>
         (fst (fsStat m (limaPath m) w) = None \<or> fst (fsStat m (limaPath m) w) = Some ErrNotExist)"
  using assms unfolding clearSlot_def
  by (auto simp: prog_simps op_defs split: prod.splits option.splits if_splits)

lemma linkSlot_success:
  assumes "linkSlot m w = (None, es, w')"
  shows "es = [EvSymlink (UserDataDiskPath m) (limaPath m) None]"
  using assms unfolding linkSlot_def
  by (auto simp: prog_simps op_defs split: prod.splits option.splits if_splits)

lemma attach_success_trace:
  assumes "attachPersistentDiskToLimaDisk m w = (None, es, w')"
  shows "\<exists>st sd sl. es = linkRepairTrace m st sd sl \<and> (sl = None \<or> sl = Some ErrNotExist)"
proof -
  from assms obtain es1 w1 es2 w2 es3 where
    c: "capturePersistent m w = (None, es1, w1)" and
    s: "clearSlot m w1 = (None, es2, w2)" and
    l: "linkSlot m w2 = (None, es3, w')" and
    es: "es = es1 @ es2 @ es3"
    unfolding attach_blocks by (auto elim!: orReturn_cases)
  define st where "st = fst (fsStat m (UserDataDiskPath m) w)"
  define sd where "sd = fst (fsStat m (pathDir m (UserDataDiskPath m)) (snd (fsStat m (UserDataDiskPath m) w)))"
  define sl where "sl = fst (fsStat m (limaPath m) w1)"
  have "es = linkRepairTrace m st sd sl"
    unfolding es capturePersistent_success[OF c] linkSlot_success[OF l]
      conjunct1[OF clearSlot_success[OF s]] linkRepairTrace_def st_def sd_def sl_def
    by simp
  moreover have "sl = None \<or> sl = Some ErrNotExist"
    unfolding sl_def by (rule conjunct2[OF clearSlot_success[OF s]])
  ultimately show ?thesis by blast
qed

lemma triple_eq: "x = (fst x, fst (snd x), snd (snd x))"
  by simp

lemma UserDataDiskPath_nonempty: "UserDataDiskPath m \<noteq> []"
  by (simp add: UserDataDiskPath_def)

subsection \<open>The registry query\<close>

text \<open>
  Claim C6. Whatever the registry query gives that is not a decoded record named
  \<^verbatim>\<open>finch\<close> (the command fails, its output does not decode, or the name differs), the run
  is the query followed by the create branch from the world the query left: the registry
  create, then the link repair, then the lock check. Its second event is the create
  command, and its result is the result of that sequence: the query adds no error.
\<close>

theorem query_failure_means_create:
  assumes "lccOutput m lsArgs w = ((out, err), w1)"
    and "err \<noteq> None \<or> (\<exists>e. unmarshalDisk m out = Inl e) \<or>
         (\<exists>d. unmarshalDisk m out = Inr d \<and> Name d \<noteq> diskName)"
  shows "EnsureUserDataDisk m w =
           (case orReturn (createLimaDisk m)
                   (orReturn (attachPersistentDiskToLimaDisk m) (lockClearance m)) w1 of
              (r, es, w') \<Rightarrow> (r, EvLimaOutput lsArgs (out, err) # es, w')) \<and>
         (\<exists>reply rest. fst (snd (EnsureUserDataDisk m w)) =
            EvLimaOutput lsArgs (out, err) # EvLimaCombinedOutput createArgs reply # rest)"
proof -
  have lde: "limaDiskExists m w = (False, [EvLimaOutput lsArgs (out, err)], w1)"
    using assms by (auto simp: limaDiskExists_run)
  have eq: "EnsureUserDataDisk m w =
           (case orReturn (createLimaDisk m)
                   (orReturn (attachPersistentDiskToLimaDisk m) (lockClearance m)) w1 of
              (r, es, w') \<Rightarrow> (r, EvLimaOutput lsArgs (out, err) # es, w'))"
    using Ensure_unlisted[OF lde] by simp
  have "\<exists>reply rest. fst (snd (orReturn (createLimaDisk m)
          (orReturn (attachPersistentDiskToLimaDisk m) (lockClearance m)) w1)) =
            EvLimaCombinedOutput createArgs reply # rest"
    by (auto simp: orReturn_apply createLimaDisk_run split: prod.splits option.splits)
  with eq show ?thesis
    by (auto split: prod.splits)
qed

subsection \<open>The conversion\<close>

text \<open>
  Claim C4, as amended. When the registry lists the disk, the backend is \<^verbatim>\<open>vz\<close> and the
  inspection reports a format other than raw, \<^verbatim>\<open>EnsureUserDataDisk\<close> renames the persistent
  file to the sibling path with the extension \<^verbatim>\<open>.qcow2\<close>, whatever the old format is. A
  failed rename is returned. Otherwise it runs the conversion tool with source format
  \<^verbatim>\<open>qcow2\<close>, target format raw, from the renamed file to the persistent path. A failed
  conversion is returned. Otherwise the link repair runs from there, followed by the link
  check and the lock check.
\<close>

theorem conversion_steps:
  assumes "limaDiskExists m w = (True, es0, w1)"
    and "VMType m = ''vz''"
    and "getDiskInfo m (UserDataDiskPath m) w1 = (Inr info, es1, w2)"
    and "Format info \<noteq> ''raw''"
    and "fsRename m (UserDataDiskPath m) (UserDataDiskPath m @ ''.qcow2'') w2 = (rr, w3)"
    and "eccCombinedOutput m (qemuImg m)
           [''convert'', ''-f'', ''qcow2'', ''-O'', ''raw'',
            UserDataDiskPath m @ ''.qcow2'', UserDataDiskPath m] w3 = ((out, rc), w4)"
  shows "EnsureUserDataDisk m w =
           (case rr of
              Some e \<Rightarrow>
                (Some (ErrRenameDisk e),
                 es0 @ es1 @ [EvRename (UserDataDiskPath m) (UserDataDiskPath m @ ''.qcow2'') rr], w3)
            | None \<Rightarrow>
                (case rc of
                   Some e \<Rightarrow>
                     (Some (ErrConvertDisk (UserDataDiskPath m) e),
                      es0 @ es1 @
                      [EvRename (UserDataDiskPath m) (UserDataDiskPath m @ ''.qcow2'') rr,
                       EvExecCombinedOutput (qemuImg m)
                         [''convert'', ''-f'', ''qcow2'', ''-O'', ''raw'',
                          UserDataDiskPath m @ ''.qcow2'', UserDataDiskPath m] (out, rc)], w4)
                 | None \<Rightarrow>
                     (case orReturn (attachPersistentDiskToLimaDisk m)
                             (orReturn (linkVerification m) (lockClearance m)) w4 of
                        (r, es, w') \<Rightarrow>
                          (r, es0 @ es1 @
                              [EvRename (UserDataDiskPath m) (UserDataDiskPath m @ ''.qcow2'') rr,
                               EvExecCombinedOutput (qemuImg m)
                                 [''convert'', ''-f'', ''qcow2'', ''-O'', ''raw'',
                                  UserDataDiskPath m @ ''.qcow2'', UserDataDiskPath m] (out, rc)] @ es,
                           w'))))"
proof -
  have fn: "formatNormalization m w1 =
      (case orReturn (convertToRaw m (UserDataDiskPath m)) (attachPersistentDiskToLimaDisk m) w2 of
         (r, es2, w') \<Rightarrow> (r, es1 @ es2, w'))"
    using assms(2,3,4) by (simp add: formatNormalization_run)
  show ?thesis
  proof (cases rr)
    case (Some e)
    then have "convertToRaw m (UserDataDiskPath m) w2 =
        (Some (ErrRenameDisk e),
         [EvRename (UserDataDiskPath m) (UserDataDiskPath m @ ''.qcow2'') rr], w3)"
      using assms(5) by (simp add: convertToRaw_run)
    then show ?thesis
      using Some fn by (simp add: Ensure_listed[OF assms(1)] orReturn_apply)
  next
    case None
    note rr = this
    show ?thesis
    proof (cases rc)
      case (Some e)
      then have "convertToRaw m (UserDataDiskPath m) w2 =
          (Some (ErrConvertDisk (UserDataDiskPath m) e),
           [EvRename (UserDataDiskPath m) (UserDataDiskPath m @ ''.qcow2'') rr,
            EvExecCombinedOutput (qemuImg m)
              [''convert'', ''-f'', ''qcow2'', ''-O'', ''raw'',
               UserDataDiskPath m @ ''.qcow2'', UserDataDiskPath m] (out, rc)], w4)"
        using assms(5,6) rr by (simp add: convertToRaw_run convertArgs_def)
      then show ?thesis
        using Some rr fn by (simp add: Ensure_listed[OF assms(1)] orReturn_apply)
    next
      case None
      then have "convertToRaw m (UserDataDiskPath m) w2 =
          (None,
           [EvRename (UserDataDiskPath m) (UserDataDiskPath m @ ''.qcow2'') rr,
            EvExecCombinedOutput (qemuImg m)
              [''convert'', ''-f'', ''qcow2'', ''-O'', ''raw'',
               UserDataDiskPath m @ ''.qcow2'', UserDataDiskPath m] (out, rc)], w4)"
        using assms(5,6) rr by (simp add: convertToRaw_run convertArgs_def)
      then show ?thesis
        using None rr fn
        by (simp add: Ensure_listed[OF assms(1)] orReturn_apply split: prod.splits option.splits)
    qed
  qed
qed

subsection \<open>Counting conversions\<close>

lemma attachEvent_not_convert: "attachEvent m ev \<Longrightarrow> \<not> is_convert ev"
  by (cases ev) auto

lemma attach_converts: "filter is_convert (fst (snd (attachPersistentDiskToLimaDisk m w))) = []"
  using attach_events[OF triple_eq, of m w]
  by (auto simp: filter_empty_conv list_all_iff attachEvent_not_convert)

lemma lockClearance_converts: "filter is_convert (fst (snd (lockClearance m w))) = []"
  by (auto simp: lockClearance_run split: prod.splits option.splits)

lemma attach_converts_run:
  "attachPersistentDiskToLimaDisk m w = (r, es, w') \<Longrightarrow> filter is_convert es = []"
  using attach_converts[of m w] by simp

lemma linkVerification_converts: "filter is_convert (fst (snd (linkVerification m w))) = []"
  by (auto simp: linkVerification_run attach_converts_run split: prod.splits option.splits)

lemma createLimaDisk_converts: "filter is_convert (fst (snd (createLimaDisk m w))) = []"
  by (auto simp: createLimaDisk_run split: prod.splits option.splits)

lemma limaDiskExists_converts: "filter is_convert (fst (snd (limaDiskExists m w))) = []"
  by (auto simp: limaDiskExists_run split: prod.splits option.splits)

lemma getDiskInfo_converts: "filter is_convert (fst (snd (getDiskInfo m p w))) = []"
  by (auto simp: getDiskInfo_run infoArgs_def split: prod.splits option.splits)

lemma orReturn_trace:
  "fst (snd (orReturn a b w)) =
     fst (snd (a w)) @ (if fst (a w) = None then fst (snd (b (snd (snd (a w))))) else [])"
  by (auto simp: orReturn_apply split: prod.splits option.splits)

lemma convertToRaw_converts:
  "length (filter is_convert (fst (snd (convertToRaw m p w)))) =
     (if fst (fsRename m p (p @ ''.qcow2'') w) = None then 1 else 0)"
  by (auto simp: convertToRaw_run convertArgs_def split: prod.splits option.splits)

lemma tail_converts:
  "filter is_convert (fst (snd (orReturn (linkVerification m) (lockClearance m) w))) = []"
  by (simp add: orReturn_trace linkVerification_converts lockClearance_converts)

lemma create_converts:
  "filter is_convert (fst (snd (orReturn (createLimaDisk m)
      (orReturn (attachPersistentDiskToLimaDisk m) (lockClearance m)) w))) = []"
  by (simp add: orReturn_trace createLimaDisk_converts attach_converts lockClearance_converts)

text \<open>
  Claim C5, as amended. In every run, with any collaborators, the conversion tool is run
  exactly once when the conversion is due (\<open>conversionDue\<close>: the registry lists the disk,
  the backend is \<^verbatim>\<open>vz\<close>, the inspection succeeds with a format other than raw, and the
  rename of the persistent file succeeds), and not at all otherwise. So it is never run
  twice, also when the link check repairs the link again.
\<close>

theorem conversion_exactly_when_due:
  "length (filter is_convert (fst (snd (EnsureUserDataDisk m w)))) =
     (if conversionDue m w then 1 else 0)"
proof -
  obtain b es0 w0 where lde: "limaDiskExists m w = (b, es0, w0)"
    by (metis prod.exhaust)
  have c0: "filter is_convert es0 = []"
    using limaDiskExists_converts[of m w] lde by simp
  show ?thesis
  proof (cases b)
    case False
    then show ?thesis
      using lde c0 create_converts[of m w0] Ensure_unlisted[of m w es0 w0]
      by (simp add: conversionDue_def split: prod.splits)
  next
    case True
    note listed = this
    have run: "fst (snd (EnsureUserDataDisk m w)) =
        es0 @ fst (snd (orReturn (formatNormalization m)
                 (orReturn (linkVerification m) (lockClearance m)) w0))"
      using lde True Ensure_listed[of m w es0 w0] by (simp split: prod.splits)
    show ?thesis
    proof (cases "VMType m = ''vz''")
      case False
      then show ?thesis
        using lde listed c0 tail_converts[of m w0]
        by (simp add: run conversionDue_def orReturn_trace formatNormalization_run)
    next
      case True
      obtain ri es1 w1 where gi: "getDiskInfo m (UserDataDiskPath m) w0 = (ri, es1, w1)"
        by (metis prod.exhaust)
      have c1: "filter is_convert es1 = []"
        using getDiskInfo_converts[of m "UserDataDiskPath m" w0] gi by simp
      show ?thesis
      proof (cases ri)
        case (Inl e)
        then show ?thesis
          using lde listed True gi c0 c1
          by (simp add: run conversionDue_def orReturn_trace formatNormalization_run)
      next
        case (Inr info)
        show ?thesis
        proof (cases "Format info = ''raw''")
          case True
          then show ?thesis
            using lde listed \<open>VMType m = ''vz''\<close> gi Inr c0 c1 tail_converts[of m w1]
            by (simp add: run conversionDue_def orReturn_trace formatNormalization_run)
        next
          case False
          have fn: "formatNormalization m w0 =
              (case orReturn (convertToRaw m (UserDataDiskPath m)) (attachPersistentDiskToLimaDisk m) w1 of
                  (r, es2, w2) \<Rightarrow> (r, es1 @ es2, w2))"
            using \<open>VMType m = ''vz''\<close> gi Inr False by (simp add: formatNormalization_run)
          obtain r2 es2 w2 where cv:
            "orReturn (convertToRaw m (UserDataDiskPath m)) (attachPersistentDiskToLimaDisk m) w1 = (r2, es2, w2)"
            by (metis prod.exhaust)
          have c2: "length (filter is_convert es2) =
              (if fst (fsRename m (UserDataDiskPath m) (UserDataDiskPath m @ ''.qcow2'') w1) = None then 1 else 0)"
            using cv convertToRaw_converts[of m "UserDataDiskPath m" w1]
              orReturn_trace[of "convertToRaw m (UserDataDiskPath m)" "attachPersistentDiskToLimaDisk m" w1]
            by (simp add: attach_converts)
          have "length (filter is_convert (fst (snd (EnsureUserDataDisk m w)))) =
              length (filter is_convert es2)"
            using c0 c1 cv fn tail_converts[of m w2]
            by (simp add: run orReturn_trace)
          then show ?thesis
            using c2 lde listed \<open>VMType m = ''vz''\<close> gi Inr False
            by (simp add: conversionDue_def)
        qed
      qed
    qed
  qed
qed

subsection \<open>The link repair, call by call\<close>

lemma capturePersistent_outcome:
  assumes "fsStat m (UserDataDiskPath m) w = (st, w1)"
    and "fsStat m (pathDir m (UserDataDiskPath m)) w1 = (sd, w2)"
    and "fsMkdirAll m (pathDir m (UserDataDiskPath m)) 493 w2 = (mk, w3)"
    and "fsRename m (limaPath m) (UserDataDiskPath m)
           (if sd = Some ErrNotExist then w3 else w2) = (mv, w4)"
  shows "capturePersistent m w =
     (if st = None then (None, [EvStat (UserDataDiskPath m) st], w1)
      else if sd = Some ErrNotExist \<and> mk \<noteq> None then
        (map_option ErrMkdirPersistent mk,
         [EvStat (UserDataDiskPath m) st, EvStat (pathDir m (UserDataDiskPath m)) sd,
          EvMkdirAll (pathDir m (UserDataDiskPath m)) 493 mk], w3)
      else
        (map_option ErrMovePersistent mv,
         EvStat (UserDataDiskPath m) st # EvStat (pathDir m (UserDataDiskPath m)) sd #
         (if sd = Some ErrNotExist then [EvMkdirAll (pathDir m (UserDataDiskPath m)) 493 mk] else []) @
         [EvRename (limaPath m) (UserDataDiskPath m) mv], w4))"
proof (cases st)
  case None
  then show ?thesis
    using assms(1) unfolding capturePersistent_def persistentDiskExists_def
    by (simp add: prog_simps op_defs)
next
  case (Some e)
  note st = this
  show ?thesis
  proof (cases "sd = Some ErrNotExist")
    case True
    show ?thesis
    proof (cases mk)
      case None
      then show ?thesis
        using assms st True unfolding capturePersistent_def persistentDiskExists_def
        by (cases mv) (simp_all add: prog_simps op_defs Let_def)
    next
      case (Some e')
      then show ?thesis
        using assms st True unfolding capturePersistent_def persistentDiskExists_def
        by (simp add: prog_simps op_defs Let_def)
    qed
  next
    case False
    then show ?thesis
      using assms st unfolding capturePersistent_def persistentDiskExists_def
      by (cases mv) (simp_all add: prog_simps op_defs Let_def)
  qed
qed

lemma clearSlot_outcome:
  assumes "fsStat m (limaPath m) w = (sl, w5)"
    and "fsRemove m (limaPath m) w5 = (rm, w6)"
  shows "clearSlot m w =
     (if sl = None then
        (map_option ErrFs rm, [EvStat (limaPath m) sl, EvRemove (limaPath m) rm], w6)
      else if sl = Some ErrNotExist then (None, [EvStat (limaPath m) sl], w5)
      else (map_option ErrFs sl, [EvStat (limaPath m) sl], w5))"
proof (cases sl)
  case None
  then show ?thesis
    using assms unfolding clearSlot_def
    by (cases rm) (simp_all add: prog_simps op_defs)
next
  case (Some e)
  then show ?thesis
    using assms unfolding clearSlot_def
    by (simp add: prog_simps op_defs)
qed

lemma linkSlot_outcome:
  assumes "fsSymlinkIfPossible m (UserDataDiskPath m) (limaPath m) w = (ln, w7)"
  shows "linkSlot m w =
     (map_option ErrFs ln, [EvSymlink (UserDataDiskPath m) (limaPath m) ln], w7)"
  using assms unfolding linkSlot_def
  by (cases ln) (simp_all add: prog_simps op_defs)

lemma attach_outcome:
  assumes c: "fsStat m (UserDataDiskPath m) w = (st, w1)"
      "fsStat m (pathDir m (UserDataDiskPath m)) w1 = (sd, w2)"
      "fsMkdirAll m (pathDir m (UserDataDiskPath m)) 493 w2 = (mk, w3)"
      "fsRename m (limaPath m) (UserDataDiskPath m)
           (if sd = Some ErrNotExist then w3 else w2) = (mv, w4)"
    and s: "fsStat m (limaPath m) (if st = None then w1 else w4) = (sl, w5)"
      "fsRemove m (limaPath m) w5 = (rm, w6)"
    and l: "fsSymlinkIfPossible m (UserDataDiskPath m) (limaPath m)
           (if sl = None then w6 else w5) = (ln, w7)"
  shows "attachPersistentDiskToLimaDisk m w =
           linkRepairOutcome m st sd mk w3 mv w4 sl w5 rm w6 ln w7"
proof -
  note cap = capturePersistent_outcome[OF c]
  show ?thesis
  proof (cases "st \<noteq> None \<and> sd = Some ErrNotExist \<and> mk \<noteq> None")
    case True
    then show ?thesis
      using cap by (auto simp: attach_blocks orReturn_apply linkRepairOutcome_def)
  next
    case False
    note nomk = this
    show ?thesis
    proof (cases "st \<noteq> None \<and> mv \<noteq> None")
      case True
      then show ?thesis
        using cap nomk by (auto simp: attach_blocks orReturn_apply linkRepairOutcome_def Let_def)
    next
      case False
      note nomv = this
      define wc where "wc = (if st = None then w1 else w4)"
      define esc where "esc = EvStat (UserDataDiskPath m) st #
            (if st = None then []
             else EvStat (pathDir m (UserDataDiskPath m)) sd #
                  (if sd = Some ErrNotExist
                   then [EvMkdirAll (pathDir m (UserDataDiskPath m)) 493 mk] else []) @
                  [EvRename (limaPath m) (UserDataDiskPath m) mv])"
      have capok: "capturePersistent m w = (None, esc, wc)"
        using cap nomk nomv unfolding wc_def esc_def by (cases st) auto
      note cl = clearSlot_outcome[OF s[folded wc_def]]
      have rest: "attachPersistentDiskToLimaDisk m w =
          (case orReturn (clearSlot m) (linkSlot m) wc of (r, es, w') \<Rightarrow> (r, esc @ es, w'))"
        using capok by (simp add: attach_blocks orReturn_apply)
      show ?thesis
      proof (cases "sl \<noteq> None \<and> sl \<noteq> Some ErrNotExist")
        case True
        then show ?thesis
          using rest cl nomk nomv unfolding esc_def
          by (auto simp: orReturn_apply linkRepairOutcome_def Let_def)
      next
        case False
        note slok = this
        show ?thesis
        proof (cases "sl = None \<and> rm \<noteq> None")
          case True
          then show ?thesis
            using rest cl nomk nomv unfolding esc_def
            by (auto simp: orReturn_apply linkRepairOutcome_def Let_def)
        next
          case False
          then have clok: "clearSlot m wc =
              (None, EvStat (limaPath m) sl # (if sl = None then [EvRemove (limaPath m) rm] else []),
               if sl = None then w6 else w5)"
            using cl slok by (cases sl) auto
          note lk = linkSlot_outcome[OF l]
          show ?thesis
            using rest clok lk nomk nomv slok False unfolding esc_def
            by (auto simp: orReturn_apply linkRepairOutcome_def Let_def)
        qed
      qed
    qed
  qed
qed

subsection \<open>The lock check\<close>

lemma branch_reconcile:
  assumes "(if listed then orReturn (formatNormalization m) (linkVerification m)
            else orReturn (createLimaDisk m) (attachPersistentDiskToLimaDisk m)) w0 = (rb, es1, w1)"
  shows "list_all (reconcileEvent m) es1"
proof (cases listed)
  case True
  with assms have "orReturn (formatNormalization m) (linkVerification m) w0 = (rb, es1, w1)"
    by simp
  then show ?thesis
    by (cases rule: orReturn_cases)
      (auto dest: formatNormalization_reconcile linkVerification_reconcile)
next
  case False
  with assms have "orReturn (createLimaDisk m) (attachPersistentDiskToLimaDisk m) w0 = (rb, es1, w1)"
    by simp
  then show ?thesis
    by (cases rule: orReturn_cases)
      (auto dest: createLimaDisk_reconcile attach_reconcile)
qed

lemma Ensure_lock_run:
  assumes lde: "limaDiskExists m w = (listed, es0, w0)"
    and br: "(if listed then orReturn (formatNormalization m) (linkVerification m)
            else orReturn (createLimaDisk m) (attachPersistentDiskToLimaDisk m)) w0 = (rb, es1, w1)"
  shows "EnsureUserDataDisk m w =
     (case rb of
        Some e \<Rightarrow> (Some e, es0 @ es1, w1)
      | None \<Rightarrow> (case lockClearance m w1 of (r, es, w') \<Rightarrow> (r, es0 @ es1 @ es, w')))"
proof -
  have "thenDo (limaDiskExists m) (\<lambda>listed.
          if listed then orReturn (formatNormalization m) (linkVerification m)
          else orReturn (createLimaDisk m) (attachPersistentDiskToLimaDisk m)) w = (rb, es0 @ es1, w1)"
    using lde br by (simp add: thenDo_apply)
  then show ?thesis
    by (cases rb) (simp_all add: EnsureUserDataDisk_blocks orReturn_apply split: prod.splits)
qed

lemma lockClearance_outcome:
  assumes "fsStat m (lockPath m) w1 = (st, w2)"
    and "lccCombinedOutput m unlockArgs w2 = ((logs, err), w3)"
  shows "lockClearance m w1 =
     (if st = None then
        (if err = None then None else Some (ErrUnlockDisk logs),
         [EvStat (lockPath m) None, EvLimaCombinedOutput unlockArgs (logs, err)], w3)
      else (None, [EvStat (lockPath m) st], w2))"
  using assms by (cases st) (simp_all add: lockClearance_run)

lemma unlock_run:
  assumes lde: "limaDiskExists m w = (listed, es0, w0)"
    and br: "(if listed then orReturn (formatNormalization m) (linkVerification m)
            else orReturn (createLimaDisk m) (attachPersistentDiskToLimaDisk m)) w0 = (rb, es1, w1)"
    and st: "fsStat m (lockPath m) w1 = (st, w2)"
    and ul: "lccCombinedOutput m unlockArgs w2 = ((logs, err), w3)"
  shows "EnsureUserDataDisk m w =
     (case rb of
        Some e \<Rightarrow> (Some e, es0 @ es1, w1)
      | None \<Rightarrow>
          if st = None then
            (if err = None then None else Some (ErrUnlockDisk logs),
             es0 @ es1 @ [EvStat (lockPath m) None, EvLimaCombinedOutput unlockArgs (logs, err)], w3)
          else (None, es0 @ es1 @ [EvStat (lockPath m) st], w2)) \<and>
     noUnlock (es0 @ es1)"
proof -
  have "noUnlock (es0 @ es1)"
    using limaDiskExists_reconcile[OF lde] branch_reconcile[OF br]
    by (intro reconcile_noUnlock[of m]) simp
  then show ?thesis
    by (cases rb) (simp_all add: Ensure_lock_run[OF lde br] lockClearance_outcome[OF st ul])
qed

subsection \<open>The link check\<close>

lemma linkVerification_outcome:
  assumes rl: "fsReadlinkIfPossible m (limaPath m) w1 = ((t, e), w2)"
  shows "linkVerification m w1 =
     (case e of
        Some x \<Rightarrow> (Some (ErrFs x), [EvReadlink (limaPath m) (t, e)], w2)
      | None \<Rightarrow>
          if t = UserDataDiskPath m then (None, [EvReadlink (limaPath m) (t, e)], w2)
          else (case attachPersistentDiskToLimaDisk m w2 of
                  (r, es, w') \<Rightarrow> (r, EvReadlink (limaPath m) (t, e) # es, w')))"
  using rl by (cases e) (simp_all add: linkVerification_run)

lemma link_check_run:
  assumes lde: "limaDiskExists m w = (True, es0, w0)"
    and fmt: "formatNormalization m w0 = (None, es1, w1)"
    and rl: "fsReadlinkIfPossible m (limaPath m) w1 = ((t, e), w2)"
  shows "EnsureUserDataDisk m w =
     (case e of
        Some x \<Rightarrow> (Some (ErrFs x), es0 @ es1 @ [EvReadlink (limaPath m) (t, e)], w2)
      | None \<Rightarrow>
          if t = UserDataDiskPath m then
            (case lockClearance m w2 of
               (r, es, w') \<Rightarrow> (r, es0 @ es1 @ [EvReadlink (limaPath m) (t, e)] @ es, w'))
          else
            (case attachPersistentDiskToLimaDisk m w2 of
               (Some x, esa, wa) \<Rightarrow> (Some x, es0 @ es1 @ [EvReadlink (limaPath m) (t, e)] @ esa, wa)
             | (None, esa, wa) \<Rightarrow>
                 (case lockClearance m wa of
                    (r, es, w') \<Rightarrow>
                      (r, es0 @ es1 @ [EvReadlink (limaPath m) (t, e)] @ esa @ es, w'))))"
proof -
  have "EnsureUserDataDisk m w =
     (case orReturn (linkVerification m) (lockClearance m) w1 of
        (r, es, w') \<Rightarrow> (r, es0 @ es1 @ es, w'))"
    using fmt by (simp add: Ensure_listed[OF lde] orReturn_apply split: prod.splits)
  then show ?thesis
    by (simp add: orReturn_apply linkVerification_outcome[OF rl] split: option.splits prod.splits)
qed

subsection \<open>Every failing step ends the run\<close>

lemma info_failure_run:
  assumes lde: "limaDiskExists m w = (True, es0, w0)"
    and vz: "VMType m = ''vz''"
    and info: "eccCombinedOutput m (qemuImg m) (infoArgs (UserDataDiskPath m)) w0 = ((out, Some e), w1)"
  shows "EnsureUserDataDisk m w =
     (Some (ErrGetDiskInfo (UserDataDiskPath m) e),
      es0 @ [EvExecCombinedOutput (qemuImg m) (infoArgs (UserDataDiskPath m)) (out, Some e)], w1)"
  using vz info
  by (simp add: Ensure_listed[OF lde] orReturn_apply formatNormalization_run getDiskInfo_run)

lemma info_undecodable_run:
  assumes lde: "limaDiskExists m w = (True, es0, w0)"
    and vz: "VMType m = ''vz''"
    and info: "eccCombinedOutput m (qemuImg m) (infoArgs (UserDataDiskPath m)) w0 = ((out, None), w1)"
    and dec: "unmarshalQemuDiskInfo m out = Inl e"
  shows "EnsureUserDataDisk m w =
     (Some (ErrUnmarshalDiskInfo (UserDataDiskPath m) e),
      es0 @ [EvExecCombinedOutput (qemuImg m) (infoArgs (UserDataDiskPath m)) (out, None)], w1)"
  using vz info dec
  by (simp add: Ensure_listed[OF lde] orReturn_apply formatNormalization_run getDiskInfo_run)

lemma conversion_due_run:
  assumes lde: "limaDiskExists m w = (True, es0, w0)"
    and vz: "VMType m = ''vz''"
    and info: "eccCombinedOutput m (qemuImg m) (infoArgs (UserDataDiskPath m)) w0 = ((out, None), w1)"
    and dec: "unmarshalQemuDiskInfo m out = Inr i"
    and fmt: "Format i \<noteq> ''raw''"
  shows "EnsureUserDataDisk m w =
     (case orReturn (convertToRaw m (UserDataDiskPath m))
        (orReturn (attachPersistentDiskToLimaDisk m)
           (orReturn (linkVerification m) (lockClearance m))) w1 of
        (r, es, w') \<Rightarrow>
          (r, es0 @ EvExecCombinedOutput (qemuImg m) (infoArgs (UserDataDiskPath m)) (out, None) # es, w'))"
proof -
  have f: "formatNormalization m w0 =
     (case orReturn (convertToRaw m (UserDataDiskPath m)) (attachPersistentDiskToLimaDisk m) w1 of
        (r, es2, w2) \<Rightarrow>
          (r, EvExecCombinedOutput (qemuImg m) (infoArgs (UserDataDiskPath m)) (out, None) # es2, w2))"
    using vz info dec fmt by (simp add: formatNormalization_run getDiskInfo_run)
  show ?thesis
    unfolding Ensure_listed[OF lde]
    by (simp add: orReturn_apply[of "formatNormalization m"] f
        orReturn_apply[of "convertToRaw m (UserDataDiskPath m)"]
        orReturn_apply[of "attachPersistentDiskToLimaDisk m"]
        split: prod.splits option.splits)
qed

lemma rename_failure_run:
  assumes lde: "limaDiskExists m w = (True, es0, w0)"
    and vz: "VMType m = ''vz''"
    and info: "eccCombinedOutput m (qemuImg m) (infoArgs (UserDataDiskPath m)) w0 = ((out, None), w1)"
    and dec: "unmarshalQemuDiskInfo m out = Inr i"
    and fmt: "Format i \<noteq> ''raw''"
    and rn: "fsRename m (UserDataDiskPath m) (UserDataDiskPath m @ ''.qcow2'') w1 = (Some e, w2)"
  shows "EnsureUserDataDisk m w =
     (Some (ErrRenameDisk e),
      es0 @ [EvExecCombinedOutput (qemuImg m) (infoArgs (UserDataDiskPath m)) (out, None),
             EvRename (UserDataDiskPath m) (UserDataDiskPath m @ ''.qcow2'') (Some e)], w2)"
  using rn
  by (simp add: conversion_due_run[OF lde vz info dec fmt] orReturn_apply convertToRaw_run)

lemma convert_failure_run:
  assumes lde: "limaDiskExists m w = (True, es0, w0)"
    and vz: "VMType m = ''vz''"
    and info: "eccCombinedOutput m (qemuImg m) (infoArgs (UserDataDiskPath m)) w0 = ((out, None), w1)"
    and dec: "unmarshalQemuDiskInfo m out = Inr i"
    and fmt: "Format i \<noteq> ''raw''"
    and rn: "fsRename m (UserDataDiskPath m) (UserDataDiskPath m @ ''.qcow2'') w1 = (None, w2)"
    and cv: "eccCombinedOutput m (qemuImg m) (convertArgs (UserDataDiskPath m)) w2 = ((log, Some e), w3)"
  shows "EnsureUserDataDisk m w =
     (Some (ErrConvertDisk (UserDataDiskPath m) e),
      es0 @ [EvExecCombinedOutput (qemuImg m) (infoArgs (UserDataDiskPath m)) (out, None),
             EvRename (UserDataDiskPath m) (UserDataDiskPath m @ ''.qcow2'') None,
             EvExecCombinedOutput (qemuImg m) (convertArgs (UserDataDiskPath m)) (log, Some e)], w3)"
  using rn cv
  by (simp add: conversion_due_run[OF lde vz info dec fmt] orReturn_apply convertToRaw_run)

lemma relink_failure_run:
  assumes lde: "limaDiskExists m w = (True, es0, w0)"
    and vz: "VMType m = ''vz''"
    and info: "eccCombinedOutput m (qemuImg m) (infoArgs (UserDataDiskPath m)) w0 = ((out, None), w1)"
    and dec: "unmarshalQemuDiskInfo m out = Inr i"
    and fmt: "Format i \<noteq> ''raw''"
    and rn: "fsRename m (UserDataDiskPath m) (UserDataDiskPath m @ ''.qcow2'') w1 = (None, w2)"
    and cv: "eccCombinedOutput m (qemuImg m) (convertArgs (UserDataDiskPath m)) w2 = ((log, None), w3)"
    and at: "attachPersistentDiskToLimaDisk m w3 = (Some e, esa, wa)"
  shows "EnsureUserDataDisk m w =
     (Some e,
      es0 @ [EvExecCombinedOutput (qemuImg m) (infoArgs (UserDataDiskPath m)) (out, None),
             EvRename (UserDataDiskPath m) (UserDataDiskPath m @ ''.qcow2'') None,
             EvExecCombinedOutput (qemuImg m) (convertArgs (UserDataDiskPath m)) (log, None)] @ esa, wa)"
  using rn cv at
  by (simp add: conversion_due_run[OF lde vz info dec fmt] orReturn_apply convertToRaw_run)

lemma create_failure_run:
  assumes lde: "limaDiskExists m w = (False, es0, w0)"
    and cr: "lccCombinedOutput m createArgs w0 = ((logs, Some e), w1)"
  shows "EnsureUserDataDisk m w =
     (Some (ErrCreateDisk logs), es0 @ [EvLimaCombinedOutput createArgs (logs, Some e)], w1)"
  using cr by (simp add: Ensure_unlisted[OF lde] orReturn_apply createLimaDisk_run)

lemma create_link_failure_run:
  assumes lde: "limaDiskExists m w = (False, es0, w0)"
    and cr: "lccCombinedOutput m createArgs w0 = ((logs, None), w1)"
    and at: "attachPersistentDiskToLimaDisk m w1 = (Some e, esa, wa)"
  shows "EnsureUserDataDisk m w =
     (Some e, es0 @ [EvLimaCombinedOutput createArgs (logs, None)] @ esa, wa)"
  using cr at by (simp add: Ensure_unlisted[OF lde] orReturn_apply createLimaDisk_run)

section \<open>Properties on the simulated host\<close>

subsection \<open>The collaborators of the simulated host\<close>

lemma host_fields [simp]:
  "VMType (hostEnv vm home layout lima bin) = vm"
  "homeDir (hostEnv vm home layout lima bin) = home"
  "finchLayout (hostEnv vm home layout lima bin) = layout"
  "LimaHomePath (hostEnv vm home layout lima bin) = lima"
  "QEMUBinDir (hostEnv vm home layout lima bin) = bin"
  "fsStat (hostEnv vm home layout lima bin) = hostStat"
  "fsRename (hostEnv vm home layout lima bin) = hostRename"
  "fsMkdirAll (hostEnv vm home layout lima bin) = hostMkdirAll"
  "fsRemove (hostEnv vm home layout lima bin) = hostRemove"
  "fsReadlinkIfPossible (hostEnv vm home layout lima bin) = hostReadlink"
  "fsSymlinkIfPossible (hostEnv vm home layout lima bin) = hostSymlink"
  "lccOutput (hostEnv vm home layout lima bin) = hostLima lima"
  "lccCombinedOutput (hostEnv vm home layout lima bin) = hostLima lima"
  "eccCombinedOutput (hostEnv vm home layout lima bin) = hostExec bin"
  "unmarshalDisk (hostEnv vm home layout lima bin) = decodeDisk"
  "unmarshalQemuDiskInfo (hostEnv vm home layout lima bin) = decodeQemuDiskInfo"
  "pathJoin (hostEnv vm home layout lima bin) = joinPath"
  "pathDir (hostEnv vm home layout lima bin) = dirOf"
  by (simp_all add: hostEnv_def)

lemma jsonGet_jsonField: "jsonGet k (jsonField k v) = Some v"
  by (simp add: jsonGet_def jsonField_def Let_def suffix_def)

lemma decodeDisk_name: "decodeDisk (jsonField ''name'' n) = Inr \<lparr>Name = n\<rparr>"
  by (simp add: decodeDisk_def jsonGet_jsonField)

lemma decodeQemuDiskInfo_format:
  "decodeQemuDiskInfo (jsonField ''format'' f) =
     Inr \<lparr>VirtualSize = 0, Filename = [], Format = f, ActualSize = 0, DirtyFlag = False\<rparr>"
  by (simp add: decodeQemuDiskInfo_def jsonGet_jsonField)

lemma args_distinct:
  "lsArgs \<noteq> createArgs" "lsArgs \<noteq> unlockArgs" "createArgs \<noteq> unlockArgs"
  "createArgs \<noteq> lsArgs" "unlockArgs \<noteq> lsArgs" "unlockArgs \<noteq> createArgs"
  by (simp_all add: lsArgs_def createArgs_def unlockArgs_def)

lemma hostLima_ls:
  "hostLima lima lsArgs w =
     (if registered w then ((jsonField ''name'' diskName, None), w)
      else (([], Some (ErrOther ''exit status 1'')), w))"
  by (simp add: hostLima_def)

lemma hostLima_create:
  "hostLima lima createArgs w =
     (if registered w then (([], None), w)
      else (([], None),
            w\<lparr>files := (files w)(hostSlot lima \<mapsto> File ''raw''),
              registered := True\<rparr>))"
  by (simp add: hostLima_def args_distinct)

lemma hostLima_unlock:
  "hostLima lima unlockArgs w =
     (([], None),
      w\<lparr>files := (files w)(hostLock lima := None)\<rparr>)"
  by (simp add: hostLima_def args_distinct)

lemma hostExec_info:
  "hostExec bin (hostQemu bin) (infoArgs p) w =
     (case files w p of
        Some (File f) \<Rightarrow> ((jsonField ''format'' f, None), w)
      | _ \<Rightarrow> ((''Could not open'', Some (ErrOther ''exit status 1'')), w))"
  by (simp add: hostExec_def infoArgs_def split: option.splits node.splits)

lemma hostExec_convert:
  "hostExec bin (hostQemu bin) (convertArgs p) w =
     (case files w (p @ ''.qcow2'') of
        Some (File g) \<Rightarrow>
          if g = ''qcow2'' then (([], None), w\<lparr>files := (files w)(p \<mapsto> File ''raw'')\<rparr>)
          else ((''Image is not in qcow2 format'', Some (ErrOther ''exit status 1'')), w)
      | _ \<Rightarrow> ((''Could not open'', Some (ErrOther ''exit status 1'')), w))"
  by (simp add: hostExec_def convertArgs_def split: option.splits node.splits)

lemma host_paths:
  "limaPath (hostEnv vm home layout lima bin) = hostSlot lima"
  "lockPath (hostEnv vm home layout lima bin) = hostLock lima"
  "qemuImg (hostEnv vm home layout lima bin) = hostQemu bin"
  by (simp_all add: limaPath_def lockPath_def qemuImg_def hostSlot_def hostLock_def hostQemu_def)


subsection \<open>The blocks on the simulated host\<close>

lemma host_limaDiskExists:
  "limaDiskExists (hostEnv vm home layout lima bin) w =
     (registered w,
      [EvLimaOutput lsArgs
         (if registered w then (jsonField ''name'' diskName, None)
          else ([], Some (ErrOther ''exit status 1'')))], w)"
  by (simp add: limaDiskExists_run hostLima_ls decodeDisk_name)

lemma host_getDiskInfo:
  "getDiskInfo (hostEnv vm home layout lima bin) p w =
     (case files w p of
        Some (File f) \<Rightarrow>
          (Inr \<lparr>VirtualSize = 0, Filename = [], Format = f, ActualSize = 0, DirtyFlag = False\<rparr>,
           [EvExecCombinedOutput (hostQemu bin) (infoArgs p)
              (jsonField ''format'' f, None)], w)
      | _ \<Rightarrow>
          (Inl (ErrGetDiskInfo p (ErrOther ''exit status 1'')),
           [EvExecCombinedOutput (hostQemu bin) (infoArgs p)
              (''Could not open'', Some (ErrOther ''exit status 1''))], w))"
  by (simp add: getDiskInfo_run host_paths hostExec_info decodeQemuDiskInfo_format
      split: option.splits node.splits)

lemma host_lockClearance:
  "lockClearance (hostEnv vm home layout lima bin) w =
     (None,
      (if files w (hostLock lima) = None
       then [EvStat (hostLock lima) (Some ErrNotExist)]
       else [EvStat (hostLock lima) None,
             EvLimaCombinedOutput unlockArgs ([], None)]),
      (if files w (hostLock lima) = None then w
       else w\<lparr>files := (files w)(hostLock lima := None)\<rparr>))"
  by (simp add: lockClearance_run host_paths hostStat_def hostLima_unlock)

lemma host_createLimaDisk:
  "\<not> registered w \<Longrightarrow>
   createLimaDisk (hostEnv vm home layout lima bin) w =
     (None, [EvLimaCombinedOutput createArgs ([], None)],
      w\<lparr>files := (files w)(hostSlot lima \<mapsto> File ''raw''),
        registered := True\<rparr>)"
  by (simp add: createLimaDisk_run hostLima_create)

lemma host_clearSlot:
  "clearSlot (hostEnv vm home layout lima bin) w =
     (None,
      (if files w (hostSlot lima) = None
       then [EvStat (hostSlot lima) (Some ErrNotExist)]
       else [EvStat (hostSlot lima) None,
             EvRemove (hostSlot lima) None]),
      (if files w (hostSlot lima) = None then w
       else w\<lparr>files := (files w)(hostSlot lima := None)\<rparr>))"
  unfolding clearSlot_def
  by (auto simp: prog_simps op_defs host_paths hostStat_def hostRemove_def split: option.splits)

lemma host_ops:
  assumes "m = hostEnv vm home layout lima bin"
  shows "fsStat m = hostStat" "fsRename m = hostRename" "fsMkdirAll m = hostMkdirAll"
    "fsRemove m = hostRemove" "fsReadlinkIfPossible m = hostReadlink"
    "fsSymlinkIfPossible m = hostSymlink" "pathDir m = dirOf"
    "limaPath m = hostSlot lima" "lockPath m = hostLock lima" "qemuImg m = hostQemu bin"
    "VMType m = vm" "eccCombinedOutput m = hostExec bin" "lccOutput m = hostLima lima"
    "lccCombinedOutput m = hostLima lima" "unmarshalDisk m = decodeDisk"
    "unmarshalQemuDiskInfo m = decodeQemuDiskInfo"
  using assms by (simp_all add: host_paths)

lemma host_pathsDistinct:
  assumes "m = hostEnv vm home layout lima bin"
  shows "pathsDistinct m \<longleftrightarrow>
     distinct [UserDataDiskPath m, UserDataDiskPath m @ ''.qcow2'', hostSlot lima, hostLock lima,
               dirOf (UserDataDiskPath m)]"
  by (simp add: pathsDistinct_def host_ops[OF assms])

lemma fst_orReturn:
  "fst (orReturn a b w) = (case fst (a w) of Some e \<Rightarrow> Some e | None \<Rightarrow> fst (b (snd (snd (a w)))))"
  by (simp add: orReturn_apply split: prod.splits option.splits)

lemma world_orReturn:
  "snd (snd (orReturn a b w)) =
     (case fst (a w) of Some e \<Rightarrow> snd (snd (a w)) | None \<Rightarrow> snd (snd (b (snd (snd (a w))))))"
  by (simp add: orReturn_apply split: prod.splits option.splits)

text \<open>Removing what holds the slot never fails on the host.\<close>

lemma host_clearSlot_post:
  assumes m: "m = hostEnv vm home layout lima bin"
  shows "fst (clearSlot m w) = None \<and>
         snd (snd (clearSlot m w)) = w\<lparr>files := (files w)(hostSlot lima := None)\<rparr>"
proof (cases "files w (hostSlot lima)")
  case None
  then have "(files w)(hostSlot lima := None) = files w" by (simp add: fun_upd_idem)
  with None show ?thesis
    unfolding clearSlot_def
    by (simp add: prog_simps op_defs host_ops[OF m] hostStat_def)
next
  case (Some n)
  then show ?thesis
    unfolding clearSlot_def
    by (simp add: prog_simps op_defs host_ops[OF m] hostStat_def hostRemove_def)
qed

lemma host_linkSlot_post:
  assumes m: "m = hostEnv vm home layout lima bin"
  shows "fst (linkSlot m w) = None \<and>
         snd (snd (linkSlot m w)) =
           (if files w (hostSlot lima) \<noteq> None then w
            else w\<lparr>files := (files w)(hostSlot lima \<mapsto> Link (UserDataDiskPath m))\<rparr>)"
  unfolding linkSlot_def
  by (simp add: prog_simps op_defs host_ops[OF m] hostSymlink_def)

lemma host_capture_post:
  assumes m: "m = hostEnv vm home layout lima bin"
    and d: "UserDataDiskPath m \<noteq> hostSlot lima" "dirOf (UserDataDiskPath m) \<noteq> hostSlot lima"
      "dirOf (UserDataDiskPath m) \<noteq> UserDataDiskPath m"
  shows "fst (capturePersistent m w) =
           (if files w (UserDataDiskPath m) = None \<and> files w (hostSlot lima) = None
            then Some (ErrMovePersistent ErrNotExist) else None) \<and>
         registered (snd (snd (capturePersistent m w))) = registered w \<and>
         (\<forall>p. p \<noteq> hostSlot lima \<and> p \<noteq> UserDataDiskPath m \<and> p \<noteq> dirOf (UserDataDiskPath m) \<longrightarrow>
              files (snd (snd (capturePersistent m w))) p = files w p) \<and>
         files (snd (snd (capturePersistent m w))) (UserDataDiskPath m) =
           (if files w (UserDataDiskPath m) = None then files w (hostSlot lima)
            else files w (UserDataDiskPath m))"
proof (cases "files w (UserDataDiskPath m)")
  case (Some n)
  then show ?thesis
    unfolding capturePersistent_def persistentDiskExists_def
    by (simp add: prog_simps op_defs host_ops[OF m] hostStat_def)
next
  case None
  note absent = this
  show ?thesis
  proof (cases "files w (dirOf (UserDataDiskPath m))")
    case None
    note nodir = this
    show ?thesis
    proof (cases "files w (hostSlot lima)")
      case None
      then show ?thesis
        using absent nodir d
        unfolding capturePersistent_def persistentDiskExists_def
        by (simp add: prog_simps op_defs host_ops[OF m] hostStat_def hostMkdirAll_def hostRename_def Let_def)
    next
      case (Some n)
      then show ?thesis
        using absent nodir d
        unfolding capturePersistent_def persistentDiskExists_def
        by (simp add: prog_simps op_defs host_ops[OF m] hostStat_def hostMkdirAll_def hostRename_def Let_def)
    qed
  next
    case (Some x)
    note hasdir = this
    show ?thesis
    proof (cases "files w (hostSlot lima)")
      case None
      then show ?thesis
        using absent hasdir d
        unfolding capturePersistent_def persistentDiskExists_def
        by (simp add: prog_simps op_defs host_ops[OF m] hostStat_def hostMkdirAll_def hostRename_def Let_def)
    next
      case (Some n)
      then show ?thesis
        using absent hasdir d
        unfolding capturePersistent_def persistentDiskExists_def
        by (simp add: prog_simps op_defs host_ops[OF m] hostStat_def hostMkdirAll_def hostRename_def Let_def)
    qed
  qed
qed

lemma host_attach_post:
  assumes m: "m = hostEnv vm home layout lima bin"
    and dist: "pathsDistinct m"
    and run: "attachPersistentDiskToLimaDisk m w = (r, es, w')"
  shows "registered w' = registered w"
    and "\<And>p. p \<noteq> hostSlot lima \<Longrightarrow> p \<noteq> UserDataDiskPath m \<Longrightarrow> p \<noteq> dirOf (UserDataDiskPath m) \<Longrightarrow>
           files w' p = files w p"
    and "r = None \<Longrightarrow> files w' (hostSlot lima) = Some (Link (UserDataDiskPath m))"
    and "r = None \<Longrightarrow> files w' (UserDataDiskPath m) =
           (if files w (UserDataDiskPath m) = None then files w (hostSlot lima)
            else files w (UserDataDiskPath m))"
    and "files w (UserDataDiskPath m) \<noteq> None \<Longrightarrow> r = None"
    and "files w (hostSlot lima) \<noteq> None \<Longrightarrow> r = None"
proof -
  have d: "UserDataDiskPath m \<noteq> hostSlot lima" "dirOf (UserDataDiskPath m) \<noteq> hostSlot lima"
      "dirOf (UserDataDiskPath m) \<noteq> UserDataDiskPath m"
    using dist unfolding host_pathsDistinct[OF m] by auto
  define wc where "wc = snd (snd (capturePersistent m w))"
  note cap = host_capture_post[OF m d, of w, folded wc_def]
  have r: "r = fst (attachPersistentDiskToLimaDisk m w)"
    and w': "w' = snd (snd (attachPersistentDiskToLimaDisk m w))"
    using run by simp_all
  have rc: "r = fst (capturePersistent m w)"
    unfolding r attach_blocks
    by (simp add: fst_orReturn host_clearSlot_post[OF m] host_linkSlot_post[OF m] split: option.splits)
  have wok: "w' = wc\<lparr>files := (files wc)(hostSlot lima \<mapsto> Link (UserDataDiskPath m))\<rparr>" if "r = None"
    using that unfolding w' attach_blocks rc
    by (simp add: world_orReturn host_clearSlot_post[OF m] host_linkSlot_post[OF m] wc_def)
  have wfail: "w' = wc" if "r \<noteq> None"
    using that unfolding w' attach_blocks rc
    by (auto simp: world_orReturn wc_def)
  show "registered w' = registered w"
    using cap wok wfail by (cases r) simp_all
  show "files w' p = files w p"
    if "p \<noteq> hostSlot lima" "p \<noteq> UserDataDiskPath m" "p \<noteq> dirOf (UserDataDiskPath m)" for p
    using cap wok wfail that by (cases r) simp_all
  show "files w' (hostSlot lima) = Some (Link (UserDataDiskPath m))" if "r = None"
    using wok[OF that] by simp
  show "files w' (UserDataDiskPath m) =
           (if files w (UserDataDiskPath m) = None then files w (hostSlot lima)
            else files w (UserDataDiskPath m))" if "r = None"
    using wok[OF that] cap d by simp
  show "r = None" if "files w (UserDataDiskPath m) \<noteq> None"
    using cap that unfolding rc by simp
  show "r = None" if "files w (hostSlot lima) \<noteq> None"
    using cap that unfolding rc by simp
qed


text \<open>The conversion on the host: it succeeds exactly on a qcow2 file.\<close>

lemma host_convert_post:
  assumes m: "m = hostEnv vm home layout lima bin"
    and run: "convertToRaw m (UserDataDiskPath m) w = (r, es, w')"
  shows "registered w' = registered w"
    and "\<And>p. p \<noteq> UserDataDiskPath m \<Longrightarrow> p \<noteq> UserDataDiskPath m @ ''.qcow2'' \<Longrightarrow>
           files w' p = files w p"
    and "r = None \<longleftrightarrow> files w (UserDataDiskPath m) = Some (File ''qcow2'')"
    and "r = None \<Longrightarrow> files w' (UserDataDiskPath m) = Some (File ''raw'') \<and>
           files w' (UserDataDiskPath m @ ''.qcow2'') = Some (File ''qcow2'')"
    and "r \<noteq> None \<Longrightarrow>
           \<forall>out. EvExecCombinedOutput (qemuImg m) (convertArgs (UserDataDiskPath m)) (out, None) \<notin> set es"
proof -
  have q: "UserDataDiskPath m @ ''.qcow2'' \<noteq> UserDataDiskPath m" by simp
  have all: "registered w' = registered w \<and>
    (\<forall>p. p \<noteq> UserDataDiskPath m \<and> p \<noteq> UserDataDiskPath m @ ''.qcow2'' \<longrightarrow> files w' p = files w p) \<and>
    (r = None \<longleftrightarrow> files w (UserDataDiskPath m) = Some (File ''qcow2'')) \<and>
    (r = None \<longrightarrow> files w' (UserDataDiskPath m) = Some (File ''raw'') \<and>
           files w' (UserDataDiskPath m @ ''.qcow2'') = Some (File ''qcow2'')) \<and>
    (r \<noteq> None \<longrightarrow>
       (\<forall>out. EvExecCombinedOutput (qemuImg m) (convertArgs (UserDataDiskPath m)) (out, None) \<notin> set es))"
  proof (cases "files w (UserDataDiskPath m)")
    case None
    then show ?thesis
      using run by (auto simp: convertToRaw_run host_ops[OF m] hostRename_def)
  next
    case (Some n)
    show ?thesis
    proof (cases n)
      case (File g)
      show ?thesis
      proof (cases "g = ''qcow2''")
        case True
        then show ?thesis
          using run Some File q
          by (auto simp: convertToRaw_run host_ops[OF m] hostRename_def hostExec_convert)
      next
        case False
        then show ?thesis
          using run Some File q
          by (auto simp: convertToRaw_run host_ops[OF m] hostRename_def hostExec_convert)
      qed
    next
      case (Link t)
      then show ?thesis
        using run Some q
        by (auto simp: convertToRaw_run host_ops[OF m] hostRename_def hostExec_convert)
    next
      case Dir
      then show ?thesis
        using run Some q
        by (auto simp: convertToRaw_run host_ops[OF m] hostRename_def hostExec_convert)
    qed
  qed
  show "registered w' = registered w"
    and "\<And>p. p \<noteq> UserDataDiskPath m \<Longrightarrow> p \<noteq> UserDataDiskPath m @ ''.qcow2'' \<Longrightarrow>
           files w' p = files w p"
    and "r = None \<longleftrightarrow> files w (UserDataDiskPath m) = Some (File ''qcow2'')"
    and "r = None \<Longrightarrow> files w' (UserDataDiskPath m) = Some (File ''raw'') \<and>
           files w' (UserDataDiskPath m @ ''.qcow2'') = Some (File ''qcow2'')"
    and "r \<noteq> None \<Longrightarrow>
           \<forall>out. EvExecCombinedOutput (qemuImg m) (convertArgs (UserDataDiskPath m)) (out, None) \<notin> set es"
    using all by blast+
qed

lemma info_not_convert: "infoArgs p \<noteq> convertArgs q" "convertArgs q \<noteq> infoArgs p"
  by (simp_all add: infoArgs_def convertArgs_def)

lemma host_formatNormalization_post:
  assumes m: "m = hostEnv vm home layout lima bin"
    and dist: "pathsDistinct m"
    and run: "formatNormalization m w = (r, es, w')"
  shows "registered w' = registered w"
    and "\<And>p. p \<noteq> hostSlot lima \<Longrightarrow> p \<noteq> UserDataDiskPath m \<Longrightarrow>
           p \<noteq> UserDataDiskPath m @ ''.qcow2'' \<Longrightarrow> p \<noteq> dirOf (UserDataDiskPath m) \<Longrightarrow>
           files w' p = files w p"
    and "r = None \<Longrightarrow> VMType m = ''vz'' \<Longrightarrow> files w' (UserDataDiskPath m) = Some (File ''raw'')"
    and "r = None \<Longrightarrow> files w (UserDataDiskPath m) \<noteq> None \<Longrightarrow> files w' (UserDataDiskPath m) \<noteq> None"
    and "EvExecCombinedOutput (qemuImg m) (convertArgs (UserDataDiskPath m)) (out, None) \<in> set es \<Longrightarrow>
           files w' (UserDataDiskPath m @ ''.qcow2'') = Some (File ''qcow2'') \<and>
           files w (UserDataDiskPath m) = Some (File ''qcow2'')"
proof -
  have d: "UserDataDiskPath m @ ''.qcow2'' \<noteq> hostSlot lima"
      "UserDataDiskPath m @ ''.qcow2'' \<noteq> dirOf (UserDataDiskPath m)"
    using dist unfolding host_pathsDistinct[OF m] by auto
  have gi: "getDiskInfo m (UserDataDiskPath m) w =
     (case files w (UserDataDiskPath m) of
        Some (File f) \<Rightarrow>
          (Inr \<lparr>VirtualSize = 0, Filename = [], Format = f, ActualSize = 0, DirtyFlag = False\<rparr>,
           [EvExecCombinedOutput (hostQemu bin) (infoArgs (UserDataDiskPath m))
              (jsonField ''format'' f, None)], w)
      | _ \<Rightarrow>
          (Inl (ErrGetDiskInfo (UserDataDiskPath m) (ErrOther ''exit status 1'')),
           [EvExecCombinedOutput (hostQemu bin) (infoArgs (UserDataDiskPath m))
              (''Could not open'', Some (ErrOther ''exit status 1''))], w))"
    unfolding m by (rule host_getDiskInfo)
  have all: "registered w' = registered w \<and>
    (\<forall>p. p \<noteq> hostSlot lima \<and> p \<noteq> UserDataDiskPath m \<and>
           p \<noteq> UserDataDiskPath m @ ''.qcow2'' \<and> p \<noteq> dirOf (UserDataDiskPath m) \<longrightarrow>
           files w' p = files w p) \<and>
    (r = None \<and> VMType m = ''vz'' \<longrightarrow> files w' (UserDataDiskPath m) = Some (File ''raw'')) \<and>
    (r = None \<and> files w (UserDataDiskPath m) \<noteq> None \<longrightarrow> files w' (UserDataDiskPath m) \<noteq> None) \<and>
    (EvExecCombinedOutput (qemuImg m) (convertArgs (UserDataDiskPath m)) (out, None) \<in> set es \<longrightarrow>
           files w' (UserDataDiskPath m @ ''.qcow2'') = Some (File ''qcow2'') \<and>
           files w (UserDataDiskPath m) = Some (File ''qcow2''))"
  proof (cases "VMType m = ''vz''")
    case False
    then show ?thesis
      using run by (simp add: formatNormalization_run)
  next
    case True
    note vz = this
    show ?thesis
    proof (cases "\<exists>f. files w (UserDataDiskPath m) = Some (File f)")
      case False
      then show ?thesis
        using run vz gi
        by (auto simp: formatNormalization_run info_not_convert split: option.splits node.splits)
    next
      case True
      then obtain f where f: "files w (UserDataDiskPath m) = Some (File f)" by blast
      show ?thesis
      proof (cases "f = ''raw''")
        case True
        then show ?thesis
          using run vz gi f by (auto simp: formatNormalization_run info_not_convert)
      next
        case False
        then obtain es2 where
          rest: "orReturn (convertToRaw m (UserDataDiskPath m)) (attachPersistentDiskToLimaDisk m) w = (r, es2, w')"
          and es: "es = EvExecCombinedOutput (hostQemu bin) (infoArgs (UserDataDiskPath m))
              (jsonField ''format'' f, None) # es2"
          using run vz gi f by (auto simp: formatNormalization_run split: prod.splits)
        from rest show ?thesis
        proof (cases rule: orReturn_cases)
          case (abort e)
          note cv = host_convert_post[OF m abort(1)]
          show ?thesis
            using cv(1,2,5) abort(2) es by (auto simp: info_not_convert)
        next
          case (cont es3 w3 es4)
          note cv = host_convert_post[OF m cont(1)]
          note at = host_attach_post[OF m dist cont(2)]
          have q: "files w' (UserDataDiskPath m @ ''.qcow2'') = Some (File ''qcow2'')"
            using at(2)[of "UserDataDiskPath m @ ''.qcow2''"] d cv(4) by simp
          have src: "files w (UserDataDiskPath m) = Some (File ''qcow2'')"
            using cv(3) by simp
          have raw: "r = None \<longrightarrow> files w' (UserDataDiskPath m) = Some (File ''raw'')"
            using at(4) cv(4) by simp
          have fr: "files w' p = files w p"
            if "p \<noteq> hostSlot lima" "p \<noteq> UserDataDiskPath m"
              "p \<noteq> UserDataDiskPath m @ ''.qcow2''" "p \<noteq> dirOf (UserDataDiskPath m)" for p
            using at(2)[of p] cv(2)[of p] that by simp
          show ?thesis
            using q src raw fr at(1) cv(1) by simp
        qed
      qed
    qed
  qed
  show "registered w' = registered w"
    and "\<And>p. p \<noteq> hostSlot lima \<Longrightarrow> p \<noteq> UserDataDiskPath m \<Longrightarrow>
           p \<noteq> UserDataDiskPath m @ ''.qcow2'' \<Longrightarrow> p \<noteq> dirOf (UserDataDiskPath m) \<Longrightarrow>
           files w' p = files w p"
    and "r = None \<Longrightarrow> VMType m = ''vz'' \<Longrightarrow> files w' (UserDataDiskPath m) = Some (File ''raw'')"
    and "r = None \<Longrightarrow> files w (UserDataDiskPath m) \<noteq> None \<Longrightarrow> files w' (UserDataDiskPath m) \<noteq> None"
    and "EvExecCombinedOutput (qemuImg m) (convertArgs (UserDataDiskPath m)) (out, None) \<in> set es \<Longrightarrow>
           files w' (UserDataDiskPath m @ ''.qcow2'') = Some (File ''qcow2'') \<and>
           files w (UserDataDiskPath m) = Some (File ''qcow2'')"
    using all by blast+
qed

lemma host_linkVerification_post:
  assumes m: "m = hostEnv vm home layout lima bin"
    and dist: "pathsDistinct m"
    and run: "linkVerification m w = (r, es, w')"
  shows "registered w' = registered w"
    and "\<And>p. p \<noteq> hostSlot lima \<Longrightarrow> p \<noteq> UserDataDiskPath m \<Longrightarrow> p \<noteq> dirOf (UserDataDiskPath m) \<Longrightarrow>
           files w' p = files w p"
    and "r = None \<Longrightarrow> files w' (hostSlot lima) = Some (Link (UserDataDiskPath m))"
    and "r = None \<Longrightarrow> files w (UserDataDiskPath m) \<noteq> None \<Longrightarrow>
           files w' (UserDataDiskPath m) = files w (UserDataDiskPath m)"
proof -
  have all: "registered w' = registered w \<and>
    (\<forall>p. p \<noteq> hostSlot lima \<and> p \<noteq> UserDataDiskPath m \<and> p \<noteq> dirOf (UserDataDiskPath m) \<longrightarrow>
           files w' p = files w p) \<and>
    (r = None \<longrightarrow> files w' (hostSlot lima) = Some (Link (UserDataDiskPath m))) \<and>
    (r = None \<and> files w (UserDataDiskPath m) \<noteq> None \<longrightarrow>
           files w' (UserDataDiskPath m) = files w (UserDataDiskPath m))"
  proof (cases "files w (hostSlot lima) = Some (Link (UserDataDiskPath m))")
    case True
    then show ?thesis
      using run by (simp add: linkVerification_run host_ops[OF m] hostReadlink_def)
  next
    case False
    then obtain loc where
      at: "attachPersistentDiskToLimaDisk m w = (r, tl es, w')"
      using run UserDataDiskPath_nonempty[of m]
      by (auto simp: linkVerification_run host_ops[OF m] hostReadlink_def
          split: option.splits node.splits prod.splits if_splits)
    note p = host_attach_post[OF m dist at]
    show ?thesis
      using p(1) p(2) p(3) p(4) by simp
  qed
  show "registered w' = registered w"
    and "\<And>p. p \<noteq> hostSlot lima \<Longrightarrow> p \<noteq> UserDataDiskPath m \<Longrightarrow> p \<noteq> dirOf (UserDataDiskPath m) \<Longrightarrow>
           files w' p = files w p"
    and "r = None \<Longrightarrow> files w' (hostSlot lima) = Some (Link (UserDataDiskPath m))"
    and "r = None \<Longrightarrow> files w (UserDataDiskPath m) \<noteq> None \<Longrightarrow>
           files w' (UserDataDiskPath m) = files w (UserDataDiskPath m)"
    using all by blast+
qed

lemma host_lockClearance_post:
  assumes m: "m = hostEnv vm home layout lima bin"
    and run: "lockClearance m w = (r, es, w')"
  shows "r = None" and "registered w' = registered w" and "files w' (hostLock lima) = None"
    and "\<And>p. p \<noteq> hostLock lima \<Longrightarrow> files w' p = files w p"
  using run unfolding m host_lockClearance
  by (auto split: if_splits)

lemma host_lde:
  assumes m: "m = hostEnv vm home layout lima bin"
  shows "limaDiskExists m w =
     (registered w,
      [EvLimaOutput lsArgs
         (if registered w then (jsonField ''name'' diskName, None)
          else ([], Some (ErrOther ''exit status 1'')))], w)"
  unfolding m by (rule host_limaDiskExists)

lemma host_create:
  assumes m: "m = hostEnv vm home layout lima bin" and "\<not> registered w"
  shows "createLimaDisk m w =
     (None, [EvLimaCombinedOutput createArgs ([], None)],
      w\<lparr>files := (files w)(hostSlot lima \<mapsto> File ''raw''), registered := True\<rparr>)"
  unfolding m using assms(2) by (rule host_createLimaDisk)

text \<open>What a run that returns no error leaves on the host.\<close>

lemma host_success:
  assumes m: "m = hostEnv vm home layout lima bin"
    and dist: "pathsDistinct m"
    and run: "EnsureUserDataDisk m w = (None, es, w')"
  shows "registered w'"
    and "files w' (hostSlot lima) = Some (Link (UserDataDiskPath m))"
    and "files w' (hostLock lima) = None"
    and "VMType m = ''vz'' \<Longrightarrow> registered w \<Longrightarrow> files w' (UserDataDiskPath m) = Some (File ''raw'')"
    and "\<not> registered w \<Longrightarrow> files w' (UserDataDiskPath m) =
           (if files w (UserDataDiskPath m) = None then Some (File ''raw'')
            else files w (UserDataDiskPath m))"
proof -
  have d: "hostLock lima \<noteq> hostSlot lima" "hostLock lima \<noteq> UserDataDiskPath m"
      "hostLock lima \<noteq> dirOf (UserDataDiskPath m)" "hostSlot lima \<noteq> UserDataDiskPath m"
    using dist unfolding host_pathsDistinct[OF m] by auto
  have all: "registered w' \<and>
    files w' (hostSlot lima) = Some (Link (UserDataDiskPath m)) \<and>
    files w' (hostLock lima) = None \<and>
    (VMType m = ''vz'' \<and> registered w \<longrightarrow> files w' (UserDataDiskPath m) = Some (File ''raw'')) \<and>
    (\<not> registered w \<longrightarrow> files w' (UserDataDiskPath m) =
           (if files w (UserDataDiskPath m) = None then Some (File ''raw'')
            else files w (UserDataDiskPath m)))"
  proof (cases "registered w")
    case True
    then obtain es' where rest:
      "orReturn (formatNormalization m) (orReturn (linkVerification m) (lockClearance m)) w = (None, es', w')"
      using run Ensure_listed[of m w _ w] host_lde[OF m, of w] by (auto split: prod.splits)
    from rest obtain es1 w1 es2 w2 es3 where
      fn: "formatNormalization m w = (None, es1, w1)" and
      lv: "linkVerification m w1 = (None, es2, w2)" and
      lc: "lockClearance m w2 = (None, es3, w')"
      by (auto elim!: orReturn_cases)
    note a = host_formatNormalization_post[OF m dist fn]
    note b = host_linkVerification_post[OF m dist lv]
    note c = host_lockClearance_post[OF m lc]
    have "registered w'" using True a(1) b(1) c(2) by simp
    moreover have "files w' (hostSlot lima) = Some (Link (UserDataDiskPath m))"
      using b(3) c(4)[of "hostSlot lima"] d by simp
    moreover have "VMType m = ''vz'' \<longrightarrow> files w' (UserDataDiskPath m) = Some (File ''raw'')"
      using a(3) b(4) c(4)[of "UserDataDiskPath m"] d by auto
    ultimately show ?thesis using c(3) True by simp
  next
    case False
    then obtain es' where rest:
      "orReturn (createLimaDisk m) (orReturn (attachPersistentDiskToLimaDisk m) (lockClearance m)) w = (None, es', w')"
      using run Ensure_unlisted[of m w _ w] host_lde[OF m, of w] by (auto split: prod.splits)
    define w1 where "w1 = w\<lparr>files := (files w)(hostSlot lima \<mapsto> File ''raw''), registered := True\<rparr>"
    from rest obtain es2 w2 es3 where
      at: "attachPersistentDiskToLimaDisk m w1 = (None, es2, w2)" and
      lc: "lockClearance m w2 = (None, es3, w')"
      using host_create[OF m False] unfolding w1_def by (auto elim!: orReturn_cases)
    note b = host_attach_post[OF m dist at]
    note c = host_lockClearance_post[OF m lc]
    have "registered w'" using b(1) c(2) by (simp add: w1_def)
    moreover have "files w' (hostSlot lima) = Some (Link (UserDataDiskPath m))"
      using b(3) c(4)[of "hostSlot lima"] d by simp
    moreover have "files w' (UserDataDiskPath m) =
           (if files w (UserDataDiskPath m) = None then Some (File ''raw'')
            else files w (UserDataDiskPath m))"
      using b(4) c(4)[of "UserDataDiskPath m"] d by (simp add: w1_def)
    ultimately show ?thesis using c(3) False by simp
  qed
  show "registered w'"
    and "files w' (hostSlot lima) = Some (Link (UserDataDiskPath m))"
    and "files w' (hostLock lima) = None"
    and "VMType m = ''vz'' \<Longrightarrow> registered w \<Longrightarrow> files w' (UserDataDiskPath m) = Some (File ''raw'')"
    and "\<not> registered w \<Longrightarrow> files w' (UserDataDiskPath m) =
           (if files w (UserDataDiskPath m) = None then Some (File ''raw'')
            else files w (UserDataDiskPath m))"
    using all by blast+
qed

lemma host_converged:
  assumes m: "m = hostEnv vm home layout lima bin"
    and dist: "pathsDistinct m"
    and run: "EnsureUserDataDisk m w = (None, es, w')"
    and cov: "formatCovered m w"
  shows "converged m w'"
  using host_success[OF m dist run] cov
  unfolding converged_def formatCovered_def host_ops[OF m]
  by (cases "registered w") (auto split: if_splits)

lemma idleTrace_quiet: "list_all (\<lambda>ev. \<not> is_mutation ev) (idleTrace m)"
  by (simp add: idleTrace_def infoArgs_def)

lemma host_idle:
  assumes m: "m = hostEnv vm home layout lima bin"
    and conv: "converged m w"
  shows "EnsureUserDataDisk m w = (None, idleTrace m, w)"
proof -
  have reg: "registered w" and slot: "files w (hostSlot lima) = Some (Link (UserDataDiskPath m))"
    and lock: "files w (hostLock lima) = None"
    using conv unfolding converged_def host_ops[OF m] by auto
  have lv: "linkVerification m w =
      (None, [EvReadlink (limaPath m) (UserDataDiskPath m, None)], w)"
    using slot by (simp add: linkVerification_run host_ops[OF m] hostReadlink_def)
  have lc: "lockClearance m w = (None, [EvStat (lockPath m) (Some ErrNotExist)], w)"
    using lock unfolding m host_lockClearance by (simp add: host_paths)
  have fn: "formatNormalization m w =
      (None,
       (if VMType m = ''vz''
        then [EvExecCombinedOutput (qemuImg m) (infoArgs (UserDataDiskPath m))
                (jsonField ''format'' ''raw'', None)]
        else []), w)"
  proof (cases "VMType m = ''vz''")
    case False
    then show ?thesis by (simp add: formatNormalization_run)
  next
    case True
    then have "files w (UserDataDiskPath m) = Some (File ''raw'')"
      using conv unfolding converged_def by simp
    then have "getDiskInfo m (UserDataDiskPath m) w =
        (Inr \<lparr>VirtualSize = 0, Filename = [], Format = ''raw'', ActualSize = 0, DirtyFlag = False\<rparr>,
         [EvExecCombinedOutput (qemuImg m) (infoArgs (UserDataDiskPath m))
            (jsonField ''format'' ''raw'', None)], w)"
      unfolding m by (simp add: host_getDiskInfo host_paths)
    then show ?thesis using True by (simp add: formatNormalization_run)
  qed
  show ?thesis
    using reg by (simp add: Ensure_listed[of m w _ w] host_lde[OF m] orReturn_apply fn lv lc idleTrace_def)
qed

subsection \<open>The renamed image\<close>









subsection \<open>The lock marker after an error\<close>

lemma host_marker_kept:
  assumes m: "m = hostEnv vm home layout lima bin"
    and dist: "pathsDistinct m"
    and run: "EnsureUserDataDisk m w = (Some err, es, w')"
  shows "files w' (hostLock lima) = files w (hostLock lima)"
proof -
  have d: "hostLock lima \<noteq> hostSlot lima" "hostLock lima \<noteq> UserDataDiskPath m"
      "hostLock lima \<noteq> dirOf (UserDataDiskPath m)" "hostLock lima \<noteq> UserDataDiskPath m @ ''.qcow2''"
    using dist unfolding host_pathsDistinct[OF m] by auto
  show ?thesis
  proof (cases "registered w")
    case True
    then obtain es' where rest:
      "orReturn (formatNormalization m) (orReturn (linkVerification m) (lockClearance m)) w = (Some err, es', w')"
      using run Ensure_listed[of m w _ w] host_lde[OF m, of w] by (auto split: prod.splits)
    from rest show ?thesis
    proof (cases rule: orReturn_cases)
      case (abort e)
      from host_formatNormalization_post(2)[OF m dist abort(1), of "hostLock lima"] d
      show ?thesis by simp
    next
      case (cont es1 w1 es2)
      from host_formatNormalization_post(2)[OF m dist cont(1), of "hostLock lima"] d
      have k1: "files w1 (hostLock lima) = files w (hostLock lima)" by simp
      from cont(2) show ?thesis
      proof (cases rule: orReturn_cases)
        case (abort e)
        from host_linkVerification_post(2)[OF m dist abort(1), of "hostLock lima"] d k1
        show ?thesis by simp
      next
        case (cont es3 w3 es4)
        from host_lockClearance_post(1)[OF m cont(2)] show ?thesis by simp
      qed
    qed
  next
    case False
    then obtain es' where rest:
      "orReturn (createLimaDisk m) (orReturn (attachPersistentDiskToLimaDisk m) (lockClearance m)) w = (Some err, es', w')"
      using run Ensure_unlisted[of m w _ w] host_lde[OF m, of w] by (auto split: prod.splits)
    define w1 where "w1 = w\<lparr>files := (files w)(hostSlot lima \<mapsto> File ''raw''), registered := True\<rparr>"
    have k1: "files w1 (hostLock lima) = files w (hostLock lima)"
      using d by (simp add: w1_def)
    from rest have "orReturn (attachPersistentDiskToLimaDisk m) (lockClearance m) w1 = (Some err, tl es', w')"
      using orReturn_cont[of "createLimaDisk m" w _ _
          "orReturn (attachPersistentDiskToLimaDisk m) (lockClearance m)", OF host_create[OF m False]]
      unfolding w1_def by (auto split: prod.splits)
    then show ?thesis
    proof (cases rule: orReturn_cases)
      case (abort e)
      from host_attach_post(2)[OF m dist abort(1), of "hostLock lima"] d k1
      show ?thesis by simp
    next
      case (cont es3 w3 es4)
      from host_lockClearance_post(1)[OF m cont(2)] show ?thesis by simp
    qed
  qed
qed

subsection \<open>The trace around a conversion\<close>





section \<open>The claims on the sample hosts\<close>

subsection \<open>The sample host\<close>

lemma sample_is_host:
  "sampleEnv vm = hostEnv vm ''/home/u'' ''.finch/.disks'' ''/lima/data'' ''/lima/bin''"
  by (simp add: sampleEnv_def)

lemma sample_paths:
  "UserDataDiskPath (sampleEnv vm) = sampleDisk"
  "limaPath (sampleEnv vm) = sampleSlot"
  "lockPath (sampleEnv vm) = sampleLock"
  "hostSlot ''/lima/data'' = sampleSlot"
  "hostLock ''/lima/data'' = sampleLock"
  "qemuImg (sampleEnv vm) = ''/lima/bin/qemu-img''"
  "VMType (sampleEnv vm) = vm"
  by (simp_all add: sampleEnv_def UserDataDiskPath_def limaPath_def lockPath_def sampleDisk_def
      sampleSlot_def sampleLock_def diskName_def hostSlot_def hostLock_def qemuImg_def)

lemma sample_distinct: "pathsDistinct (sampleEnv vm)"
proof -
  have "pathDir (sampleEnv vm) = dirOf" by (simp add: sampleEnv_def)
  then show ?thesis
    by (simp add: pathsDistinct_def sample_paths sampleDisk_def sampleSlot_def
        sampleLock_def dirOf_def)
qed

lemma run_eq: "fst x = r \<Longrightarrow> x = (r, fst (snd x), snd (snd x))"
  by auto

text \<open>
  Claim C1 as stated does not hold. On \<open>staleHost\<close> (no registered disk, a qcow2 persistent
  file left behind) under \<^verbatim>\<open>vz\<close> the run returns no error, and the persistent file is still
  a qcow2 image: the create branch links the slot to the file it finds.
\<close>

theorem convergence_counterexample:
  "VMType (sampleEnv ''vz'') = ''vz'' \<and>
   fst (EnsureUserDataDisk (sampleEnv ''vz'') staleHost) = None \<and>
   files (snd (snd (EnsureUserDataDisk (sampleEnv ''vz'') staleHost)))
     (UserDataDiskPath (sampleEnv ''vz'')) = Some (File ''qcow2'')"
  by code_simp

text \<open>
  Claim C1, as amended. On the simulated host, with the five paths distinct, every run
  that returns no error leaves the slot a link to the persistent file, no lock marker and
  the disk registered, whatever the starting state. Under \<^verbatim>\<open>vz\<close> the persistent file is a
  raw image when the registry listed the disk at the start (lines 81-100 then inspect and
  convert it), or there was no persistent file (the registry's new raw file is moved
  there), or it was raw already. The create branch (lines 116-121) never inspects the
  format, so a non-raw persistent file met there stays as it is.
\<close>

theorem convergence:
  assumes "m = hostEnv vm home layout lima bin"
    and "pathsDistinct m"
    and "EnsureUserDataDisk m w = (None, es, w')"
  shows "files w' (limaPath m) = Some (Link (UserDataDiskPath m)) \<and>
         files w' (lockPath m) = None \<and>
         registered w' \<and>
         (VMType m = ''vz'' \<and>
          (registered w \<or> files w (UserDataDiskPath m) = None \<or>
           files w (UserDataDiskPath m) = Some (File ''raw'')) \<longrightarrow>
          files w' (UserDataDiskPath m) = Some (File ''raw''))"
  using host_success[OF assms] host_ops(8,9)[OF assms(1)]
  by (cases "registered w") auto

theorem convergence_witness:
  "pathsDistinct (sampleEnv ''vz'') \<and>
   fst (EnsureUserDataDisk (sampleEnv ''vz'') freshHost) = None \<and>
   converged (sampleEnv ''vz'') (snd (snd (EnsureUserDataDisk (sampleEnv ''vz'') freshHost))) \<and>
   fst (EnsureUserDataDisk (sampleEnv ''vz'') qcowHost) = None \<and>
   converged (sampleEnv ''vz'') (snd (snd (EnsureUserDataDisk (sampleEnv ''vz'') qcowHost))) \<and>
   fst (EnsureUserDataDisk (sampleEnv ''vz'') unlinkedHost) = None \<and>
   converged (sampleEnv ''vz'') (snd (snd (EnsureUserDataDisk (sampleEnv ''vz'') unlinkedHost))) \<and>
   fst (EnsureUserDataDisk (sampleEnv ''vz'') linkedHost) = None \<and>
   converged (sampleEnv ''vz'') (snd (snd (EnsureUserDataDisk (sampleEnv ''vz'') linkedHost)))"
proof -
  have r: "fst (EnsureUserDataDisk (sampleEnv ''vz'') freshHost) = None"
    "fst (EnsureUserDataDisk (sampleEnv ''vz'') qcowHost) = None"
    "fst (EnsureUserDataDisk (sampleEnv ''vz'') unlinkedHost) = None"
    "fst (EnsureUserDataDisk (sampleEnv ''vz'') linkedHost) = None"
    by code_simp+
  have s: "files freshHost sampleDisk = None" "registered qcowHost" "registered unlinkedHost"
    "registered linkedHost"
    by (simp_all add: freshHost_def qcowHost_def unlinkedHost_def linkedHost_def)
  from convergence[OF sample_is_host sample_distinct run_eq[OF r(1)]]
    convergence[OF sample_is_host sample_distinct run_eq[OF r(2)]]
    convergence[OF sample_is_host sample_distinct run_eq[OF r(3)]]
    convergence[OF sample_is_host sample_distinct run_eq[OF r(4)]]
    r s sample_distinct
  show ?thesis by (simp add: converged_def sample_paths)
qed

text \<open>
  Claim C2 as stated does not hold. From \<open>staleHost\<close> under \<^verbatim>\<open>vz\<close> the first call returns
  no error; the second call, on the state the first one left, renames the persistent
  file, converts it, removes the slot's link and creates it again.
\<close>

theorem idempotence_counterexample:
  "fst (EnsureUserDataDisk (sampleEnv ''vz'') staleHost) = None \<and>
   fst (EnsureUserDataDisk (sampleEnv ''vz'')
          (snd (snd (EnsureUserDataDisk (sampleEnv ''vz'') staleHost)))) = None \<and>
   filter is_mutation
     (fst (snd (EnsureUserDataDisk (sampleEnv ''vz'')
                  (snd (snd (EnsureUserDataDisk (sampleEnv ''vz'') staleHost)))))) =
     [EvRename sampleDisk (sampleDisk @ ''.qcow2'') None,
      EvExecCombinedOutput ''/lima/bin/qemu-img''
        [''convert'', ''-f'', ''qcow2'', ''-O'', ''raw'', sampleDisk @ ''.qcow2'', sampleDisk] ([], None),
      EvRemove sampleSlot None,
      EvSymlink sampleDisk sampleSlot None]"
  by code_simp

text \<open>
  Claim C2, as amended. On the simulated host, after a call that returned no error and
  whose starting state had the format taken care of (\<open>formatCovered\<close>: the backend is not
  \<^verbatim>\<open>vz\<close>, or the registry listed the disk, or there was no persistent file, or it was
  raw), a second call on the resulting state returns no error, leaves the state as it is,
  and only asks: its trace is \<open>idleTrace\<close>, which holds no rename, remove, mkdir, link
  creation, registry create, conversion or unlock.
\<close>

theorem idempotence:
  assumes "m = hostEnv vm home layout lima bin"
    and "pathsDistinct m"
    and "EnsureUserDataDisk m w = (None, es, w')"
    and "formatCovered m w"
  shows "EnsureUserDataDisk m w' = (None, idleTrace m, w') \<and>
         list_all (\<lambda>ev. \<not> is_mutation ev) (idleTrace m)"
  using host_idle[OF assms(1) host_converged[OF assms]] idleTrace_quiet[of m]
  by simp

theorem idempotence_witness:
  "pathsDistinct (sampleEnv ''vz'') \<and> formatCovered (sampleEnv ''vz'') freshHost \<and>
   fst (EnsureUserDataDisk (sampleEnv ''vz'') freshHost) = None \<and>
   fst (EnsureUserDataDisk (sampleEnv ''vz'')
          (snd (snd (EnsureUserDataDisk (sampleEnv ''vz'') freshHost)))) = None \<and>
   fst (snd (EnsureUserDataDisk (sampleEnv ''vz'')
          (snd (snd (EnsureUserDataDisk (sampleEnv ''vz'') freshHost))))) =
     [EvLimaOutput lsArgs (jsonField ''name'' diskName, None),
      EvExecCombinedOutput ''/lima/bin/qemu-img'' [''info'', ''--output=json'', sampleDisk]
        (jsonField ''format'' ''raw'', None),
      EvReadlink sampleSlot (sampleDisk, None),
      EvStat sampleLock (Some ErrNotExist)]"
proof -
  have r: "fst (EnsureUserDataDisk (sampleEnv ''vz'') freshHost) = None"
    by code_simp
  have cov: "formatCovered (sampleEnv ''vz'') freshHost"
    by (simp add: formatCovered_def freshHost_def sample_paths)
  from idempotence[OF sample_is_host sample_distinct run_eq[OF r] cov] r cov sample_distinct
  show ?thesis by (simp add: idleTrace_def sample_paths infoArgs_def)
qed

lemma pair_eq: "fst x = a \<Longrightarrow> x = (a, snd x)"
  by auto

lemma host_gdi:
  assumes "m = hostEnv vm home layout lima bin"
  shows "getDiskInfo m p w =
     (case files w p of
        Some (File f) \<Rightarrow>
          (Inr \<lparr>VirtualSize = 0, Filename = [], Format = f, ActualSize = 0, DirtyFlag = False\<rparr>,
           [EvExecCombinedOutput (hostQemu bin) (infoArgs p) (jsonField ''format'' f, None)], w)
      | _ \<Rightarrow>
          (Inl (ErrGetDiskInfo p (ErrOther ''exit status 1'')),
           [EvExecCombinedOutput (hostQemu bin) (infoArgs p)
              (''Could not open'', Some (ErrOther ''exit status 1''))], w))"
  unfolding assms by (rule host_getDiskInfo)

text \<open>
  Claim C4 as stated does not hold. On \<open>vmdkHost\<close> (a registered disk whose persistent
  file is a vmdk image) under \<^verbatim>\<open>vz\<close> the inspection reports \<^verbatim>\<open>vmdk\<close>, yet the file is
  renamed to \<^verbatim>\<open>datadisk.qcow2\<close> and the conversion is run with \<^verbatim>\<open>-f qcow2\<close>: the extension
  and the source format are fixed (lines 173 and 181), not taken from the old format.
\<close>

theorem conversion_steps_counterexample:
  "fst (snd (EnsureUserDataDisk (sampleEnv ''vz'') vmdkHost)) =
     [EvLimaOutput [''disk'', ''ls'', ''finch'', ''--json''] (jsonField ''name'' ''finch'', None),
      EvExecCombinedOutput ''/lima/bin/qemu-img'' [''info'', ''--output=json'', sampleDisk]
        (jsonField ''format'' ''vmdk'', None),
      EvRename sampleDisk (sampleDisk @ ''.qcow2'') None,
      EvExecCombinedOutput ''/lima/bin/qemu-img''
        [''convert'', ''-f'', ''qcow2'', ''-O'', ''raw'', sampleDisk @ ''.qcow2'', sampleDisk]
        (''Image is not in qcow2 format'', Some (ErrOther ''exit status 1''))]"
  by code_simp

theorem conversion_steps_witness:
  "limaDiskExists (sampleEnv ''vz'') qcowHost =
     (True, [EvLimaOutput lsArgs (jsonField ''name'' diskName, None)], qcowHost) \<and>
   fst (getDiskInfo (sampleEnv ''vz'') sampleDisk qcowHost) =
     Inr \<lparr>VirtualSize = 0, Filename = [], Format = ''qcow2'', ActualSize = 0, DirtyFlag = False\<rparr> \<and>
   fst (fsRename (sampleEnv ''vz'') sampleDisk (sampleDisk @ ''.qcow2'') qcowHost) = None \<and>
   fst (eccCombinedOutput (sampleEnv ''vz'') ''/lima/bin/qemu-img''
          [''convert'', ''-f'', ''qcow2'', ''-O'', ''raw'', sampleDisk @ ''.qcow2'', sampleDisk]
          (snd (fsRename (sampleEnv ''vz'') sampleDisk (sampleDisk @ ''.qcow2'') qcowHost))) = ([], None) \<and>
   EnsureUserDataDisk (sampleEnv ''vz'') qcowHost =
     (case orReturn (attachPersistentDiskToLimaDisk (sampleEnv ''vz''))
             (orReturn (linkVerification (sampleEnv ''vz'')) (lockClearance (sampleEnv ''vz'')))
             (snd (eccCombinedOutput (sampleEnv ''vz'') ''/lima/bin/qemu-img''
                [''convert'', ''-f'', ''qcow2'', ''-O'', ''raw'', sampleDisk @ ''.qcow2'', sampleDisk]
                (snd (fsRename (sampleEnv ''vz'') sampleDisk (sampleDisk @ ''.qcow2'') qcowHost)))) of
        (r, es, w') \<Rightarrow>
          (r, [EvLimaOutput lsArgs (jsonField ''name'' diskName, None),
               EvExecCombinedOutput ''/lima/bin/qemu-img'' (infoArgs sampleDisk)
                 (jsonField ''format'' ''qcow2'', None),
               EvRename sampleDisk (sampleDisk @ ''.qcow2'') None,
               EvExecCombinedOutput ''/lima/bin/qemu-img''
                 [''convert'', ''-f'', ''qcow2'', ''-O'', ''raw'', sampleDisk @ ''.qcow2'', sampleDisk]
                 ([], None)] @ es, w'))"
proof -
  let ?e = "sampleEnv ''vz''"
  let ?info = "\<lparr>VirtualSize = 0, Filename = [], Format = ''qcow2'', ActualSize = 0, DirtyFlag = False\<rparr>"
  have reg: "registered qcowHost" by (simp add: qcowHost_def)
  have f: "files qcowHost sampleDisk = Some (File ''qcow2'')"
    by (simp add: qcowHost_def sampleDisk_def sampleSlot_def sampleLock_def)
  have a: "limaDiskExists ?e qcowHost =
     (True, [EvLimaOutput lsArgs (jsonField ''name'' diskName, None)], qcowHost)"
    using host_lde[OF sample_is_host, of "''vz''" qcowHost] reg by simp
  have vz: "VMType ?e = ''vz''" by (simp add: sample_paths)
  have gi: "getDiskInfo ?e (UserDataDiskPath ?e) qcowHost =
     (Inr ?info,
      [EvExecCombinedOutput ''/lima/bin/qemu-img'' (infoArgs sampleDisk)
         (jsonField ''format'' ''qcow2'', None)], qcowHost)"
    using f host_gdi[OF sample_is_host, of "''vz''" sampleDisk qcowHost]
    by (simp add: sample_paths hostQemu_def)
  have fmt: "Format ?info \<noteq> ''raw''" by simp
  have rn: "fst (fsRename ?e sampleDisk (sampleDisk @ ''.qcow2'') qcowHost) = None"
    by code_simp
  have cv: "fst (eccCombinedOutput ?e ''/lima/bin/qemu-img''
          [''convert'', ''-f'', ''qcow2'', ''-O'', ''raw'', sampleDisk @ ''.qcow2'', sampleDisk]
          (snd (fsRename ?e sampleDisk (sampleDisk @ ''.qcow2'') qcowHost))) = ([], None)"
    by code_simp
  note rn' = pair_eq[OF rn, unfolded sample_paths(1)[of "''vz''", symmetric]]
  note cv' = pair_eq[OF cv, unfolded sample_paths(1)[of "''vz''", symmetric] sample_paths(6)[of "''vz''", symmetric]]
  from conversion_steps[OF a vz gi fmt rn' cv'] a gi rn cv
  show ?thesis by (simp add: sample_paths)
qed

text \<open>
  Claim C5 as stated does not hold. On \<open>staleHost\<close> under \<^verbatim>\<open>vz\<close> the persistent file is
  not raw, the run returns no error, and the conversion tool is not run at all.
\<close>

theorem conversion_count_counterexample:
  "VMType (sampleEnv ''vz'') = ''vz'' \<and>
   files staleHost (UserDataDiskPath (sampleEnv ''vz'')) = Some (File ''qcow2'') \<and>
   fst (EnsureUserDataDisk (sampleEnv ''vz'') staleHost) = None \<and>
   filter is_convert (fst (snd (EnsureUserDataDisk (sampleEnv ''vz'') staleHost))) = []"
  by code_simp

theorem conversion_exactly_when_due_witness:
  "conversionDue (sampleEnv ''vz'') qcowHost \<and>
   length (filter is_convert (fst (snd (EnsureUserDataDisk (sampleEnv ''vz'') qcowHost)))) = 1 \<and>
   \<not> conversionDue (sampleEnv ''vz'') staleHost \<and>
   length (filter is_convert (fst (snd (EnsureUserDataDisk (sampleEnv ''vz'') staleHost)))) = 0"
proof -
  have a: "conversionDue (sampleEnv ''vz'') qcowHost" by code_simp
  have b: "\<not> conversionDue (sampleEnv ''vz'') staleHost" by code_simp
  from conversion_exactly_when_due[of "sampleEnv ''vz''" qcowHost]
    conversion_exactly_when_due[of "sampleEnv ''vz''" staleHost] a b
  show ?thesis by simp
qed

theorem query_failure_means_create_witness:
  "lccOutput (sampleEnv ''vz'') lsArgs freshHost = (([], Some (ErrOther ''exit status 1'')), freshHost) \<and>
   EnsureUserDataDisk (sampleEnv ''vz'') freshHost =
     (case orReturn (createLimaDisk (sampleEnv ''vz''))
             (orReturn (attachPersistentDiskToLimaDisk (sampleEnv ''vz''))
                (lockClearance (sampleEnv ''vz''))) freshHost of
        (r, es, w') \<Rightarrow> (r, EvLimaOutput lsArgs ([], Some (ErrOther ''exit status 1'')) # es, w')) \<and>
   (\<exists>reply rest. fst (snd (EnsureUserDataDisk (sampleEnv ''vz'') freshHost)) =
      EvLimaOutput lsArgs ([], Some (ErrOther ''exit status 1'')) #
      EvLimaCombinedOutput createArgs reply # rest) \<and>
   unmarshalDisk garbledEnv (jsonField ''name'' diskName) = Inl (ErrOther ''invalid character'') \<and>
   (\<exists>reply rest. fst (snd (EnsureUserDataDisk garbledEnv linkedHost)) =
      EvLimaOutput lsArgs (jsonField ''name'' diskName, None) #
      EvLimaCombinedOutput createArgs reply # rest) \<and>
   unmarshalDisk renamedEnv (jsonField ''name'' diskName) = Inr \<lparr>Name = ''other''\<rparr> \<and>
   (\<exists>reply rest. fst (snd (EnsureUserDataDisk renamedEnv linkedHost)) =
      EvLimaOutput lsArgs (jsonField ''name'' diskName, None) #
      EvLimaCombinedOutput createArgs reply # rest)"
proof -
  have a: "lccOutput (sampleEnv ''vz'') lsArgs freshHost =
      (([], Some (ErrOther ''exit status 1'')), freshHost)"
    by (simp add: host_ops[OF sample_is_host] hostLima_ls freshHost_def)
  have b: "Some (ErrOther ''exit status 1'') \<noteq> None \<or>
      (\<exists>e. unmarshalDisk (sampleEnv ''vz'') [] = Inl e) \<or>
      (\<exists>d. unmarshalDisk (sampleEnv ''vz'') [] = Inr d \<and> Name d \<noteq> diskName)"
    by simp
  note t = query_failure_means_create[OF a b]
  have reg: "registered linkedHost" by (simp add: linkedHost_def)
  have ga: "lccOutput garbledEnv lsArgs linkedHost = ((jsonField ''name'' diskName, None), linkedHost)"
    using reg by (simp add: garbledEnv_def host_ops[OF sample_is_host] hostLima_ls)
  have gd: "unmarshalDisk garbledEnv (jsonField ''name'' diskName) = Inl (ErrOther ''invalid character'')"
    by (simp add: garbledEnv_def)
  have gb: "(None :: goerror option) \<noteq> None \<or>
      (\<exists>e. unmarshalDisk garbledEnv (jsonField ''name'' diskName) = Inl e) \<or>
      (\<exists>d. unmarshalDisk garbledEnv (jsonField ''name'' diskName) = Inr d \<and> Name d \<noteq> diskName)"
    using gd by simp
  have ra: "lccOutput renamedEnv lsArgs linkedHost = ((jsonField ''name'' diskName, None), linkedHost)"
    using reg by (simp add: renamedEnv_def host_ops[OF sample_is_host] hostLima_ls)
  have rd: "unmarshalDisk renamedEnv (jsonField ''name'' diskName) = Inr \<lparr>Name = ''other''\<rparr>"
    by (simp add: renamedEnv_def)
  have rb: "(None :: goerror option) \<noteq> None \<or>
      (\<exists>e. unmarshalDisk renamedEnv (jsonField ''name'' diskName) = Inl e) \<or>
      (\<exists>d. unmarshalDisk renamedEnv (jsonField ''name'' diskName) = Inr d \<and> Name d \<noteq> diskName)"
    using rd by (simp add: diskName_def)
  from conjunct1[OF t] conjunct2[OF t] a
    gd conjunct2[OF query_failure_means_create[OF ga gb]]
    rd conjunct2[OF query_failure_means_create[OF ra rb]]
  show ?thesis by (intro conjI)
qed

lemma quad_eq: "x = ((fst (fst x), snd (fst x)), snd x)"
  by simp

text \<open>
  Claim C7. The link repair is determined by the replies of the filesystem, call by call:
  \<open>st\<close> is the reply to the stat of the persistent path, \<open>sd\<close> to the stat of its directory,
  \<open>mk\<close> to \<^verbatim>\<open>MkdirAll\<close>, \<open>mv\<close> to the rename of the slot to the persistent path, \<open>sl\<close> to the
  stat of the slot, \<open>rm\<close> to its removal and \<open>ln\<close> to the creation of the link, each asked in
  the world the call before it left. The result, the trace and the final world of
  \<^verbatim>\<open>attachPersistentDiskToLimaDisk\<close> are \<open>linkRepairOutcome\<close> of these replies. The slot is
  renamed to the persistent path exactly when the stat of the persistent path fails and
  \<^verbatim>\<open>MkdirAll\<close> did not fail before it; the directory is made exactly when that stat fails
  and the directory is reported missing. A repair that returns no error has the trace
  \<open>linkRepairTrace\<close> (the stat of the persistent path; when it failed, the stat of the
  directory, \<^verbatim>\<open>MkdirAll\<close> if due and the rename; then the stat of the slot, its removal when
  that stat succeeded, and last the creation of the link) and ends in the world the
  creation of the link left; the slot was then either present and removed, or reported
  missing.
\<close>

theorem link_repair_moves_iff_absent:
  assumes "fsStat m (UserDataDiskPath m) w = (st, w1)"
    and "fsStat m (pathDir m (UserDataDiskPath m)) w1 = (sd, w2)"
    and "fsMkdirAll m (pathDir m (UserDataDiskPath m)) 493 w2 = (mk, w3)"
    and "fsRename m (limaPath m) (UserDataDiskPath m)
           (if sd = Some ErrNotExist then w3 else w2) = (mv, w4)"
    and "fsStat m (limaPath m) (if st = None then w1 else w4) = (sl, w5)"
    and "fsRemove m (limaPath m) w5 = (rm, w6)"
    and "fsSymlinkIfPossible m (UserDataDiskPath m) (limaPath m)
           (if sl = None then w6 else w5) = (ln, w7)"
  shows "attachPersistentDiskToLimaDisk m w =
           linkRepairOutcome m st sd mk w3 mv w4 sl w5 rm w6 ln w7 \<and>
         ((\<exists>r. EvRename (limaPath m) (UserDataDiskPath m) r \<in>
                 set (fst (snd (attachPersistentDiskToLimaDisk m w)))) \<longleftrightarrow>
            st \<noteq> None \<and> \<not> (sd = Some ErrNotExist \<and> mk \<noteq> None)) \<and>
         ((\<exists>r. EvMkdirAll (pathDir m (UserDataDiskPath m)) 493 r \<in>
                 set (fst (snd (attachPersistentDiskToLimaDisk m w)))) \<longleftrightarrow>
            st \<noteq> None \<and> sd = Some ErrNotExist) \<and>
         (fst (attachPersistentDiskToLimaDisk m w) = None \<longrightarrow>
            snd (attachPersistentDiskToLimaDisk m w) = (linkRepairTrace m st sd sl, w7) \<and>
            (sl = None \<or> sl = Some ErrNotExist))"
proof -
  have eq: "attachPersistentDiskToLimaDisk m w =
      linkRepairOutcome m st sd mk w3 mv w4 sl w5 rm w6 ln w7"
    using assms by (rule attach_outcome)
  have mv: "(\<exists>r. EvRename (limaPath m) (UserDataDiskPath m) r \<in>
                 set (fst (snd (linkRepairOutcome m st sd mk w3 mv w4 sl w5 rm w6 ln w7)))) \<longleftrightarrow>
            st \<noteq> None \<and> \<not> (sd = Some ErrNotExist \<and> mk \<noteq> None)"
    by (auto simp: linkRepairOutcome_def Let_def)
  have mk: "(\<exists>r. EvMkdirAll (pathDir m (UserDataDiskPath m)) 493 r \<in>
                 set (fst (snd (linkRepairOutcome m st sd mk w3 mv w4 sl w5 rm w6 ln w7)))) \<longleftrightarrow>
            st \<noteq> None \<and> sd = Some ErrNotExist"
    by (auto simp: linkRepairOutcome_def Let_def)
  have ok: "fst (linkRepairOutcome m st sd mk w3 mv w4 sl w5 rm w6 ln w7) = None \<longrightarrow>
            snd (linkRepairOutcome m st sd mk w3 mv w4 sl w5 rm w6 ln w7) =
              (linkRepairTrace m st sd sl, w7) \<and>
            (sl = None \<or> sl = Some ErrNotExist)"
    by (auto simp: linkRepairOutcome_def linkRepairTrace_def Let_def split: if_splits)
  show ?thesis
    unfolding eq using mv mk ok by (intro conjI refl)
qed

theorem link_repair_moves_iff_absent_witness:
  "fst (fsStat (sampleEnv ''vz'') sampleDisk createdHost) = Some ErrNotExist \<and>
   fst (attachPersistentDiskToLimaDisk (sampleEnv ''vz'') createdHost) = None \<and>
   fst (snd (attachPersistentDiskToLimaDisk (sampleEnv ''vz'') createdHost)) =
     [EvStat sampleDisk (Some ErrNotExist),
      EvStat ''/home/u/.finch/.disks'' (Some ErrNotExist),
      EvMkdirAll ''/home/u/.finch/.disks'' 493 None,
      EvRename sampleSlot sampleDisk None,
      EvStat sampleSlot (Some ErrNotExist),
      EvSymlink sampleDisk sampleSlot None] \<and>
   files (snd (snd (attachPersistentDiskToLimaDisk (sampleEnv ''vz'') createdHost))) sampleDisk =
     Some (File ''raw'') \<and>
   files (snd (snd (attachPersistentDiskToLimaDisk (sampleEnv ''vz'') createdHost))) sampleSlot =
     Some (Link sampleDisk)"
proof -
  let ?e = "sampleEnv ''vz''"
  let ?D = "UserDataDiskPath ?e"
  let ?L = "limaPath ?e"
  let ?s1 = "fsStat ?e ?D createdHost"
  let ?s2 = "fsStat ?e (pathDir ?e ?D) (snd ?s1)"
  let ?s3 = "fsMkdirAll ?e (pathDir ?e ?D) 493 (snd ?s2)"
  let ?s4 = "fsRename ?e ?L ?D (if fst ?s2 = Some ErrNotExist then snd ?s3 else snd ?s2)"
  let ?s5 = "fsStat ?e ?L (if fst ?s1 = None then snd ?s1 else snd ?s4)"
  let ?s6 = "fsRemove ?e ?L (snd ?s5)"
  let ?s7 = "fsSymlinkIfPossible ?e ?D ?L (if fst ?s5 = None then snd ?s6 else snd ?s5)"
  let ?o = "linkRepairOutcome ?e (fst ?s1) (fst ?s2) (fst ?s3) (snd ?s3) (fst ?s4) (snd ?s4)
      (fst ?s5) (snd ?s5) (fst ?s6) (snd ?s6) (fst ?s7) (snd ?s7)"
  have eq: "attachPersistentDiskToLimaDisk ?e createdHost = ?o"
    using link_repair_moves_iff_absent[of ?e createdHost "fst ?s1" "snd ?s1" "fst ?s2" "snd ?s2"
        "fst ?s3" "snd ?s3" "fst ?s4" "snd ?s4" "fst ?s5" "snd ?s5" "fst ?s6" "snd ?s6"
        "fst ?s7" "snd ?s7"]
    by simp
  have st: "fst (fsStat ?e sampleDisk createdHost) = Some ErrNotExist"
    by code_simp
  have r: "fst ?o = None"
    by code_simp
  have t: "fst (snd ?o) =
     [EvStat sampleDisk (Some ErrNotExist),
      EvStat ''/home/u/.finch/.disks'' (Some ErrNotExist),
      EvMkdirAll ''/home/u/.finch/.disks'' 493 None,
      EvRename sampleSlot sampleDisk None,
      EvStat sampleSlot (Some ErrNotExist),
      EvSymlink sampleDisk sampleSlot None]"
    by code_simp
  have d: "files (snd (snd ?o)) sampleDisk = Some (File ''raw'')"
    by code_simp
  have l: "files (snd (snd ?o)) sampleSlot = Some (Link sampleDisk)"
    by code_simp
  show ?thesis
    unfolding eq using st r t d l by (intro conjI)
qed

text \<open>
  Claim C8. Let the registry query reply \<open>listed\<close>, let the branch it selects (format
  check and link check when listed, create and link repair otherwise) return \<open>rb\<close> with
  trace \<open>es1\<close> in world \<open>w1\<close>, let \<open>st\<close> be the reply to the stat of the lock marker in
  \<open>w1\<close> and \<open>(logs, err)\<close> the reply to the unlock command in the world that stat left. When
  the branch failed, its error is returned, in the world it left, and nothing follows.
  Otherwise the stat of the marker is the next event; when it succeeds the unlock command
  is the event after it and the last one, and its failure is returned as
  \<^verbatim>\<open>ErrUnlockDisk\<close> with its logs; when the stat fails the run ends there without error and
  without an unlock. In either branch no event before the stat is an unlock.
\<close>

theorem unlock_iff_lock_marker:
  assumes "limaDiskExists m w = (listed, es0, w0)"
    and "(if listed then orReturn (formatNormalization m) (linkVerification m)
          else orReturn (createLimaDisk m) (attachPersistentDiskToLimaDisk m)) w0 = (rb, es1, w1)"
    and "fsStat m (lockPath m) w1 = (st, w2)"
    and "lccCombinedOutput m unlockArgs w2 = ((logs, err), w3)"
  shows "EnsureUserDataDisk m w =
     (case rb of
        Some e \<Rightarrow> (Some e, es0 @ es1, w1)
      | None \<Rightarrow>
          if st = None then
            (if err = None then None else Some (ErrUnlockDisk logs),
             es0 @ es1 @ [EvStat (lockPath m) None, EvLimaCombinedOutput unlockArgs (logs, err)], w3)
          else (None, es0 @ es1 @ [EvStat (lockPath m) st], w2)) \<and>
     noUnlock (es0 @ es1)"
  using assms by (rule unlock_run)

theorem unlock_iff_lock_marker_witness:
  "fst (EnsureUserDataDisk (sampleEnv ''vz'') lockedHost) = None \<and>
   fst (snd (EnsureUserDataDisk (sampleEnv ''vz'') lockedHost)) =
     [EvLimaOutput lsArgs (jsonField ''name'' diskName, None),
      EvExecCombinedOutput ''/lima/bin/qemu-img'' (infoArgs sampleDisk) (jsonField ''format'' ''raw'', None),
      EvReadlink sampleSlot (sampleDisk, None),
      EvStat sampleLock None,
      EvLimaCombinedOutput unlockArgs ([], None)] \<and>
   files (snd (snd (EnsureUserDataDisk (sampleEnv ''vz'') lockedHost))) sampleLock = None \<and>
   fst (EnsureUserDataDisk (sampleEnv ''vz'') linkedHost) = None \<and>
   fst (snd (EnsureUserDataDisk (sampleEnv ''vz'') linkedHost)) =
     [EvLimaOutput lsArgs (jsonField ''name'' diskName, None),
      EvExecCombinedOutput ''/lima/bin/qemu-img'' (infoArgs sampleDisk) (jsonField ''format'' ''raw'', None),
      EvReadlink sampleSlot (sampleDisk, None),
      EvStat sampleLock (Some ErrNotExist)] \<and>
   fst (EnsureUserDataDisk failingEnv lockedHost) = Some (ErrUnlockDisk ''permission denied'') \<and>
   fst (snd (EnsureUserDataDisk failingEnv lockedHost)) =
     [EvLimaOutput lsArgs (jsonField ''name'' diskName, None),
      EvExecCombinedOutput ''/lima/bin/qemu-img'' (infoArgs sampleDisk) (jsonField ''format'' ''raw'', None),
      EvReadlink sampleSlot (sampleDisk, None),
      EvStat sampleLock None,
      EvLimaCombinedOutput unlockArgs (''permission denied'', Some (ErrOther ''exit status 1''))]"
proof -
  have a: "fst (EnsureUserDataDisk (sampleEnv ''vz'') lockedHost) = None \<and>
   fst (snd (EnsureUserDataDisk (sampleEnv ''vz'') lockedHost)) =
     [EvLimaOutput lsArgs (jsonField ''name'' diskName, None),
      EvExecCombinedOutput ''/lima/bin/qemu-img'' (infoArgs sampleDisk) (jsonField ''format'' ''raw'', None),
      EvReadlink sampleSlot (sampleDisk, None),
      EvStat sampleLock None,
      EvLimaCombinedOutput unlockArgs ([], None)] \<and>
   files (snd (snd (EnsureUserDataDisk (sampleEnv ''vz'') lockedHost))) sampleLock = None"
  proof -
    define l where "l = limaDiskExists (sampleEnv ''vz'') lockedHost"
    define b where "b = (if fst l then orReturn (formatNormalization (sampleEnv ''vz'')) (linkVerification (sampleEnv ''vz''))
               else orReturn (createLimaDisk (sampleEnv ''vz'')) (attachPersistentDiskToLimaDisk (sampleEnv ''vz''))) (snd (snd l))"
    define s where "s = fsStat (sampleEnv ''vz'') (lockPath (sampleEnv ''vz'')) (snd (snd b))"
    define u where "u = lccCombinedOutput (sampleEnv ''vz'') unlockArgs (snd s)"
    have h1: "limaDiskExists (sampleEnv ''vz'') lockedHost = (fst l, fst (snd l), snd (snd l))"
      unfolding l_def by (rule triple_eq)
    have h2: "(if fst l then orReturn (formatNormalization (sampleEnv ''vz'')) (linkVerification (sampleEnv ''vz''))
               else orReturn (createLimaDisk (sampleEnv ''vz'')) (attachPersistentDiskToLimaDisk (sampleEnv ''vz''))) (snd (snd l)) =
        (fst b, fst (snd b), snd (snd b))"
      unfolding b_def by (rule triple_eq)
    have h3: "fsStat (sampleEnv ''vz'') (lockPath (sampleEnv ''vz'')) (snd (snd b)) = (fst s, snd s)"
      unfolding s_def by (rule prod.collapse[symmetric])
    have h4: "lccCombinedOutput (sampleEnv ''vz'') unlockArgs (snd s) = ((fst (fst u), snd (fst u)), snd u)"
      unfolding u_def by (rule quad_eq)
    have k: "lockPath (sampleEnv ''vz'') = sampleLock" by code_simp
    have t: "fst (snd l) @ fst (snd b) =
     [EvLimaOutput lsArgs (jsonField ''name'' diskName, None),
      EvExecCombinedOutput ''/lima/bin/qemu-img'' (infoArgs sampleDisk) (jsonField ''format'' ''raw'', None),
      EvReadlink sampleSlot (sampleDisk, None)]"
      unfolding l_def b_def by code_simp
    have rb: "fst b = None"
      unfolding l_def b_def by code_simp
    have st: "fst s = None"
      unfolding l_def b_def s_def by code_simp
    have ur: "fst u = ([], None)"
      unfolding l_def b_def s_def u_def by code_simp
    have f: "files (snd u) sampleLock = None"
      unfolding l_def b_def s_def u_def by code_simp
    from unlock_iff_lock_marker[OF h1 h2 h3 h4] k t rb st ur f
    show ?thesis by simp
  qed
  have b: "fst (EnsureUserDataDisk (sampleEnv ''vz'') linkedHost) = None \<and>
   fst (snd (EnsureUserDataDisk (sampleEnv ''vz'') linkedHost)) =
     [EvLimaOutput lsArgs (jsonField ''name'' diskName, None),
      EvExecCombinedOutput ''/lima/bin/qemu-img'' (infoArgs sampleDisk) (jsonField ''format'' ''raw'', None),
      EvReadlink sampleSlot (sampleDisk, None),
      EvStat sampleLock (Some ErrNotExist)]"
  proof -
    define l where "l = limaDiskExists (sampleEnv ''vz'') linkedHost"
    define b where "b = (if fst l then orReturn (formatNormalization (sampleEnv ''vz'')) (linkVerification (sampleEnv ''vz''))
               else orReturn (createLimaDisk (sampleEnv ''vz'')) (attachPersistentDiskToLimaDisk (sampleEnv ''vz''))) (snd (snd l))"
    define s where "s = fsStat (sampleEnv ''vz'') (lockPath (sampleEnv ''vz'')) (snd (snd b))"
    define u where "u = lccCombinedOutput (sampleEnv ''vz'') unlockArgs (snd s)"
    have h1: "limaDiskExists (sampleEnv ''vz'') linkedHost = (fst l, fst (snd l), snd (snd l))"
      unfolding l_def by (rule triple_eq)
    have h2: "(if fst l then orReturn (formatNormalization (sampleEnv ''vz'')) (linkVerification (sampleEnv ''vz''))
               else orReturn (createLimaDisk (sampleEnv ''vz'')) (attachPersistentDiskToLimaDisk (sampleEnv ''vz''))) (snd (snd l)) =
        (fst b, fst (snd b), snd (snd b))"
      unfolding b_def by (rule triple_eq)
    have h3: "fsStat (sampleEnv ''vz'') (lockPath (sampleEnv ''vz'')) (snd (snd b)) = (fst s, snd s)"
      unfolding s_def by (rule prod.collapse[symmetric])
    have h4: "lccCombinedOutput (sampleEnv ''vz'') unlockArgs (snd s) = ((fst (fst u), snd (fst u)), snd u)"
      unfolding u_def by (rule quad_eq)
    have k: "lockPath (sampleEnv ''vz'') = sampleLock" by code_simp
    have t: "fst (snd l) @ fst (snd b) =
     [EvLimaOutput lsArgs (jsonField ''name'' diskName, None),
      EvExecCombinedOutput ''/lima/bin/qemu-img'' (infoArgs sampleDisk) (jsonField ''format'' ''raw'', None),
      EvReadlink sampleSlot (sampleDisk, None)]"
      unfolding l_def b_def by code_simp
    have rb: "fst b = None"
      unfolding l_def b_def by code_simp
    have st: "fst s = Some ErrNotExist"
      unfolding l_def b_def s_def by code_simp
    from unlock_iff_lock_marker[OF h1 h2 h3 h4] k t rb st
    show ?thesis by simp
  qed
  have c: "fst (EnsureUserDataDisk failingEnv lockedHost) = Some (ErrUnlockDisk ''permission denied'') \<and>
   fst (snd (EnsureUserDataDisk failingEnv lockedHost)) =
     [EvLimaOutput lsArgs (jsonField ''name'' diskName, None),
      EvExecCombinedOutput ''/lima/bin/qemu-img'' (infoArgs sampleDisk) (jsonField ''format'' ''raw'', None),
      EvReadlink sampleSlot (sampleDisk, None),
      EvStat sampleLock None,
      EvLimaCombinedOutput unlockArgs (''permission denied'', Some (ErrOther ''exit status 1''))]"
  proof -
    define l where "l = limaDiskExists failingEnv lockedHost"
    define b where "b = (if fst l then orReturn (formatNormalization failingEnv) (linkVerification failingEnv)
               else orReturn (createLimaDisk failingEnv) (attachPersistentDiskToLimaDisk failingEnv)) (snd (snd l))"
    define s where "s = fsStat failingEnv (lockPath failingEnv) (snd (snd b))"
    define u where "u = lccCombinedOutput failingEnv unlockArgs (snd s)"
    have h1: "limaDiskExists failingEnv lockedHost = (fst l, fst (snd l), snd (snd l))"
      unfolding l_def by (rule triple_eq)
    have h2: "(if fst l then orReturn (formatNormalization failingEnv) (linkVerification failingEnv)
               else orReturn (createLimaDisk failingEnv) (attachPersistentDiskToLimaDisk failingEnv)) (snd (snd l)) =
        (fst b, fst (snd b), snd (snd b))"
      unfolding b_def by (rule triple_eq)
    have h3: "fsStat failingEnv (lockPath failingEnv) (snd (snd b)) = (fst s, snd s)"
      unfolding s_def by (rule prod.collapse[symmetric])
    have h4: "lccCombinedOutput failingEnv unlockArgs (snd s) = ((fst (fst u), snd (fst u)), snd u)"
      unfolding u_def by (rule quad_eq)
    have k: "lockPath failingEnv = sampleLock" by code_simp
    have t: "fst (snd l) @ fst (snd b) =
     [EvLimaOutput lsArgs (jsonField ''name'' diskName, None),
      EvExecCombinedOutput ''/lima/bin/qemu-img'' (infoArgs sampleDisk) (jsonField ''format'' ''raw'', None),
      EvReadlink sampleSlot (sampleDisk, None)]"
      unfolding l_def b_def by code_simp
    have rb: "fst b = None"
      unfolding l_def b_def by code_simp
    have st: "fst s = None"
      unfolding l_def b_def s_def by code_simp
    have ur: "fst u = (''permission denied'', Some (ErrOther ''exit status 1''))"
      unfolding l_def b_def s_def u_def by code_simp
    from unlock_iff_lock_marker[OF h1 h2 h3 h4] k t rb st ur
    show ?thesis by simp
  qed
  from a b c show ?thesis by (intro conjI) simp_all
qed

text \<open>
  Claim C3 as stated does not hold: the slot is not read in every state in which the
  registry lists the disk. On \<open>lostHost\<close> (a registered disk, no persistent file, nothing
  in the slot) under \<^verbatim>\<open>vz\<close> the inspection of the persistent file fails first; the run
  returns that error after two events, and neither reads the slot nor repairs the link.
\<close>

theorem link_verification_counterexample:
  "fst (limaDiskExists (sampleEnv ''vz'') lostHost) = True \<and>
   files lostHost sampleSlot = None \<and>
   fst (EnsureUserDataDisk (sampleEnv ''vz'') lostHost) =
     Some (ErrGetDiskInfo sampleDisk (ErrOther ''exit status 1'')) \<and>
   fst (snd (EnsureUserDataDisk (sampleEnv ''vz'') lostHost)) =
     [EvLimaOutput lsArgs (jsonField ''name'' diskName, None),
      EvExecCombinedOutput ''/lima/bin/qemu-img'' (infoArgs sampleDisk)
        (''Could not open'', Some (ErrOther ''exit status 1''))]"
  by code_simp

text \<open>
  Claim C3, as amended: when the registry lists the disk and the format check (lines
  81-100) returns no error. The next call is \<^verbatim>\<open>ReadlinkIfPossible\<close> on the slot, in the world
  the format check left. From its reply \<open>(t, e)\<close> and the replies of the seven calls a
  link repair can make after it, the whole run is determined: a read error is returned as
  it is; a target equal to the persistent path leads straight to the lock check; any
  other target leads to the link repair, whose outcome is \<open>linkRepairOutcome\<close> of those
  replies, and a repair without error is followed by the lock check. The persistent path
  is never the empty string, so an empty reply always leads to the repair. On the
  simulated host a slot that is not a symlink (a regular file, a directory or nothing) is
  read as the empty string without error, and the run is then the link repair from the
  world the format check left, followed by the lock check.
\<close>

theorem link_verification_repairs:
  assumes "limaDiskExists m w = (True, es0, w0)"
    and "formatNormalization m w0 = (None, es1, w1)"
    and "fsReadlinkIfPossible m (limaPath m) w1 = ((t, e), w2)"
    and "fsStat m (UserDataDiskPath m) w2 = (st, a1)"
    and "fsStat m (pathDir m (UserDataDiskPath m)) a1 = (sd, a2)"
    and "fsMkdirAll m (pathDir m (UserDataDiskPath m)) 493 a2 = (mk, a3)"
    and "fsRename m (limaPath m) (UserDataDiskPath m)
           (if sd = Some ErrNotExist then a3 else a2) = (mv, a4)"
    and "fsStat m (limaPath m) (if st = None then a1 else a4) = (sl, a5)"
    and "fsRemove m (limaPath m) a5 = (rm, a6)"
    and "fsSymlinkIfPossible m (UserDataDiskPath m) (limaPath m)
           (if sl = None then a6 else a5) = (ln, a7)"
  shows "EnsureUserDataDisk m w =
     (case e of
        Some x \<Rightarrow> (Some (ErrFs x), es0 @ es1 @ [EvReadlink (limaPath m) (t, e)], w2)
      | None \<Rightarrow>
          if t = UserDataDiskPath m then
            (case lockClearance m w2 of
               (r, es, w') \<Rightarrow> (r, es0 @ es1 @ [EvReadlink (limaPath m) (t, e)] @ es, w'))
          else
            (case linkRepairOutcome m st sd mk a3 mv a4 sl a5 rm a6 ln a7 of
               (Some x, esa, wa) \<Rightarrow> (Some x, es0 @ es1 @ [EvReadlink (limaPath m) (t, e)] @ esa, wa)
             | (None, esa, wa) \<Rightarrow>
                 (case lockClearance m wa of
                    (r, es, w') \<Rightarrow>
                      (r, es0 @ es1 @ [EvReadlink (limaPath m) (t, e)] @ esa @ es, w')))) \<and>
     UserDataDiskPath m \<noteq> [] \<and>
     (hm = hostEnv vm home layout lima bin \<longrightarrow>
      limaDiskExists hm hw = (True, hls, hwl) \<longrightarrow>
      formatNormalization hm hwl = (None, hfs, hwf) \<longrightarrow>
      (\<forall>x. files hwf (limaPath hm) \<noteq> Some (Link x)) \<longrightarrow>
      EnsureUserDataDisk hm hw =
        (case attachPersistentDiskToLimaDisk hm hwf of
           (Some x, esa, wa) \<Rightarrow>
             (Some x, hls @ hfs @ [EvReadlink (limaPath hm) ([], None)] @ esa, wa)
         | (None, esa, wa) \<Rightarrow>
             (case lockClearance hm wa of
                (r, es, w') \<Rightarrow>
                  (r, hls @ hfs @ [EvReadlink (limaPath hm) ([], None)] @ esa @ es, w'))))"
proof (intro conjI impI)
  have at: "attachPersistentDiskToLimaDisk m w2 = linkRepairOutcome m st sd mk a3 mv a4 sl a5 rm a6 ln a7"
    using assms(4-10) by (rule attach_outcome)
  show "EnsureUserDataDisk m w =
     (case e of
        Some x \<Rightarrow> (Some (ErrFs x), es0 @ es1 @ [EvReadlink (limaPath m) (t, e)], w2)
      | None \<Rightarrow>
          if t = UserDataDiskPath m then
            (case lockClearance m w2 of
               (r, es, w') \<Rightarrow> (r, es0 @ es1 @ [EvReadlink (limaPath m) (t, e)] @ es, w'))
          else
            (case linkRepairOutcome m st sd mk a3 mv a4 sl a5 rm a6 ln a7 of
               (Some x, esa, wa) \<Rightarrow> (Some x, es0 @ es1 @ [EvReadlink (limaPath m) (t, e)] @ esa, wa)
             | (None, esa, wa) \<Rightarrow>
                 (case lockClearance m wa of
                    (r, es, w') \<Rightarrow>
                      (r, es0 @ es1 @ [EvReadlink (limaPath m) (t, e)] @ esa @ es, w'))))"
    unfolding at[symmetric] by (rule link_check_run[OF assms(1-3)])
  show "UserDataDiskPath m \<noteq> []" by (rule UserDataDiskPath_nonempty)
next
  assume hm: "hm = hostEnv vm home layout lima bin"
    and lde: "limaDiskExists hm hw = (True, hls, hwl)"
    and fmt: "formatNormalization hm hwl = (None, hfs, hwf)"
    and nl: "\<forall>x. files hwf (limaPath hm) \<noteq> Some (Link x)"
  have rl: "fsReadlinkIfPossible hm (limaPath hm) hwf = (([], None), hwf)"
    using nl unfolding host_ops(5)[OF hm] hostReadlink_def
    by (auto split: option.splits node.splits)
  from link_check_run[OF lde fmt rl] UserDataDiskPath_nonempty[of hm]
  show "EnsureUserDataDisk hm hw =
        (case attachPersistentDiskToLimaDisk hm hwf of
           (Some x, esa, wa) \<Rightarrow>
             (Some x, hls @ hfs @ [EvReadlink (limaPath hm) ([], None)] @ esa, wa)
         | (None, esa, wa) \<Rightarrow>
             (case lockClearance hm wa of
                (r, es, w') \<Rightarrow>
                  (r, hls @ hfs @ [EvReadlink (limaPath hm) ([], None)] @ esa @ es, w')))"
    by (simp split: prod.splits option.splits)
qed

theorem link_verification_repairs_witness:
  "fst (limaDiskExists (sampleEnv ''qemu'') unlinkedHost) = True \<and>
   files unlinkedHost sampleSlot = Some (File ''raw'') \<and>
   fst (EnsureUserDataDisk (sampleEnv ''qemu'') unlinkedHost) = None \<and>
   fst (snd (EnsureUserDataDisk (sampleEnv ''qemu'') unlinkedHost)) =
     [EvLimaOutput lsArgs (jsonField ''name'' diskName, None),
      EvReadlink sampleSlot ([], None),
      EvStat sampleDisk None,
      EvStat sampleSlot None,
      EvRemove sampleSlot None,
      EvSymlink sampleDisk sampleSlot None,
      EvStat sampleLock (Some ErrNotExist)] \<and>
   files (snd (snd (EnsureUserDataDisk (sampleEnv ''qemu'') unlinkedHost))) sampleSlot =
     Some (Link sampleDisk) \<and>
   sampleDisk \<noteq> [] \<and>
   EnsureUserDataDisk (sampleEnv ''qemu'') unlinkedHost =
     (case attachPersistentDiskToLimaDisk (sampleEnv ''qemu'') unlinkedHost of
        (Some x, esa, wa) \<Rightarrow>
          (Some x, [EvLimaOutput lsArgs (jsonField ''name'' diskName, None)] @ [] @
                   [EvReadlink sampleSlot ([], None)] @ esa, wa)
      | (None, esa, wa) \<Rightarrow>
          (case lockClearance (sampleEnv ''qemu'') wa of
             (r, es, w') \<Rightarrow>
               (r, [EvLimaOutput lsArgs (jsonField ''name'' diskName, None)] @ [] @
                   [EvReadlink sampleSlot ([], None)] @ esa @ es, w')))"
proof -
  let ?e = "sampleEnv ''qemu''"
  let ?D = "UserDataDiskPath ?e"
  let ?L = "limaPath ?e"
  have reg: "registered unlinkedHost" by (simp add: unlinkedHost_def)
  have h1: "limaDiskExists ?e unlinkedHost =
     (True, [EvLimaOutput lsArgs (jsonField ''name'' diskName, None)], unlinkedHost)"
    using host_lde[OF sample_is_host, of "''qemu''" unlinkedHost] reg by simp
  have h2: "formatNormalization ?e unlinkedHost = (None, [], unlinkedHost)"
    by (simp add: formatNormalization_run sample_paths)
  have sl: "files unlinkedHost sampleSlot = Some (File ''raw'')"
    by (simp add: unlinkedHost_def)
  have h3: "fsReadlinkIfPossible ?e ?L unlinkedHost = (([], None), unlinkedHost)"
    using sl by (simp add: host_ops[OF sample_is_host] sample_paths hostReadlink_def)
  have nl: "\<forall>x. files unlinkedHost ?L \<noteq> Some (Link x)"
    using sl by (simp add: sample_paths)
  define s1 where "s1 = fsStat ?e ?D unlinkedHost"
  define s2 where "s2 = fsStat ?e (pathDir ?e ?D) (snd s1)"
  define s3 where "s3 = fsMkdirAll ?e (pathDir ?e ?D) 493 (snd s2)"
  define s4 where "s4 = fsRename ?e ?L ?D (if fst s2 = Some ErrNotExist then snd s3 else snd s2)"
  define s5 where "s5 = fsStat ?e ?L (if fst s1 = None then snd s1 else snd s4)"
  define s6 where "s6 = fsRemove ?e ?L (snd s5)"
  define s7 where "s7 = fsSymlinkIfPossible ?e ?D ?L (if fst s5 = None then snd s6 else snd s5)"
  define out where "out = linkRepairOutcome ?e (fst s1) (fst s2) (fst s3) (snd s3) (fst s4) (snd s4)
      (fst s5) (snd s5) (fst s6) (snd s6) (fst s7) (snd s7)"
  define k where "k = lockClearance ?e (snd (snd out))"
  note defs = s1_def s2_def s3_def s4_def s5_def s6_def s7_def out_def k_def
  have h4: "fsStat ?e ?D unlinkedHost = (fst s1, snd s1)"
    unfolding s1_def by (rule prod.collapse[symmetric])
  have h5: "fsStat ?e (pathDir ?e ?D) (snd s1) = (fst s2, snd s2)"
    unfolding s2_def by (rule prod.collapse[symmetric])
  have h6: "fsMkdirAll ?e (pathDir ?e ?D) 493 (snd s2) = (fst s3, snd s3)"
    unfolding s3_def by (rule prod.collapse[symmetric])
  have h7: "fsRename ?e ?L ?D (if fst s2 = Some ErrNotExist then snd s3 else snd s2) = (fst s4, snd s4)"
    unfolding s4_def by (rule prod.collapse[symmetric])
  have h8: "fsStat ?e ?L (if fst s1 = None then snd s1 else snd s4) = (fst s5, snd s5)"
    unfolding s5_def by (rule prod.collapse[symmetric])
  have h9: "fsRemove ?e ?L (snd s5) = (fst s6, snd s6)"
    unfolding s6_def by (rule prod.collapse[symmetric])
  have h10: "fsSymlinkIfPossible ?e ?D ?L (if fst s5 = None then snd s6 else snd s5) = (fst s7, snd s7)"
    unfolding s7_def by (rule prod.collapse[symmetric])
  note i = link_verification_repairs[where hm = "sampleEnv ''qemu''" and hw = unlinkedHost
      and hls = "[EvLimaOutput lsArgs (jsonField ''name'' diskName, None)]" and hwl = unlinkedHost
      and hfs = "[]" and hwf = unlinkedHost and vm = "''qemu''" and home = "''/home/u''"
      and layout = "''.finch/.disks''" and lima = "''/lima/data''" and bin = "''/lima/bin''",
      OF h1 h2 h3 h4 h5 h6 h7 h8 h9 h10, folded out_def]
  note c1 = i[THEN conjunct1]
  note c2 = i[THEN conjunct2, THEN conjunct1]
  note c3 = i[THEN conjunct2, THEN conjunct2, rule_format, OF sample_is_host h1 h2 nl[rule_format]]
  have fo: "fst out = None" unfolding defs by code_simp
  have tout: "fst (snd out) =
      [EvStat sampleDisk None, EvStat sampleSlot None, EvRemove sampleSlot None,
       EvSymlink sampleDisk sampleSlot None]"
    unfolding defs by code_simp
  have fk: "fst k = None" unfolding defs by code_simp
  have tk: "fst (snd k) = [EvStat sampleLock (Some ErrNotExist)]" unfolding defs by code_simp
  have wk: "files (snd (snd k)) sampleSlot = Some (Link sampleDisk)" unfolding defs by code_simp
  have run: "EnsureUserDataDisk ?e unlinkedHost =
      (fst k, [EvLimaOutput lsArgs (jsonField ''name'' diskName, None)] @
              [EvReadlink sampleSlot ([], None)] @ fst (snd out) @ fst (snd k), snd (snd k))"
    using c1 c2 fo by (simp add: case_prod_beta k_def sample_paths)
  have a: "fst (EnsureUserDataDisk ?e unlinkedHost) = None"
    unfolding run using fk by simp
  have b: "fst (snd (EnsureUserDataDisk ?e unlinkedHost)) =
     [EvLimaOutput lsArgs (jsonField ''name'' diskName, None),
      EvReadlink sampleSlot ([], None),
      EvStat sampleDisk None,
      EvStat sampleSlot None,
      EvRemove sampleSlot None,
      EvSymlink sampleDisk sampleSlot None,
      EvStat sampleLock (Some ErrNotExist)]"
    unfolding run using tout tk by simp
  have c: "files (snd (snd (EnsureUserDataDisk ?e unlinkedHost))) sampleSlot = Some (Link sampleDisk)"
    unfolding run using wk by simp
  have d: "sampleDisk \<noteq> []" using c2 by (simp add: sample_paths)
  have l: "fst (limaDiskExists ?e unlinkedHost) = True" using h1 by simp
  note e = c3[unfolded sample_paths(2)]
  from l sl a b c d e show ?thesis by (intro conjI)
qed

text \<open>
  Claim C9. Each step before the lock check, when it fails, ends the run: the error
  returned is the one of that step, the trace ends with the failed call, and the final
  world is the one that call left. In turn, from the replies of the collaborators: the
  inspection command fails; its report does not decode; the rename of the persistent
  file fails; the conversion fails; the link repair after the conversion fails; reading
  the slot fails; the link repair of the link check fails; the registry create fails; the
  link repair after the create fails. The link repair itself returns the error of the
  first of its calls that fails (\<open>linkRepairOutcome\<close>). Conversely a returned error is
  always the one of the last event of the trace, and unless it is the unlock command's
  own, no unlock is in the trace. On the simulated host a run that returns an error
  leaves the lock marker as it found it.
\<close>

theorem first_error_returned:
  "(limaDiskExists m w = (True, es0, w0) \<longrightarrow>
     VMType m = ''vz'' \<longrightarrow>
     eccCombinedOutput m (qemuImg m) (infoArgs (UserDataDiskPath m)) w0 = ((out, Some e), w1) \<longrightarrow>
     EnsureUserDataDisk m w =
       (Some (ErrGetDiskInfo (UserDataDiskPath m) e),
        es0 @ [EvExecCombinedOutput (qemuImg m) (infoArgs (UserDataDiskPath m)) (out, Some e)], w1)) \<and>
    (limaDiskExists m w = (True, es0, w0) \<longrightarrow>
     VMType m = ''vz'' \<longrightarrow>
     eccCombinedOutput m (qemuImg m) (infoArgs (UserDataDiskPath m)) w0 = ((out, None), w1) \<longrightarrow>
     unmarshalQemuDiskInfo m out = Inl e \<longrightarrow>
     EnsureUserDataDisk m w =
       (Some (ErrUnmarshalDiskInfo (UserDataDiskPath m) e),
        es0 @ [EvExecCombinedOutput (qemuImg m) (infoArgs (UserDataDiskPath m)) (out, None)], w1)) \<and>
    (limaDiskExists m w = (True, es0, w0) \<longrightarrow>
     VMType m = ''vz'' \<longrightarrow>
     eccCombinedOutput m (qemuImg m) (infoArgs (UserDataDiskPath m)) w0 = ((out, None), w1) \<longrightarrow>
     unmarshalQemuDiskInfo m out = Inr i \<longrightarrow>
     Format i \<noteq> ''raw'' \<longrightarrow>
     fsRename m (UserDataDiskPath m) (UserDataDiskPath m @ ''.qcow2'') w1 = (Some e, w2) \<longrightarrow>
     EnsureUserDataDisk m w =
       (Some (ErrRenameDisk e),
        es0 @ [EvExecCombinedOutput (qemuImg m) (infoArgs (UserDataDiskPath m)) (out, None),
               EvRename (UserDataDiskPath m) (UserDataDiskPath m @ ''.qcow2'') (Some e)], w2)) \<and>
    (limaDiskExists m w = (True, es0, w0) \<longrightarrow>
     VMType m = ''vz'' \<longrightarrow>
     eccCombinedOutput m (qemuImg m) (infoArgs (UserDataDiskPath m)) w0 = ((out, None), w1) \<longrightarrow>
     unmarshalQemuDiskInfo m out = Inr i \<longrightarrow>
     Format i \<noteq> ''raw'' \<longrightarrow>
     fsRename m (UserDataDiskPath m) (UserDataDiskPath m @ ''.qcow2'') w1 = (None, w2) \<longrightarrow>
     eccCombinedOutput m (qemuImg m) (convertArgs (UserDataDiskPath m)) w2 = ((log, Some e), w3) \<longrightarrow>
     EnsureUserDataDisk m w =
       (Some (ErrConvertDisk (UserDataDiskPath m) e),
        es0 @ [EvExecCombinedOutput (qemuImg m) (infoArgs (UserDataDiskPath m)) (out, None),
               EvRename (UserDataDiskPath m) (UserDataDiskPath m @ ''.qcow2'') None,
               EvExecCombinedOutput (qemuImg m) (convertArgs (UserDataDiskPath m)) (log, Some e)], w3)) \<and>
    (limaDiskExists m w = (True, es0, w0) \<longrightarrow>
     VMType m = ''vz'' \<longrightarrow>
     eccCombinedOutput m (qemuImg m) (infoArgs (UserDataDiskPath m)) w0 = ((out, None), w1) \<longrightarrow>
     unmarshalQemuDiskInfo m out = Inr i \<longrightarrow>
     Format i \<noteq> ''raw'' \<longrightarrow>
     fsRename m (UserDataDiskPath m) (UserDataDiskPath m @ ''.qcow2'') w1 = (None, w2) \<longrightarrow>
     eccCombinedOutput m (qemuImg m) (convertArgs (UserDataDiskPath m)) w2 = ((log, None), w3) \<longrightarrow>
     attachPersistentDiskToLimaDisk m w3 = (Some x, esa, wa) \<longrightarrow>
     EnsureUserDataDisk m w =
       (Some x,
        es0 @ [EvExecCombinedOutput (qemuImg m) (infoArgs (UserDataDiskPath m)) (out, None),
               EvRename (UserDataDiskPath m) (UserDataDiskPath m @ ''.qcow2'') None,
               EvExecCombinedOutput (qemuImg m) (convertArgs (UserDataDiskPath m)) (log, None)] @ esa, wa)) \<and>
    (limaDiskExists m w = (True, es0, w0) \<longrightarrow>
     formatNormalization m w0 = (None, es1, w1) \<longrightarrow>
     fsReadlinkIfPossible m (limaPath m) w1 = ((t, Some e), w2) \<longrightarrow>
     EnsureUserDataDisk m w =
       (Some (ErrFs e), es0 @ es1 @ [EvReadlink (limaPath m) (t, Some e)], w2)) \<and>
    (limaDiskExists m w = (True, es0, w0) \<longrightarrow>
     formatNormalization m w0 = (None, es1, w1) \<longrightarrow>
     fsReadlinkIfPossible m (limaPath m) w1 = ((t, None), w2) \<longrightarrow>
     t \<noteq> UserDataDiskPath m \<longrightarrow>
     attachPersistentDiskToLimaDisk m w2 = (Some x, esa, wa) \<longrightarrow>
     EnsureUserDataDisk m w =
       (Some x, es0 @ es1 @ [EvReadlink (limaPath m) (t, None)] @ esa, wa)) \<and>
    (limaDiskExists m w = (False, es0, w0) \<longrightarrow>
     lccCombinedOutput m createArgs w0 = ((logs, Some e), w1) \<longrightarrow>
     EnsureUserDataDisk m w =
       (Some (ErrCreateDisk logs), es0 @ [EvLimaCombinedOutput createArgs (logs, Some e)], w1)) \<and>
    (limaDiskExists m w = (False, es0, w0) \<longrightarrow>
     lccCombinedOutput m createArgs w0 = ((logs, None), w1) \<longrightarrow>
     attachPersistentDiskToLimaDisk m w1 = (Some x, esa, wa) \<longrightarrow>
     EnsureUserDataDisk m w =
       (Some x, es0 @ [EvLimaCombinedOutput createArgs (logs, None)] @ esa, wa)) \<and>
    (fsStat m (UserDataDiskPath m) w = (st, w1) \<longrightarrow>
     fsStat m (pathDir m (UserDataDiskPath m)) w1 = (sd, w2) \<longrightarrow>
     fsMkdirAll m (pathDir m (UserDataDiskPath m)) 493 w2 = (mk, w3) \<longrightarrow>
     fsRename m (limaPath m) (UserDataDiskPath m) (if sd = Some ErrNotExist then w3 else w2) = (mv, w4) \<longrightarrow>
     fsStat m (limaPath m) (if st = None then w1 else w4) = (sl, w5) \<longrightarrow>
     fsRemove m (limaPath m) w5 = (rm, w6) \<longrightarrow>
     fsSymlinkIfPossible m (UserDataDiskPath m) (limaPath m) (if sl = None then w6 else w5) = (ln, w7) \<longrightarrow>
     attachPersistentDiskToLimaDisk m w = linkRepairOutcome m st sd mk w3 mv w4 sl w5 rm w6 ln w7) \<and>
    (EnsureUserDataDisk m w = (Some x, es, w') \<longrightarrow>
     es \<noteq> [] \<and> reported m x (last es) \<and> ((\<forall>logs. x \<noteq> ErrUnlockDisk logs) \<longrightarrow> noUnlock es)) \<and>
    (hm = hostEnv vm home layout lima bin \<longrightarrow>
     pathsDistinct hm \<longrightarrow>
     EnsureUserDataDisk hm hw = (Some hx, hes, hw') \<longrightarrow>
     files hw' (lockPath hm) = files hw (lockPath hm))"
proof (intro conjI impI, goal_cases)
  case 1
  then show ?case by (rule info_failure_run)
next
  case 2
  then show ?case by (rule info_undecodable_run)
next
  case 3
  then show ?case by (rule rename_failure_run)
next
  case 4
  then show ?case by (rule convert_failure_run)
next
  case 5
  then show ?case by (rule relink_failure_run)
next
  case 6
  from link_check_run[OF 6] show ?case by simp
next
  case 7
  from link_check_run[OF 7(1,2,3)] 7(4,5) show ?case by simp
next
  case 8
  then show ?case by (rule create_failure_run)
next
  case 9
  then show ?case by (rule create_link_failure_run)
next
  case 10
  then show ?case by (rule attach_outcome)
next
  case 11
  from Ensure_error_last[OF 11] show ?case by simp
next
  case 12
  from Ensure_error_last[OF 12] show ?case by simp
next
  case 13
  from Ensure_error_last[OF 13(1)] 13(2) show ?case by simp
next
  case 14
  from host_marker_kept[OF 14] host_ops(9)[OF 14(1)] show ?case by simp
qed

theorem first_error_returned_witness:
  "fst (EnsureUserDataDisk (sampleEnv ''vz'') lostHost) =
     Some (ErrGetDiskInfo sampleDisk (ErrOther ''exit status 1'')) \<and>
   fst (snd (EnsureUserDataDisk (sampleEnv ''vz'') lostHost)) =
     [EvLimaOutput lsArgs (jsonField ''name'' diskName, None),
      EvExecCombinedOutput ''/lima/bin/qemu-img'' (infoArgs sampleDisk) (''Could not open'', Some (ErrOther ''exit status 1''))] \<and>
   fst (EnsureUserDataDisk garbledInfoEnv linkedHost) =
     Some (ErrUnmarshalDiskInfo sampleDisk (ErrOther ''invalid character'')) \<and>
   fst (snd (EnsureUserDataDisk garbledInfoEnv linkedHost)) =
     [EvLimaOutput lsArgs (jsonField ''name'' diskName, None),
      EvExecCombinedOutput ''/lima/bin/qemu-img'' (infoArgs sampleDisk) (jsonField ''format'' ''raw'', None)] \<and>
   fst (EnsureUserDataDisk (deniedEnv ''vz'') qcowHost) =
     Some (ErrRenameDisk (ErrOther ''permission denied'')) \<and>
   fst (snd (EnsureUserDataDisk (deniedEnv ''vz'') qcowHost)) =
     [EvLimaOutput lsArgs (jsonField ''name'' diskName, None),
      EvExecCombinedOutput ''/lima/bin/qemu-img'' (infoArgs sampleDisk) (jsonField ''format'' ''qcow2'', None),
      EvRename sampleDisk (sampleDisk @ ''.qcow2'') (Some (ErrOther ''permission denied''))] \<and>
   fst (EnsureUserDataDisk (sampleEnv ''vz'') vmdkHost) =
     Some (ErrConvertDisk sampleDisk (ErrOther ''exit status 1'')) \<and>
   fst (snd (EnsureUserDataDisk (sampleEnv ''vz'') vmdkHost)) =
     [EvLimaOutput lsArgs (jsonField ''name'' diskName, None),
      EvExecCombinedOutput ''/lima/bin/qemu-img'' (infoArgs sampleDisk) (jsonField ''format'' ''vmdk'', None),
      EvRename sampleDisk (sampleDisk @ ''.qcow2'') None,
      EvExecCombinedOutput ''/lima/bin/qemu-img'' (convertArgs sampleDisk) (''Image is not in qcow2 format'', Some (ErrOther ''exit status 1''))] \<and>
   fst (EnsureUserDataDisk unlinkableEnv qcowHost) =
     Some (ErrFs (ErrOther ''read-only file system'')) \<and>
   fst (snd (EnsureUserDataDisk unlinkableEnv qcowHost)) =
     [EvLimaOutput lsArgs (jsonField ''name'' diskName, None),
      EvExecCombinedOutput ''/lima/bin/qemu-img'' (infoArgs sampleDisk) (jsonField ''format'' ''qcow2'', None),
      EvRename sampleDisk (sampleDisk @ ''.qcow2'') None,
      EvExecCombinedOutput ''/lima/bin/qemu-img'' (convertArgs sampleDisk) ([], None),
      EvStat sampleDisk None,
      EvStat sampleSlot None,
      EvRemove sampleSlot None,
      EvSymlink sampleDisk sampleSlot (Some (ErrOther ''read-only file system''))] \<and>
   fst (EnsureUserDataDisk unreadableEnv linkedHost) =
     Some (ErrFs (ErrOther ''input/output error'')) \<and>
   fst (snd (EnsureUserDataDisk unreadableEnv linkedHost)) =
     [EvLimaOutput lsArgs (jsonField ''name'' diskName, None),
      EvExecCombinedOutput ''/lima/bin/qemu-img'' (infoArgs sampleDisk) (jsonField ''format'' ''raw'', None),
      EvReadlink sampleSlot ([], Some (ErrOther ''input/output error''))] \<and>
   fst (EnsureUserDataDisk (sampleEnv ''qemu'') lostHost) =
     Some (ErrMovePersistent ErrNotExist) \<and>
   fst (snd (EnsureUserDataDisk (sampleEnv ''qemu'') lostHost)) =
     [EvLimaOutput lsArgs (jsonField ''name'' diskName, None),
      EvReadlink sampleSlot ([], None),
      EvStat sampleDisk (Some ErrNotExist),
      EvStat ''/home/u/.finch/.disks'' (Some ErrNotExist),
      EvMkdirAll ''/home/u/.finch/.disks'' 493 None,
      EvRename sampleSlot sampleDisk (Some ErrNotExist)] \<and>
   fst (EnsureUserDataDisk failingEnv freshHost) =
     Some (ErrCreateDisk ''permission denied'') \<and>
   fst (snd (EnsureUserDataDisk failingEnv freshHost)) =
     [EvLimaOutput lsArgs ([], Some (ErrOther ''exit status 1'')),
      EvLimaCombinedOutput createArgs (''permission denied'', Some (ErrOther ''exit status 1''))] \<and>
   fst (EnsureUserDataDisk (deniedEnv ''vz'') freshHost) =
     Some (ErrMovePersistent (ErrOther ''permission denied'')) \<and>
   fst (snd (EnsureUserDataDisk (deniedEnv ''vz'') freshHost)) =
     [EvLimaOutput lsArgs ([], Some (ErrOther ''exit status 1'')),
      EvLimaCombinedOutput createArgs ([], None),
      EvStat sampleDisk (Some ErrNotExist),
      EvStat ''/home/u/.finch/.disks'' (Some ErrNotExist),
      EvMkdirAll ''/home/u/.finch/.disks'' 493 None,
      EvRename sampleSlot sampleDisk (Some (ErrOther ''permission denied''))] \<and>
   fst (attachPersistentDiskToLimaDisk (sampleEnv ''qemu'') lostHost) = Some (ErrMovePersistent ErrNotExist) \<and>
   fst (snd (attachPersistentDiskToLimaDisk (sampleEnv ''qemu'') lostHost)) =
     [EvStat sampleDisk (Some ErrNotExist),
      EvStat ''/home/u/.finch/.disks'' (Some ErrNotExist),
      EvMkdirAll ''/home/u/.finch/.disks'' 493 None,
      EvRename sampleSlot sampleDisk (Some ErrNotExist)] \<and>
   fst (snd (EnsureUserDataDisk (sampleEnv ''vz'') lostHost)) \<noteq> [] \<and>
   reported (sampleEnv ''vz'') (ErrGetDiskInfo sampleDisk (ErrOther ''exit status 1''))
     (last (fst (snd (EnsureUserDataDisk (sampleEnv ''vz'') lostHost)))) \<and>
   noUnlock (fst (snd (EnsureUserDataDisk (sampleEnv ''vz'') lostHost))) \<and>
   pathsDistinct (sampleEnv ''vz'') \<and>
   files lostHost sampleLock = Some (File []) \<and>
   files (snd (snd (EnsureUserDataDisk (sampleEnv ''vz'') lostHost))) sampleLock = Some (File [])"
proof -
  have a: "fst (EnsureUserDataDisk (sampleEnv ''vz'') lostHost) =
     Some (ErrGetDiskInfo sampleDisk (ErrOther ''exit status 1'')) \<and>
   fst (snd (EnsureUserDataDisk (sampleEnv ''vz'') lostHost)) =
     [EvLimaOutput lsArgs (jsonField ''name'' diskName, None),
      EvExecCombinedOutput ''/lima/bin/qemu-img'' (infoArgs sampleDisk) (''Could not open'', Some (ErrOther ''exit status 1''))]"
  proof -
    define l where "l = limaDiskExists (sampleEnv ''vz'') lostHost"
    have h0: "limaDiskExists (sampleEnv ''vz'') lostHost = (True, fst (snd l), snd (snd l))"
      unfolding l_def by (rule run_eq) code_simp
    have tl: "fst (snd l) = [EvLimaOutput lsArgs (jsonField ''name'' diskName, None)]"
      unfolding l_def by code_simp
    have h1: "VMType (sampleEnv ''vz'') = ''vz''"
      by code_simp
    define i where "i = eccCombinedOutput (sampleEnv ''vz'') (qemuImg (sampleEnv ''vz'')) (infoArgs (UserDataDiskPath (sampleEnv ''vz''))) (snd (snd l))"
    have h2: "eccCombinedOutput (sampleEnv ''vz'') (qemuImg (sampleEnv ''vz'')) (infoArgs (UserDataDiskPath (sampleEnv ''vz''))) (snd (snd l)) = ((''Could not open'', Some (ErrOther ''exit status 1'')), snd i)"
      unfolding i_def l_def by (rule pair_eq) code_simp
    note r = first_error_returned[THEN conjunct1, rule_format, OF h0 h1 h2]
    have p: "UserDataDiskPath (sampleEnv ''vz'') = sampleDisk" "limaPath (sampleEnv ''vz'') = sampleSlot" "qemuImg (sampleEnv ''vz'') = ''/lima/bin/qemu-img''"
      by code_simp+
    show ?thesis unfolding r using p tl by simp
  qed
  have b: "fst (EnsureUserDataDisk garbledInfoEnv linkedHost) =
     Some (ErrUnmarshalDiskInfo sampleDisk (ErrOther ''invalid character'')) \<and>
   fst (snd (EnsureUserDataDisk garbledInfoEnv linkedHost)) =
     [EvLimaOutput lsArgs (jsonField ''name'' diskName, None),
      EvExecCombinedOutput ''/lima/bin/qemu-img'' (infoArgs sampleDisk) (jsonField ''format'' ''raw'', None)]"
  proof -
    define l where "l = limaDiskExists garbledInfoEnv linkedHost"
    have h0: "limaDiskExists garbledInfoEnv linkedHost = (True, fst (snd l), snd (snd l))"
      unfolding l_def by (rule run_eq) code_simp
    have tl: "fst (snd l) = [EvLimaOutput lsArgs (jsonField ''name'' diskName, None)]"
      unfolding l_def by code_simp
    have h1: "VMType garbledInfoEnv = ''vz''"
      by code_simp
    define i where "i = eccCombinedOutput garbledInfoEnv (qemuImg garbledInfoEnv) (infoArgs (UserDataDiskPath garbledInfoEnv)) (snd (snd l))"
    have h2: "eccCombinedOutput garbledInfoEnv (qemuImg garbledInfoEnv) (infoArgs (UserDataDiskPath garbledInfoEnv)) (snd (snd l)) = ((jsonField ''format'' ''raw'', None), snd i)"
      unfolding i_def l_def by (rule pair_eq) code_simp
    have h3: "unmarshalQemuDiskInfo garbledInfoEnv (jsonField ''format'' ''raw'') = Inl (ErrOther ''invalid character'')"
      by code_simp
    note r = first_error_returned[THEN conjunct2, THEN conjunct1, rule_format, OF h0 h1 h2 h3]
    have p: "UserDataDiskPath garbledInfoEnv = sampleDisk" "limaPath garbledInfoEnv = sampleSlot" "qemuImg garbledInfoEnv = ''/lima/bin/qemu-img''"
      by code_simp+
    show ?thesis unfolding r using p tl by simp
  qed
  have c: "fst (EnsureUserDataDisk (deniedEnv ''vz'') qcowHost) =
     Some (ErrRenameDisk (ErrOther ''permission denied'')) \<and>
   fst (snd (EnsureUserDataDisk (deniedEnv ''vz'') qcowHost)) =
     [EvLimaOutput lsArgs (jsonField ''name'' diskName, None),
      EvExecCombinedOutput ''/lima/bin/qemu-img'' (infoArgs sampleDisk) (jsonField ''format'' ''qcow2'', None),
      EvRename sampleDisk (sampleDisk @ ''.qcow2'') (Some (ErrOther ''permission denied''))]"
  proof -
    define l where "l = limaDiskExists (deniedEnv ''vz'') qcowHost"
    have h0: "limaDiskExists (deniedEnv ''vz'') qcowHost = (True, fst (snd l), snd (snd l))"
      unfolding l_def by (rule run_eq) code_simp
    have tl: "fst (snd l) = [EvLimaOutput lsArgs (jsonField ''name'' diskName, None)]"
      unfolding l_def by code_simp
    have h1: "VMType (deniedEnv ''vz'') = ''vz''"
      by code_simp
    define i where "i = eccCombinedOutput (deniedEnv ''vz'') (qemuImg (deniedEnv ''vz'')) (infoArgs (UserDataDiskPath (deniedEnv ''vz''))) (snd (snd l))"
    have h2: "eccCombinedOutput (deniedEnv ''vz'') (qemuImg (deniedEnv ''vz'')) (infoArgs (UserDataDiskPath (deniedEnv ''vz''))) (snd (snd l)) = ((jsonField ''format'' ''qcow2'', None), snd i)"
      unfolding i_def l_def by (rule pair_eq) code_simp
    have h3: "unmarshalQemuDiskInfo (deniedEnv ''vz'') (jsonField ''format'' ''qcow2'') = Inr \<lparr>VirtualSize = 0, Filename = [], Format = ''qcow2'', ActualSize = 0, DirtyFlag = False\<rparr>"
      by code_simp
    have h4: "Format \<lparr>VirtualSize = 0, Filename = [], Format = ''qcow2'', ActualSize = 0, DirtyFlag = False\<rparr> \<noteq> ''raw''"
      by simp
    define r where "r = fsRename (deniedEnv ''vz'') (UserDataDiskPath (deniedEnv ''vz'')) (UserDataDiskPath (deniedEnv ''vz'') @ ''.qcow2'') (snd i)"
    have h5: "fsRename (deniedEnv ''vz'') (UserDataDiskPath (deniedEnv ''vz'')) (UserDataDiskPath (deniedEnv ''vz'') @ ''.qcow2'') (snd i) = (Some (ErrOther ''permission denied''), snd r)"
      unfolding r_def i_def l_def by (rule pair_eq) code_simp
    note r = first_error_returned[THEN conjunct2, THEN conjunct2, THEN conjunct1, rule_format, OF h0 h1 h2 h3 h4 h5]
    have p: "UserDataDiskPath (deniedEnv ''vz'') = sampleDisk" "limaPath (deniedEnv ''vz'') = sampleSlot" "qemuImg (deniedEnv ''vz'') = ''/lima/bin/qemu-img''"
      by code_simp+
    show ?thesis unfolding r using p tl by simp
  qed
  have d: "fst (EnsureUserDataDisk (sampleEnv ''vz'') vmdkHost) =
     Some (ErrConvertDisk sampleDisk (ErrOther ''exit status 1'')) \<and>
   fst (snd (EnsureUserDataDisk (sampleEnv ''vz'') vmdkHost)) =
     [EvLimaOutput lsArgs (jsonField ''name'' diskName, None),
      EvExecCombinedOutput ''/lima/bin/qemu-img'' (infoArgs sampleDisk) (jsonField ''format'' ''vmdk'', None),
      EvRename sampleDisk (sampleDisk @ ''.qcow2'') None,
      EvExecCombinedOutput ''/lima/bin/qemu-img'' (convertArgs sampleDisk) (''Image is not in qcow2 format'', Some (ErrOther ''exit status 1''))]"
  proof -
    define l where "l = limaDiskExists (sampleEnv ''vz'') vmdkHost"
    have h0: "limaDiskExists (sampleEnv ''vz'') vmdkHost = (True, fst (snd l), snd (snd l))"
      unfolding l_def by (rule run_eq) code_simp
    have tl: "fst (snd l) = [EvLimaOutput lsArgs (jsonField ''name'' diskName, None)]"
      unfolding l_def by code_simp
    have h1: "VMType (sampleEnv ''vz'') = ''vz''"
      by code_simp
    define i where "i = eccCombinedOutput (sampleEnv ''vz'') (qemuImg (sampleEnv ''vz'')) (infoArgs (UserDataDiskPath (sampleEnv ''vz''))) (snd (snd l))"
    have h2: "eccCombinedOutput (sampleEnv ''vz'') (qemuImg (sampleEnv ''vz'')) (infoArgs (UserDataDiskPath (sampleEnv ''vz''))) (snd (snd l)) = ((jsonField ''format'' ''vmdk'', None), snd i)"
      unfolding i_def l_def by (rule pair_eq) code_simp
    have h3: "unmarshalQemuDiskInfo (sampleEnv ''vz'') (jsonField ''format'' ''vmdk'') = Inr \<lparr>VirtualSize = 0, Filename = [], Format = ''vmdk'', ActualSize = 0, DirtyFlag = False\<rparr>"
      by code_simp
    have h4: "Format \<lparr>VirtualSize = 0, Filename = [], Format = ''vmdk'', ActualSize = 0, DirtyFlag = False\<rparr> \<noteq> ''raw''"
      by simp
    define r where "r = fsRename (sampleEnv ''vz'') (UserDataDiskPath (sampleEnv ''vz'')) (UserDataDiskPath (sampleEnv ''vz'') @ ''.qcow2'') (snd i)"
    have h5: "fsRename (sampleEnv ''vz'') (UserDataDiskPath (sampleEnv ''vz'')) (UserDataDiskPath (sampleEnv ''vz'') @ ''.qcow2'') (snd i) = (None, snd r)"
      unfolding r_def i_def l_def by (rule pair_eq) code_simp
    define c where "c = eccCombinedOutput (sampleEnv ''vz'') (qemuImg (sampleEnv ''vz'')) (convertArgs (UserDataDiskPath (sampleEnv ''vz''))) (snd r)"
    have h6: "eccCombinedOutput (sampleEnv ''vz'') (qemuImg (sampleEnv ''vz'')) (convertArgs (UserDataDiskPath (sampleEnv ''vz''))) (snd r) = ((''Image is not in qcow2 format'', Some (ErrOther ''exit status 1'')), snd c)"
      unfolding c_def r_def i_def l_def by (rule pair_eq) code_simp
    note r = first_error_returned[THEN conjunct2, THEN conjunct2, THEN conjunct2, THEN conjunct1, rule_format, OF h0 h1 h2 h3 h4 h5 h6]
    have p: "UserDataDiskPath (sampleEnv ''vz'') = sampleDisk" "limaPath (sampleEnv ''vz'') = sampleSlot" "qemuImg (sampleEnv ''vz'') = ''/lima/bin/qemu-img''"
      by code_simp+
    show ?thesis unfolding r using p tl by simp
  qed
  have e: "fst (EnsureUserDataDisk unlinkableEnv qcowHost) =
     Some (ErrFs (ErrOther ''read-only file system'')) \<and>
   fst (snd (EnsureUserDataDisk unlinkableEnv qcowHost)) =
     [EvLimaOutput lsArgs (jsonField ''name'' diskName, None),
      EvExecCombinedOutput ''/lima/bin/qemu-img'' (infoArgs sampleDisk) (jsonField ''format'' ''qcow2'', None),
      EvRename sampleDisk (sampleDisk @ ''.qcow2'') None,
      EvExecCombinedOutput ''/lima/bin/qemu-img'' (convertArgs sampleDisk) ([], None),
      EvStat sampleDisk None,
      EvStat sampleSlot None,
      EvRemove sampleSlot None,
      EvSymlink sampleDisk sampleSlot (Some (ErrOther ''read-only file system''))]"
  proof -
    define l where "l = limaDiskExists unlinkableEnv qcowHost"
    have h0: "limaDiskExists unlinkableEnv qcowHost = (True, fst (snd l), snd (snd l))"
      unfolding l_def by (rule run_eq) code_simp
    have tl: "fst (snd l) = [EvLimaOutput lsArgs (jsonField ''name'' diskName, None)]"
      unfolding l_def by code_simp
    have h1: "VMType unlinkableEnv = ''vz''"
      by code_simp
    define i where "i = eccCombinedOutput unlinkableEnv (qemuImg unlinkableEnv) (infoArgs (UserDataDiskPath unlinkableEnv)) (snd (snd l))"
    have h2: "eccCombinedOutput unlinkableEnv (qemuImg unlinkableEnv) (infoArgs (UserDataDiskPath unlinkableEnv)) (snd (snd l)) = ((jsonField ''format'' ''qcow2'', None), snd i)"
      unfolding i_def l_def by (rule pair_eq) code_simp
    have h3: "unmarshalQemuDiskInfo unlinkableEnv (jsonField ''format'' ''qcow2'') = Inr \<lparr>VirtualSize = 0, Filename = [], Format = ''qcow2'', ActualSize = 0, DirtyFlag = False\<rparr>"
      by code_simp
    have h4: "Format \<lparr>VirtualSize = 0, Filename = [], Format = ''qcow2'', ActualSize = 0, DirtyFlag = False\<rparr> \<noteq> ''raw''"
      by simp
    define r where "r = fsRename unlinkableEnv (UserDataDiskPath unlinkableEnv) (UserDataDiskPath unlinkableEnv @ ''.qcow2'') (snd i)"
    have h5: "fsRename unlinkableEnv (UserDataDiskPath unlinkableEnv) (UserDataDiskPath unlinkableEnv @ ''.qcow2'') (snd i) = (None, snd r)"
      unfolding r_def i_def l_def by (rule pair_eq) code_simp
    define c where "c = eccCombinedOutput unlinkableEnv (qemuImg unlinkableEnv) (convertArgs (UserDataDiskPath unlinkableEnv)) (snd r)"
    have h6: "eccCombinedOutput unlinkableEnv (qemuImg unlinkableEnv) (convertArgs (UserDataDiskPath unlinkableEnv)) (snd r) = (([], None), snd c)"
      unfolding c_def r_def i_def l_def by (rule pair_eq) code_simp
    define a where "a = attachPersistentDiskToLimaDisk unlinkableEnv (snd c)"
    have h7: "attachPersistentDiskToLimaDisk unlinkableEnv (snd c) = (Some (ErrFs (ErrOther ''read-only file system'')), fst (snd a), snd (snd a))"
      unfolding a_def c_def r_def i_def l_def by (rule run_eq) code_simp
    have ta: "fst (snd a) = [EvStat sampleDisk None,
        EvStat sampleSlot None,
        EvRemove sampleSlot None,
        EvSymlink sampleDisk sampleSlot (Some (ErrOther ''read-only file system''))]"
      unfolding a_def c_def r_def i_def l_def by code_simp
    note r = first_error_returned[THEN conjunct2, THEN conjunct2, THEN conjunct2, THEN conjunct2, THEN conjunct1, rule_format, OF h0 h1 h2 h3 h4 h5 h6 h7]
    have p: "UserDataDiskPath unlinkableEnv = sampleDisk" "limaPath unlinkableEnv = sampleSlot" "qemuImg unlinkableEnv = ''/lima/bin/qemu-img''"
      by code_simp+
    show ?thesis unfolding r using p tl ta by simp
  qed
  have f: "fst (EnsureUserDataDisk unreadableEnv linkedHost) =
     Some (ErrFs (ErrOther ''input/output error'')) \<and>
   fst (snd (EnsureUserDataDisk unreadableEnv linkedHost)) =
     [EvLimaOutput lsArgs (jsonField ''name'' diskName, None),
      EvExecCombinedOutput ''/lima/bin/qemu-img'' (infoArgs sampleDisk) (jsonField ''format'' ''raw'', None),
      EvReadlink sampleSlot ([], Some (ErrOther ''input/output error''))]"
  proof -
    define l where "l = limaDiskExists unreadableEnv linkedHost"
    have h0: "limaDiskExists unreadableEnv linkedHost = (True, fst (snd l), snd (snd l))"
      unfolding l_def by (rule run_eq) code_simp
    have tl: "fst (snd l) = [EvLimaOutput lsArgs (jsonField ''name'' diskName, None)]"
      unfolding l_def by code_simp
    define f where "f = formatNormalization unreadableEnv (snd (snd l))"
    have h1: "formatNormalization unreadableEnv (snd (snd l)) = (None, fst (snd f), snd (snd f))"
      unfolding f_def l_def by (rule run_eq) code_simp
    have tf: "fst (snd f) = [EvExecCombinedOutput ''/lima/bin/qemu-img'' (infoArgs sampleDisk) (jsonField ''format'' ''raw'', None)]"
      unfolding f_def l_def by code_simp
    define q where "q = fsReadlinkIfPossible unreadableEnv (limaPath unreadableEnv) (snd (snd f))"
    have h2: "fsReadlinkIfPossible unreadableEnv (limaPath unreadableEnv) (snd (snd f)) = (([], Some (ErrOther ''input/output error'')), snd q)"
      unfolding q_def f_def l_def by (rule pair_eq) code_simp
    note r = first_error_returned[THEN conjunct2, THEN conjunct2, THEN conjunct2, THEN conjunct2, THEN conjunct2, THEN conjunct1, rule_format, OF h0 h1 h2]
    have p: "UserDataDiskPath unreadableEnv = sampleDisk" "limaPath unreadableEnv = sampleSlot" "qemuImg unreadableEnv = ''/lima/bin/qemu-img''"
      by code_simp+
    show ?thesis unfolding r using p tl tf by simp
  qed
  have g: "fst (EnsureUserDataDisk (sampleEnv ''qemu'') lostHost) =
     Some (ErrMovePersistent ErrNotExist) \<and>
   fst (snd (EnsureUserDataDisk (sampleEnv ''qemu'') lostHost)) =
     [EvLimaOutput lsArgs (jsonField ''name'' diskName, None),
      EvReadlink sampleSlot ([], None),
      EvStat sampleDisk (Some ErrNotExist),
      EvStat ''/home/u/.finch/.disks'' (Some ErrNotExist),
      EvMkdirAll ''/home/u/.finch/.disks'' 493 None,
      EvRename sampleSlot sampleDisk (Some ErrNotExist)]"
  proof -
    define l where "l = limaDiskExists (sampleEnv ''qemu'') lostHost"
    have h0: "limaDiskExists (sampleEnv ''qemu'') lostHost = (True, fst (snd l), snd (snd l))"
      unfolding l_def by (rule run_eq) code_simp
    have tl: "fst (snd l) = [EvLimaOutput lsArgs (jsonField ''name'' diskName, None)]"
      unfolding l_def by code_simp
    define f where "f = formatNormalization (sampleEnv ''qemu'') (snd (snd l))"
    have h1: "formatNormalization (sampleEnv ''qemu'') (snd (snd l)) = (None, fst (snd f), snd (snd f))"
      unfolding f_def l_def by (rule run_eq) code_simp
    have tf: "fst (snd f) = []"
      unfolding f_def l_def by code_simp
    define q where "q = fsReadlinkIfPossible (sampleEnv ''qemu'') (limaPath (sampleEnv ''qemu'')) (snd (snd f))"
    have h2: "fsReadlinkIfPossible (sampleEnv ''qemu'') (limaPath (sampleEnv ''qemu'')) (snd (snd f)) = (([], None), snd q)"
      unfolding q_def f_def l_def by (rule pair_eq) code_simp
    have h3: "[] \<noteq> UserDataDiskPath (sampleEnv ''qemu'')"
      by code_simp
    define a where "a = attachPersistentDiskToLimaDisk (sampleEnv ''qemu'') (snd q)"
    have h4: "attachPersistentDiskToLimaDisk (sampleEnv ''qemu'') (snd q) = (Some (ErrMovePersistent ErrNotExist), fst (snd a), snd (snd a))"
      unfolding a_def q_def f_def l_def by (rule run_eq) code_simp
    have ta: "fst (snd a) = [EvStat sampleDisk (Some ErrNotExist),
        EvStat ''/home/u/.finch/.disks'' (Some ErrNotExist),
        EvMkdirAll ''/home/u/.finch/.disks'' 493 None,
        EvRename sampleSlot sampleDisk (Some ErrNotExist)]"
      unfolding a_def q_def f_def l_def by code_simp
    note r = first_error_returned[THEN conjunct2, THEN conjunct2, THEN conjunct2, THEN conjunct2, THEN conjunct2, THEN conjunct2, THEN conjunct1, rule_format, OF h0 h1 h2 h3 h4]
    have p: "UserDataDiskPath (sampleEnv ''qemu'') = sampleDisk" "limaPath (sampleEnv ''qemu'') = sampleSlot" "qemuImg (sampleEnv ''qemu'') = ''/lima/bin/qemu-img''"
      by code_simp+
    show ?thesis unfolding r using p tl tf ta by simp
  qed
  have h: "fst (EnsureUserDataDisk failingEnv freshHost) =
     Some (ErrCreateDisk ''permission denied'') \<and>
   fst (snd (EnsureUserDataDisk failingEnv freshHost)) =
     [EvLimaOutput lsArgs ([], Some (ErrOther ''exit status 1'')),
      EvLimaCombinedOutput createArgs (''permission denied'', Some (ErrOther ''exit status 1''))]"
  proof -
    define l where "l = limaDiskExists failingEnv freshHost"
    have h0: "limaDiskExists failingEnv freshHost = (False, fst (snd l), snd (snd l))"
      unfolding l_def by (rule run_eq) code_simp
    have tl: "fst (snd l) = [EvLimaOutput lsArgs ([], Some (ErrOther ''exit status 1''))]"
      unfolding l_def by code_simp
    define c where "c = lccCombinedOutput failingEnv createArgs (snd (snd l))"
    have h1: "lccCombinedOutput failingEnv createArgs (snd (snd l)) = ((''permission denied'', Some (ErrOther ''exit status 1'')), snd c)"
      unfolding c_def l_def by (rule pair_eq) code_simp
    note r = first_error_returned[THEN conjunct2, THEN conjunct2, THEN conjunct2, THEN conjunct2, THEN conjunct2, THEN conjunct2, THEN conjunct2, THEN conjunct1, rule_format, OF h0 h1]
    have p: "UserDataDiskPath failingEnv = sampleDisk" "limaPath failingEnv = sampleSlot" "qemuImg failingEnv = ''/lima/bin/qemu-img''"
      by code_simp+
    show ?thesis unfolding r using p tl by simp
  qed
  have i: "fst (EnsureUserDataDisk (deniedEnv ''vz'') freshHost) =
     Some (ErrMovePersistent (ErrOther ''permission denied'')) \<and>
   fst (snd (EnsureUserDataDisk (deniedEnv ''vz'') freshHost)) =
     [EvLimaOutput lsArgs ([], Some (ErrOther ''exit status 1'')),
      EvLimaCombinedOutput createArgs ([], None),
      EvStat sampleDisk (Some ErrNotExist),
      EvStat ''/home/u/.finch/.disks'' (Some ErrNotExist),
      EvMkdirAll ''/home/u/.finch/.disks'' 493 None,
      EvRename sampleSlot sampleDisk (Some (ErrOther ''permission denied''))]"
  proof -
    define l where "l = limaDiskExists (deniedEnv ''vz'') freshHost"
    have h0: "limaDiskExists (deniedEnv ''vz'') freshHost = (False, fst (snd l), snd (snd l))"
      unfolding l_def by (rule run_eq) code_simp
    have tl: "fst (snd l) = [EvLimaOutput lsArgs ([], Some (ErrOther ''exit status 1''))]"
      unfolding l_def by code_simp
    define c where "c = lccCombinedOutput (deniedEnv ''vz'') createArgs (snd (snd l))"
    have h1: "lccCombinedOutput (deniedEnv ''vz'') createArgs (snd (snd l)) = (([], None), snd c)"
      unfolding c_def l_def by (rule pair_eq) code_simp
    define a where "a = attachPersistentDiskToLimaDisk (deniedEnv ''vz'') (snd c)"
    have h2: "attachPersistentDiskToLimaDisk (deniedEnv ''vz'') (snd c) = (Some (ErrMovePersistent (ErrOther ''permission denied'')), fst (snd a), snd (snd a))"
      unfolding a_def c_def l_def by (rule run_eq) code_simp
    have ta: "fst (snd a) = [EvStat sampleDisk (Some ErrNotExist),
        EvStat ''/home/u/.finch/.disks'' (Some ErrNotExist),
        EvMkdirAll ''/home/u/.finch/.disks'' 493 None,
        EvRename sampleSlot sampleDisk (Some (ErrOther ''permission denied''))]"
      unfolding a_def c_def l_def by code_simp
    note r = first_error_returned[THEN conjunct2, THEN conjunct2, THEN conjunct2, THEN conjunct2, THEN conjunct2, THEN conjunct2, THEN conjunct2, THEN conjunct2, THEN conjunct1, rule_format, OF h0 h1 h2]
    have p: "UserDataDiskPath (deniedEnv ''vz'') = sampleDisk" "limaPath (deniedEnv ''vz'') = sampleSlot" "qemuImg (deniedEnv ''vz'') = ''/lima/bin/qemu-img''"
      by code_simp+
    show ?thesis unfolding r using p tl ta by simp
  qed
  have j: "fst (attachPersistentDiskToLimaDisk (sampleEnv ''qemu'') lostHost) = Some (ErrMovePersistent ErrNotExist) \<and>
   fst (snd (attachPersistentDiskToLimaDisk (sampleEnv ''qemu'') lostHost)) =
     [EvStat sampleDisk (Some ErrNotExist),
      EvStat ''/home/u/.finch/.disks'' (Some ErrNotExist),
      EvMkdirAll ''/home/u/.finch/.disks'' 493 None,
      EvRename sampleSlot sampleDisk (Some ErrNotExist)]"
  proof -
    define s1 where "s1 = fsStat (sampleEnv ''qemu'') (UserDataDiskPath (sampleEnv ''qemu'')) lostHost"
    define s2 where "s2 = fsStat (sampleEnv ''qemu'') (pathDir (sampleEnv ''qemu'') (UserDataDiskPath (sampleEnv ''qemu''))) (snd s1)"
    define s3 where "s3 = fsMkdirAll (sampleEnv ''qemu'') (pathDir (sampleEnv ''qemu'') (UserDataDiskPath (sampleEnv ''qemu''))) 493 (snd s2)"
    define s4 where "s4 = fsRename (sampleEnv ''qemu'') (limaPath (sampleEnv ''qemu'')) (UserDataDiskPath (sampleEnv ''qemu'')) (if fst s2 = Some ErrNotExist then snd s3 else snd s2)"
    define s5 where "s5 = fsStat (sampleEnv ''qemu'') (limaPath (sampleEnv ''qemu'')) (if fst s1 = None then snd s1 else snd s4)"
    define s6 where "s6 = fsRemove (sampleEnv ''qemu'') (limaPath (sampleEnv ''qemu'')) (snd s5)"
    define s7 where "s7 = fsSymlinkIfPossible (sampleEnv ''qemu'') (UserDataDiskPath (sampleEnv ''qemu'')) (limaPath (sampleEnv ''qemu'')) (if fst s5 = None then snd s6 else snd s5)"
    define res where "res = linkRepairOutcome (sampleEnv ''qemu'') (fst s1) (fst s2) (fst s3) (snd s3) (fst s4) (snd s4)
        (fst s5) (snd s5) (fst s6) (snd s6) (fst s7) (snd s7)"
    note defs = res_def s7_def s6_def s5_def s4_def s3_def s2_def s1_def
    have h1: "fsStat (sampleEnv ''qemu'') (UserDataDiskPath (sampleEnv ''qemu'')) lostHost = (fst s1, snd s1)"
      unfolding s1_def by (rule prod.collapse[symmetric])
    have h2: "fsStat (sampleEnv ''qemu'') (pathDir (sampleEnv ''qemu'') (UserDataDiskPath (sampleEnv ''qemu''))) (snd s1) = (fst s2, snd s2)"
      unfolding s2_def by (rule prod.collapse[symmetric])
    have h3: "fsMkdirAll (sampleEnv ''qemu'') (pathDir (sampleEnv ''qemu'') (UserDataDiskPath (sampleEnv ''qemu''))) 493 (snd s2) = (fst s3, snd s3)"
      unfolding s3_def by (rule prod.collapse[symmetric])
    have h4: "fsRename (sampleEnv ''qemu'') (limaPath (sampleEnv ''qemu'')) (UserDataDiskPath (sampleEnv ''qemu'')) (if fst s2 = Some ErrNotExist then snd s3 else snd s2) =
        (fst s4, snd s4)"
      unfolding s4_def by (rule prod.collapse[symmetric])
    have h5: "fsStat (sampleEnv ''qemu'') (limaPath (sampleEnv ''qemu'')) (if fst s1 = None then snd s1 else snd s4) = (fst s5, snd s5)"
      unfolding s5_def by (rule prod.collapse[symmetric])
    have h6: "fsRemove (sampleEnv ''qemu'') (limaPath (sampleEnv ''qemu'')) (snd s5) = (fst s6, snd s6)"
      unfolding s6_def by (rule prod.collapse[symmetric])
    have h7: "fsSymlinkIfPossible (sampleEnv ''qemu'') (UserDataDiskPath (sampleEnv ''qemu'')) (limaPath (sampleEnv ''qemu'')) (if fst s5 = None then snd s6 else snd s5) =
        (fst s7, snd s7)"
      unfolding s7_def by (rule prod.collapse[symmetric])
    note r = first_error_returned[THEN conjunct2, THEN conjunct2, THEN conjunct2, THEN conjunct2, THEN conjunct2, THEN conjunct2, THEN conjunct2, THEN conjunct2, THEN conjunct2, THEN conjunct1, rule_format, OF h1 h2 h3 h4 h5 h6 h7, folded res_def]
    have e: "fst res = Some (ErrMovePersistent ErrNotExist)"
      unfolding defs by code_simp
    have t: "fst (snd res) =
     [EvStat sampleDisk (Some ErrNotExist),
      EvStat ''/home/u/.finch/.disks'' (Some ErrNotExist),
      EvMkdirAll ''/home/u/.finch/.disks'' 493 None,
      EvRename sampleSlot sampleDisk (Some ErrNotExist)]"
      unfolding defs by code_simp
    show ?thesis unfolding r using e t by simp
  qed

  have k: "fst (snd (EnsureUserDataDisk (sampleEnv ''vz'') lostHost)) \<noteq> [] \<and>
   reported (sampleEnv ''vz'') (ErrGetDiskInfo sampleDisk (ErrOther ''exit status 1''))
     (last (fst (snd (EnsureUserDataDisk (sampleEnv ''vz'') lostHost)))) \<and>
   noUnlock (fst (snd (EnsureUserDataDisk (sampleEnv ''vz'') lostHost))) \<and>
   pathsDistinct (sampleEnv ''vz'') \<and>
   files lostHost sampleLock = Some (File []) \<and>
   files (snd (snd (EnsureUserDataDisk (sampleEnv ''vz'') lostHost))) sampleLock = Some (File [])"
  proof -
    have r: "fst (EnsureUserDataDisk (sampleEnv ''vz'') lostHost) =
       Some (ErrGetDiskInfo sampleDisk (ErrOther ''exit status 1''))"
      using a by simp
    have f: "files lostHost sampleLock = Some (File [])"
      by (simp add: lostHost_def)
    note last_ev = first_error_returned[THEN conjunct2, THEN conjunct2, THEN conjunct2, THEN conjunct2, THEN conjunct2, THEN conjunct2, THEN conjunct2, THEN conjunct2, THEN conjunct2, THEN conjunct2, THEN conjunct1, rule_format, OF run_eq[OF r]]
    note kept = first_error_returned[THEN conjunct2, THEN conjunct2, THEN conjunct2, THEN conjunct2, THEN conjunct2, THEN conjunct2, THEN conjunct2, THEN conjunct2, THEN conjunct2, THEN conjunct2, THEN conjunct2, rule_format, OF sample_is_host sample_distinct run_eq[OF r]]
    from last_ev kept f sample_distinct show ?thesis by (simp add: sample_paths)
  qed

  from a b c d e f g h i j k show ?thesis by (intro conjI) simp_all
qed




end
